theory Spec2Isabelle
  imports Complex_Main "HOL-Library.Signed_Division"
begin

section \<open>The shaders of \<^verbatim>\<open>swingline.c\<close>\<close>

text \<open>
  The vertex stage of the Voronoi program (\<^verbatim>\<open>voronoi_vert_src\<close>); its output
  \<^verbatim>\<open>color_\<close> is the field \<open>frag_color\<close>. GLSL's \<^verbatim>\<open>int\<close>
  is a 32-bit signed integer; its \<^verbatim>\<open>/\<close> and \<^verbatim>\<open>%\<close> truncate, so they are
  \<open>sdiv\<close> and \<open>smod\<close>. The divisions by \<^verbatim>\<open>255.0f\<close> are single-precision
  in the shader; here they are exact divisions of real numbers.
\<close>

type_synonym vec2 = "real \<times> real"
type_synonym vec3 = "real \<times> real \<times> real"
type_synonym vec4 = "real \<times> real \<times> real \<times> real"

record vert_out =
  gl_Position :: vec4
  frag_color :: vec3

definition voronoi_vert :: "vec3 \<Rightarrow> vec2 \<Rightarrow> int \<Rightarrow> vert_out" where
  "voronoi_vert pos offset gl_InstanceID =
     (let r = gl_InstanceID smod 256;
          g = (gl_InstanceID sdiv 256) smod 256;
          b = (gl_InstanceID sdiv 65536) smod 256
      in \<lparr> gl_Position = (fst pos + fst offset, fst (snd pos) + snd offset, snd (snd pos), 1),
           frag_color = (real_of_int r / 255, real_of_int g / 255, real_of_int b / 255) \<rparr>)"

text \<open>The fragment stage of the Voronoi program (\<^verbatim>\<open>voronoi_frag_src\<close>).\<close>

definition voronoi_frag :: "vec3 \<Rightarrow> vec4" where
  "voronoi_frag c = (fst c, fst (snd c), snd (snd c), 1)"

text \<open>
  Modelled from the spec: the read-back of a colour "sampled at 8 bits per channel" and
  the inverse of the instance colour encoding, neither of which is in the source (the
  program only displays the colour attachment). The attachment is \<^verbatim>\<open>GL_RGB\<close> with
  \<^verbatim>\<open>GL_UNSIGNED_BYTE\<close> channels: a component \<open>c\<close> of \<open>[0,1]\<close> is stored as the
  integer nearest to \<open>255 * c\<close>.
\<close>

definition store_channel :: "real \<Rightarrow> int" where
  "store_channel c = round (255 * max 0 (min 1 c))"

definition store_rgb :: "vec4 \<Rightarrow> int \<times> int \<times> int" where
  "store_rgb c = (store_channel (fst c), store_channel (fst (snd c)),
                  store_channel (fst (snd (snd c))))"

definition decode_rgb :: "int \<times> int \<times> int \<Rightarrow> int" where
  "decode_rgb c = fst c + 256 * fst (snd c) + 65536 * snd (snd c)"

text \<open>The colour the Voronoi program writes for instance \<open>k\<close>, and what is read back.\<close>

definition instance_color :: "int \<Rightarrow> vec3" where
  "instance_color k = frag_color (voronoi_vert (0, 0, 0) (0, 0) k)"

definition sampled_index :: "int \<Rightarrow> int" where
  "sampled_index k = decode_rgb (store_rgb (voronoi_frag (instance_color k)))"


section \<open>The process, its memory and its platform\<close>

text \<open>
  How a run of the program ends: \<^verbatim>\<open>exit(c)\<close> or \<^verbatim>\<open>return c\<close> from
  \<^verbatim>\<open>main\<close>, a failed \<^verbatim>\<open>assert\<close>, or undefined behaviour (a write through a
  null pointer or past the end of a block, a read of an indeterminate value).
\<close>

datatype outcome = Exited int | Aborted | Undefined

text \<open>
  A \<^verbatim>\<open>float\<close> is a real number, an infinity (\<open>Infinite True\<close> the positive one)
  or not-a-number; the two zeros are not told apart. A cell of allocated memory is
  \<open>None\<close> while its value is indeterminate. A pointer is null or points to the first
  cell of a block.
\<close>

datatype float = NaN | Infinite bool | Fl real

datatype 'a ptr = NULL | Block "'a option list"

definition store :: "'a ptr \<Rightarrow> nat \<Rightarrow> 'a \<Rightarrow> outcome + 'a ptr" where
  "store p i v =
     (case p of
        NULL \<Rightarrow> Inl Undefined
      | Block cs \<Rightarrow> if i < length cs then Inr (Block (cs[i := Some v])) else Inl Undefined)"

definition load :: "'a ptr \<Rightarrow> nat \<Rightarrow> outcome + 'a" where
  "load p i =
     (case p of
        NULL \<Rightarrow> Inl Undefined
      | Block cs \<Rightarrow>
          if i < length cs then (case cs ! i of None \<Rightarrow> Inl Undefined | Some v \<Rightarrow> Inr v)
          else Inl Undefined)"

fun store_all :: "'a ptr \<Rightarrow> nat \<Rightarrow> 'a list \<Rightarrow> outcome + 'a ptr" where
  "store_all p i [] = Inr p"
| "store_all p i (v # vs) =
     (case store p i v of Inl e \<Rightarrow> Inl e | Inr p' \<Rightarrow> store_all p' (Suc i) vs)"

text \<open>
  C strings: the characters up to the first null character. Reading one (as
  \<^verbatim>\<open>%s\<close> does) is undefined when an indeterminate cell or the end of the block
  comes first.
\<close>

definition NUL :: char where
  "NUL = CHR 0x00"

definition c_string :: "string \<Rightarrow> char ptr" where
  "c_string t = Block (map Some t @ [Some NUL])"

fun c_str :: "char option list \<Rightarrow> string option" where
  "c_str [] = None"
| "c_str (None # cs) = None"
| "c_str (Some c # cs) = (if c = NUL then Some [] else map_option ((#) c) (c_str cs))"

definition read_string :: "char ptr \<Rightarrow> outcome + string" where
  "read_string p =
     (case p of
        NULL \<Rightarrow> Inl Undefined
      | Block cs \<Rightarrow> (case c_str cs of None \<Rightarrow> Inl Undefined | Some t \<Rightarrow> Inr t))"

text \<open>The decimal digits \<^verbatim>\<open>%lu\<close> and \<^verbatim>\<open>%i\<close> print.\<close>

fun show_nat :: "nat \<Rightarrow> string" where
  "show_nat n =
     (if n < 10 then [''0123456789'' ! n]
      else show_nat (n div 10) @ [''0123456789'' ! (n mod 10)])"

declare show_nat.simps [simp del]

definition show_int :: "int \<Rightarrow> string" where
  "show_int i = (if i < 0 then CHR ''-'' # show_nat (nat (- i)) else show_nat (nat i))"

text \<open>
  \<^verbatim>\<open>size_t\<close> is 64 bits wide and \<^verbatim>\<open>sizeof(float)\<close> is 4 (an LP64 platform):
  \<open>size_t\<close> is the wrap-around of unsigned arithmetic. A \<^verbatim>\<open>size_t\<close> passed where
  the callee takes a signed integer of \<open>w\<close> bits is read in two's complement.
\<close>

definition SIZE_MAX :: nat where
  "SIZE_MAX = 2 ^ 64 - 1"

definition size_t :: "nat \<Rightarrow> nat" where
  "size_t n = n mod 2 ^ 64"

definition sizeof_float :: nat where
  "sizeof_float = 4"

definition to_signed :: "nat \<Rightarrow> nat \<Rightarrow> int" where
  "to_signed w n = (int n + 2 ^ (w - 1)) mod 2 ^ w - 2 ^ (w - 1)"

text \<open>
  \<^verbatim>\<open>int\<close> and \<^verbatim>\<open>GLint\<close> are 32 bits wide. A sum of two of them that does not fit
  is undefined behaviour; an \<^verbatim>\<open>int\<close> converted to \<^verbatim>\<open>size_t\<close> is taken modulo
  2 to the 64.
\<close>

definition INT_MAX :: int where
  "INT_MAX = 2 ^ 31 - 1"

definition INT_MIN :: int where
  "INT_MIN = - (2 ^ 31)"

definition int_add :: "int \<Rightarrow> int \<Rightarrow> outcome + int" where
  "int_add a b = (if INT_MIN \<le> a + b \<and> a + b \<le> INT_MAX then Inr (a + b) else Inl Undefined)"

definition size_t_of_int :: "int \<Rightarrow> nat" where
  "size_t_of_int i = nat (i mod 2 ^ 64)"

text \<open>The enumerators and bit masks of the OpenGL and GLFW headers that the source names.\<close>

datatype glenum =
    GL_VERTEX_SHADER | GL_FRAGMENT_SHADER | GL_COMPILE_STATUS | GL_LINK_STATUS
  | GL_INFO_LOG_LENGTH | GL_VERSION | GL_ARRAY_BUFFER | GL_STATIC_DRAW | GL_FLOAT
  | GL_TEXTURE_2D | GL_TEXTURE_WRAP_S | GL_TEXTURE_WRAP_T | GL_CLAMP
  | GL_TEXTURE_MAG_FILTER | GL_TEXTURE_MIN_FILTER | GL_LINEAR | GL_RGB | GL_UNSIGNED_BYTE
  | GL_DEPTH_COMPONENT | GL_FRAMEBUFFER | GL_COLOR_ATTACHMENT0 | GL_DEPTH_ATTACHMENT
  | GL_DEPTH_TEST | GL_TRIANGLE_FAN | GL_TEXTURE0

datatype clear_bit = GL_COLOR_BUFFER_BIT | GL_DEPTH_BUFFER_BIT

datatype glfw_hint =
    GLFW_CONTEXT_VERSION_MAJOR | GLFW_CONTEXT_VERSION_MINOR
  | GLFW_OPENGL_FORWARD_COMPAT | GLFW_OPENGL_PROFILE

definition GL_FALSE :: int where "GL_FALSE = 0"
definition GL_TRUE :: int where "GL_TRUE = 1"
definition GLFW_OPENGL_CORE_PROFILE :: int where "GLFW_OPENGL_CORE_PROFILE = 0x32001"
definition GL_FRAMEBUFFER_COMPLETE :: int where "GL_FRAMEBUFFER_COMPLETE = 0x8CD5"

text \<open>
  The calls the program makes to GLFW and OpenGL: the name of the function and the
  arguments the source passes, in order (a count of 1 and a null pointer for an unused
  result are left out; object names and the window handle are numbers, 0 the null window).
\<close>

datatype arg =
    Enum glenum | Hint glfw_hint | Bits "clear_bit set"
  | UInt nat | SInt int | Flt real | Str string | Data "float ptr"

datatype api_call = Call string "arg list"

text \<open>
  What the platform answers: the C library (\<^verbatim>\<open>RAND_MAX\<close>, the sequence
  \<^verbatim>\<open>rand\<close> yields after \<^verbatim>\<open>srand(seed)\<close>, the \<^verbatim>\<open>double\<close> its
  \<^verbatim>\<open>cos\<close> and \<^verbatim>\<open>sin\<close> return for a finite argument, whether the \<open>i\<close>-th
  \<^verbatim>\<open>malloc\<close> of a size succeeds), GLFW, the OpenGL implementation, and a source of
  entropy the program could read.
\<close>

record platform =
  RAND_MAX :: int
  rand_sequence :: "nat \<Rightarrow> nat \<Rightarrow> int"
  libm_cos :: "real \<Rightarrow> real"
  libm_sin :: "real \<Rightarrow> real"
  malloc_succeeds :: "nat \<Rightarrow> nat \<Rightarrow> bool"
  system_entropy :: nat
  glfw_init_ok :: bool
  created_window :: nat
  version_string :: "char ptr"
  fresh_name :: "nat \<Rightarrow> nat"
  compiler :: "glenum \<Rightarrow> string \<Rightarrow> bool \<times> string"
  linker :: "nat \<Rightarrow> nat \<Rightarrow> bool \<times> string"
  framebuffer_status :: int
  uniform_location :: "nat \<Rightarrow> string \<Rightarrow> int"
  close_requested :: "nat \<Rightarrow> bool"

text \<open>
  The state of the process: what it has written to \<^verbatim>\<open>stderr\<close>, the calls it has
  made, the number of allocations and of generated object names so far, and the state of
  \<^verbatim>\<open>rand\<close> (the seed in effect and the number of values drawn). A process starts
  as if \<^verbatim>\<open>srand(1)\<close> had been called (C11 7.22.2.2).
\<close>

record proc =
  stderr_text :: string
  api_log :: "api_call list"
  malloc_count :: nat
  name_count :: nat
  rand_seed :: nat
  rand_count :: nat

definition process_start :: proc where
  "process_start = \<lparr> stderr_text = [], api_log = [], malloc_count = 0, name_count = 0,
                      rand_seed = 1, rand_count = 0 \<rparr>"

type_synonym 'a io = "proc \<Rightarrow> (outcome + 'a) \<times> proc"

definition return_io :: "'a \<Rightarrow> 'a io" where
  "return_io x s = (Inr x, s)"

definition halt :: "outcome \<Rightarrow> 'a io" where
  "halt e s = (Inl e, s)"

definition bind_io :: "'a io \<Rightarrow> ('a \<Rightarrow> 'b io) \<Rightarrow> 'b io" where
  "bind_io m f s = (case m s of (Inl e, s') \<Rightarrow> (Inl e, s') | (Inr x, s') \<Rightarrow> f x s')"

definition then_io :: "unit io \<Rightarrow> 'b io \<Rightarrow> 'b io" where
  "then_io m k = bind_io m (\<lambda>_. k)"

definition lift_io :: "outcome + 'a \<Rightarrow> 'a io" where
  "lift_io r s = (r, s)"

fun seq_io :: "unit io list \<Rightarrow> unit io" where
  "seq_io [] = return_io ()"
| "seq_io (m # ms) = then_io m (seq_io ms)"

text \<open>A \<^verbatim>\<open>for\<close> loop over the indices \<open>is\<close>, its body transforming the loop's data.\<close>

fun for_io :: "nat list \<Rightarrow> (nat \<Rightarrow> 'a \<Rightarrow> 'a io) \<Rightarrow> 'a \<Rightarrow> 'a io" where
  "for_io [] body x = return_io x"
| "for_io (i # is) body x = bind_io (body i x) (for_io is body)"

definition gl :: "api_call \<Rightarrow> unit io" where
  "gl c s = (Inr (), s\<lparr>api_log := api_log s @ [c]\<rparr>)"

definition gl_gen :: "platform \<Rightarrow> api_call \<Rightarrow> nat io" where
  "gl_gen env c s =
     (Inr (fresh_name env (name_count s)),
      s\<lparr>api_log := api_log s @ [c], name_count := Suc (name_count s)\<rparr>)"

definition fprintf_stderr :: "string \<Rightarrow> unit io" where
  "fprintf_stderr msg s = (Inr (), s\<lparr>stderr_text := stderr_text s @ msg\<rparr>)"

definition exit_io :: "int \<Rightarrow> 'a io" where
  "exit_io c = halt (Exited c)"

definition malloc :: "platform \<Rightarrow> nat \<Rightarrow> nat \<Rightarrow> 'a ptr io" where
  "malloc env cell_size bytes s =
     ((if malloc_succeeds env (malloc_count s) bytes
       then Inr (Block (replicate (bytes div cell_size) None)) else Inr NULL),
      s\<lparr>malloc_count := Suc (malloc_count s)\<rparr>)"

definition rand :: "platform \<Rightarrow> int io" where
  "rand env s =
     (Inr (rand_sequence env (rand_seed s) (rand_count s)), s\<lparr>rand_count := Suc (rand_count s)\<rparr>)"


section \<open>Floating-point arithmetic\<close>

text \<open>
  The arithmetic is that of IEEE 754 with rounding to nearest, ties to even:
  \<^verbatim>\<open>float\<close> is binary32 (24 significant bits, normal from 2 to the -126),
  \<^verbatim>\<open>double\<close> is binary64 (53 significant bits, normal from 2 to the -1022), and an
  operation is rounded to the type C gives it (\<^verbatim>\<open>FLT_EVAL_METHOD\<close> is 0).
  \<open>nearest_even y\<close> is the integer nearest to \<open>y\<close>, the even one of two equally
  near; \<open>binade x\<close> is the exponent \<open>e\<close> for which \<open>\<bar>x\<bar>\<close> lies from 2 to the
  \<open>e\<close> up to 2 to the \<open>e + 1\<close>; \<open>round_binary p emin x\<close> is \<open>x\<close> rounded to
  \<open>p\<close> significant bits, and to a subnormal number below 2 to the \<open>emin\<close>. A
  \<^verbatim>\<open>double\<close> too large for a \<^verbatim>\<open>float\<close> is converted to an infinity.
\<close>

definition nearest_even :: "real \<Rightarrow> int" where
  "nearest_even y =
     (let f = \<lfloor>y\<rfloor> in
      if y - real_of_int f < 1 / 2 then f
      else if 1 / 2 < y - real_of_int f then f + 1
      else if even f then f else f + 1)"

definition binade :: "real \<Rightarrow> int" where
  "binade x = \<lfloor>log 2 \<bar>x\<bar>\<rfloor>"

definition round_binary :: "nat \<Rightarrow> int \<Rightarrow> real \<Rightarrow> real" where
  "round_binary p emin x =
     (let q = max (binade x) emin - int p + 1 in
      real_of_int (nearest_even (x / 2 powr real_of_int q)) * 2 powr real_of_int q)"

definition to_double :: "real \<Rightarrow> real" where
  "to_double x = round_binary 53 (- 1022) x"

definition to_single :: "real \<Rightarrow> real" where
  "to_single x = round_binary 24 (- 126) x"

definition FLT_MAX :: real where
  "FLT_MAX = (2 ^ 24 - 1) * 2 ^ 104"

definition to_float :: "real \<Rightarrow> float" where
  "to_float x = (if \<bar>to_single x\<bar> \<le> FLT_MAX then Fl (to_single x) else Infinite (0 < x))"

text \<open>
  \<^verbatim>\<open>M_PI\<close> is the \<^verbatim>\<open>double\<close> that the literal \<^verbatim>\<open>3.14159265358979323846\<close> of
  \<^verbatim>\<open>math.h\<close> denotes, \<^verbatim>\<open>0x1.921fb54442d18p+1\<close>.
\<close>

definition M_PI :: real where
  "M_PI = 884279719003555 / 2 ^ 48"


section \<open>The geometry factory\<close>

text \<open>
  \<^verbatim>\<open>build_cone\<close>. In \<^verbatim>\<open>float angle = 2 * M_PI * i / n\<close> the two
  \<^verbatim>\<open>size_t\<close> operands are converted to \<^verbatim>\<open>double\<close>, the product and the
  quotient are those of \<^verbatim>\<open>double\<close> (\<^verbatim>\<open>2 * M_PI\<close> is exact), and the result is
  converted to \<^verbatim>\<open>float\<close>; the operands are below 2 to the 64, far from the
  largest \<^verbatim>\<open>double\<close>. For \<open>n = 0\<close> the quotient is \<^verbatim>\<open>0.0 / 0.0\<close>, not a number.
  \<^verbatim>\<open>cos(angle)\<close> and \<^verbatim>\<open>sin(angle)\<close> are the \<^verbatim>\<open>double\<close> functions of the C
  library, applied to the \<^verbatim>\<open>float\<close> and converted to \<^verbatim>\<open>float\<close> by the store; of
  an infinity or of not-a-number they are not a number. The loop
  \<^verbatim>\<open>for (i = 0; i <= n; ++i)\<close> runs over \<open>0, ..., n\<close>; it ends at the first
  undefined write, which for \<open>n = SIZE_MAX\<close> is at \<open>i = 0\<close>, long before \<open>i\<close> could
  wrap. The closing \<^verbatim>\<open>free(buf)\<close> of both factories has no effect a later step can
  observe (the buffer is local and the upload has copied it), so it is no step here.
\<close>

definition cone_angle :: "nat \<Rightarrow> nat \<Rightarrow> float" where
  "cone_angle i n =
     (if n = 0 then (if i = 0 then NaN else Infinite True)
      else to_float (to_double (to_double (2 * M_PI * to_double (real i)) / to_double (real n))))"

definition fcos :: "platform \<Rightarrow> float \<Rightarrow> float" where
  "fcos env a = (case a of Fl x \<Rightarrow> to_float (libm_cos env x) | _ \<Rightarrow> NaN)"

definition fsin :: "platform \<Rightarrow> float \<Rightarrow> float" where
  "fsin env a = (case a of Fl x \<Rightarrow> to_float (libm_sin env x) | _ \<Rightarrow> NaN)"

definition cone_ring_vertex :: "platform \<Rightarrow> nat \<Rightarrow> nat \<Rightarrow> float ptr \<Rightarrow> float ptr io" where
  "cone_ring_vertex env n i buf =
     (let angle = cone_angle i n in
      bind_io (lift_io (store buf (size_t (i * 3 + 3)) (fcos env angle))) (\<lambda>buf.
      bind_io (lift_io (store buf (size_t (i * 3 + 4)) (fsin env angle))) (\<lambda>buf.
      lift_io (store buf (size_t (i * 3 + 5)) (Fl 1)))))"

definition build_cone :: "platform \<Rightarrow> nat \<Rightarrow> unit io" where
  "build_cone env n =
     (let bytes = size_t ((n + 2) * 3 * sizeof_float) in
      bind_io (malloc env sizeof_float bytes) (\<lambda>buf.
      bind_io (lift_io (store buf 0 (Fl 0))) (\<lambda>buf.
      bind_io (lift_io (store buf 1 (Fl 0))) (\<lambda>buf.
      bind_io (lift_io (store buf 2 (Fl (- 1)))) (\<lambda>buf.
      bind_io (for_io [0 ..< Suc n] (cone_ring_vertex env n) buf) (\<lambda>buf.
      bind_io (gl_gen env (Call ''glGenBuffers'' [])) (\<lambda>vbo.
      seq_io [
        gl (Call ''glBindBuffer'' [Enum GL_ARRAY_BUFFER, UInt vbo]),
        gl (Call ''glBufferData'' [Enum GL_ARRAY_BUFFER, SInt (to_signed 64 bytes), Data buf, Enum GL_STATIC_DRAW]),
        gl (Call ''glEnableVertexAttribArray'' [UInt 0]),
        gl (Call ''glVertexAttribPointer'' [UInt 0, SInt 3, Enum GL_FLOAT, SInt GL_FALSE, SInt 0, UInt 0])])))))))"

text \<open>
  \<^verbatim>\<open>build_instances\<close>. The loop bound \<^verbatim>\<open>2*n\<close> is computed in \<^verbatim>\<open>size_t\<close>.
  The offset \<^verbatim>\<open>((float)rand() / RAND_MAX - 0.5) * 2\<close> is taken in exact arithmetic:
  the roundings of its operations are left out (they are monotone and leave \<open>-1\<close>,
  \<open>0\<close> and \<open>1\<close> as they are).
\<close>

definition random_offset :: "platform \<Rightarrow> int \<Rightarrow> float" where
  "random_offset env r = Fl ((real_of_int r / real_of_int (RAND_MAX env) - 0.5) * 2)"

definition instance_component :: "platform \<Rightarrow> nat \<Rightarrow> float ptr \<Rightarrow> float ptr io" where
  "instance_component env i buf =
     bind_io (rand env) (\<lambda>r. lift_io (store buf i (random_offset env r)))"

definition build_instances :: "platform \<Rightarrow> nat \<Rightarrow> nat io" where
  "build_instances env n =
     (let bytes = size_t (n * 2 * sizeof_float) in
      bind_io (malloc env sizeof_float bytes) (\<lambda>buf.
      bind_io (for_io [0 ..< size_t (2 * n)] (instance_component env) buf) (\<lambda>buf.
      bind_io (gl_gen env (Call ''glGenBuffers'' [])) (\<lambda>vbo.
      then_io (seq_io [
        gl (Call ''glBindBuffer'' [Enum GL_ARRAY_BUFFER, UInt vbo]),
        gl (Call ''glBufferData'' [Enum GL_ARRAY_BUFFER, SInt (to_signed 64 bytes), Data buf, Enum GL_STATIC_DRAW]),
        gl (Call ''glEnableVertexAttribArray'' [UInt 1]),
        gl (Call ''glVertexAttribPointer'' [UInt 1, SInt 2, Enum GL_FLOAT, SInt GL_FALSE, SInt 0, UInt 0]),
        gl (Call ''glVertexAttribDivisor'' [UInt 1, UInt 1])])
      (return_io vbo)))))"


section \<open>The shader pipeline factory\<close>

text \<open>
  The four shader sources: \<^verbatim>\<open>GLSL(src)\<close> is the version line followed by the
  stringified tokens of \<open>src\<close>, which the preprocessor separates by single spaces
  (the comment is gone before the macro expands).
\<close>

definition voronoi_vert_src :: string where
  "voronoi_vert_src = ''#version 330 core\<newline>'' @
     ''layout(location=0) in vec3 pos; layout(location=1) in vec2 offset; '' @
     ''out vec3 color_; void main() { '' @
     ''gl_Position = vec4(pos.xy + offset, pos.z, 1.0f); '' @
     ''int r = gl_InstanceID % 256; int g = (gl_InstanceID / 256) % 256; '' @
     ''int b = (gl_InstanceID / 65536) % 256; '' @
     ''color_ = vec3(r / 255.0f, g / 255.0f, b / 255.0f); }''"

definition voronoi_frag_src :: string where
  "voronoi_frag_src = ''#version 330 core\<newline>'' @
     ''in vec3 color_; layout (location=0) out vec4 color; '' @
     ''void main() { color = vec4(color_, 1.0f); }''"

definition quad_vert_src :: string where
  "quad_vert_src = ''#version 330 core\<newline>'' @
     ''layout(location=0) in vec2 pos; '' @
     ''void main() { gl_Position = vec4(pos, 0.0f, 1.0f); }''"

definition blit_frag_src :: string where
  "blit_frag_src = ''#version 330 core\<newline>'' @
     ''layout (location=0) out vec4 color; '' @
     ''layout (pixel_center_integer) in vec4 gl_FragCoord; '' @
     ''uniform sampler2D tex; void main() { '' @
     ''vec4 t = texelFetch(tex, ivec2(gl_FragCoord.x, gl_FragCoord.y), 0); '' @
     ''color = vec4(t.xyz, 1.0f); }''"

text \<open>
  The information log of a shader or program, as OpenGL hands it out:
  \<^verbatim>\<open>GL_INFO_LOG_LENGTH\<close> is 0 when there is no log and otherwise counts the log and
  its null terminator, in a \<^verbatim>\<open>GLint\<close> (a count that does not fit one is taken in two's
  complement: OpenGL has no answer for such a log);
  \<^verbatim>\<open>glGetShaderInfoLog\<close> and \<^verbatim>\<open>glGetProgramInfoLog\<close>
  write at most \<open>bufSize\<close> characters, the terminator included, and nothing when
  \<open>bufSize\<close> is 0 or negative.
\<close>

definition info_log_length :: "string \<Rightarrow> int" where
  "info_log_length msg = (if msg = [] then 0 else to_signed 32 (length msg + 1))"

definition get_info_log :: "string \<Rightarrow> int \<Rightarrow> char ptr \<Rightarrow> outcome + char ptr" where
  "get_info_log msg bufSize p =
     (if bufSize \<le> 0 then Inr p else store_all p 0 (take (nat bufSize - 1) msg @ [NUL]))"

text \<open>
  \<^verbatim>\<open>build_shader\<close> and \<^verbatim>\<open>build_program\<close>. The compile and link status are
  \<^verbatim>\<open>GL_TRUE\<close> or \<^verbatim>\<open>GL_FALSE\<close>; \<^verbatim>\<open>exit(-1)\<close> ends the process. In
  \<^verbatim>\<open>(log_length + 1) * sizeof(GLchar)\<close> the sum is one of \<^verbatim>\<open>GLint\<close>, converted to
  \<^verbatim>\<open>size_t\<close> for the product; \<^verbatim>\<open>sizeof(GLchar)\<close> is 1.
\<close>

definition build_shader :: "platform \<Rightarrow> glenum \<Rightarrow> string \<Rightarrow> nat io" where
  "build_shader env type src =
     (if \<not> (type = GL_VERTEX_SHADER \<or> type = GL_FRAGMENT_SHADER) then halt Aborted
      else
      bind_io (gl_gen env (Call ''glCreateShader'' [Enum type])) (\<lambda>shader.
      then_io (gl (Call ''glShaderSource'' [UInt shader, Str src])) (
      then_io (gl (Call ''glCompileShader'' [UInt shader])) (
      then_io (gl (Call ''glGetShaderiv'' [UInt shader, Enum GL_COMPILE_STATUS])) (
      let status = (if fst (compiler env type src) then GL_TRUE else GL_FALSE) in
      if status = GL_FALSE then
        then_io (gl (Call ''glGetShaderiv'' [UInt shader, Enum GL_INFO_LOG_LENGTH])) (
        let log_length = info_log_length (snd (compiler env type src)) in
        bind_io (lift_io (int_add log_length 1)) (\<lambda>cells.
        bind_io (malloc env 1 (size_t (size_t_of_int cells * 1))) (\<lambda>info_log.
        then_io (gl (Call ''glGetShaderInfoLog'' [UInt shader, SInt log_length])) (
        bind_io (lift_io (get_info_log (snd (compiler env type src)) log_length info_log))
          (\<lambda>info_log.
        bind_io (lift_io (read_string info_log)) (\<lambda>message.
        then_io (fprintf_stderr
          (''Error: shader failed with error '' @ [CHR 0x27] @ message @ [CHR 0x27] @
           ''\<newline>''))
        (exit_io (- 1))))))))
      else return_io shader)))))"

definition build_program :: "platform \<Rightarrow> nat \<Rightarrow> nat \<Rightarrow> nat io" where
  "build_program env vert frag =
     bind_io (gl_gen env (Call ''glCreateProgram'' [])) (\<lambda>program.
     then_io (gl (Call ''glAttachShader'' [UInt program, UInt vert])) (
     then_io (gl (Call ''glAttachShader'' [UInt program, UInt frag])) (
     then_io (gl (Call ''glLinkProgram'' [UInt program])) (
     then_io (gl (Call ''glGetProgramiv'' [UInt program, Enum GL_LINK_STATUS])) (
     let status = (if fst (linker env vert frag) then GL_TRUE else GL_FALSE) in
     if status = GL_FALSE then
       then_io (gl (Call ''glGetProgramiv'' [UInt program, Enum GL_INFO_LOG_LENGTH])) (
       let log_length = info_log_length (snd (linker env vert frag)) in
       bind_io (lift_io (int_add log_length 1)) (\<lambda>cells.
       bind_io (malloc env 1 (size_t (size_t_of_int cells * 1))) (\<lambda>info_log.
       then_io (gl (Call ''glGetProgramInfoLog'' [UInt program, SInt log_length])) (
       bind_io (lift_io (get_info_log (snd (linker env vert frag)) log_length info_log))
         (\<lambda>info_log.
       bind_io (lift_io (read_string info_log)) (\<lambda>message.
       then_io (fprintf_stderr
         (''Error: linking failed with error '' @ [CHR 0x27] @ message @ [CHR 0x27] @
          ''\<newline>''))
       (exit_io (- 1))))))))
     else return_io program)))))"


section \<open>The quad, the context and the textures\<close>

definition build_quad :: "platform \<Rightarrow> nat io" where
  "build_quad env =
     (let verts = Block (map (Some \<circ> Fl) [- 1, - 1, 1, - 1, 1, 1, - 1, 1]) in
      bind_io (gl_gen env (Call ''glGenVertexArrays'' [])) (\<lambda>vao.
      bind_io (gl_gen env (Call ''glGenBuffers'' [])) (\<lambda>vbo.
      then_io (seq_io [
        gl (Call ''glBindVertexArray'' [UInt vao]),
        gl (Call ''glBindBuffer'' [Enum GL_ARRAY_BUFFER, UInt vbo]),
        gl (Call ''glBufferData'' [Enum GL_ARRAY_BUFFER, SInt (int (8 * sizeof_float)),
              Data verts, Enum GL_STATIC_DRAW]),
        gl (Call ''glEnableVertexAttribArray'' [UInt 0]),
        gl (Call ''glVertexAttribPointer'' [UInt 0, SInt 2, Enum GL_FLOAT, SInt GL_FALSE, SInt 0, UInt 0]),
        gl (Call ''glBindVertexArray'' [UInt 0])])
      (return_io vao))))"

text \<open>
  \<^verbatim>\<open>make_context\<close>. The digits of the version are read from the string
  \<^verbatim>\<open>glGetString\<close> returns; \<^verbatim>\<open>ver[0] - '0'\<close> is an \<^verbatim>\<open>int\<close> converted to
  \<^verbatim>\<open>size_t\<close>.
\<close>

definition digit_value :: "char \<Rightarrow> nat" where
  "digit_value c = nat ((int (of_char c) - 48) mod 2 ^ 64)"

definition make_context :: "platform \<Rightarrow> nat \<Rightarrow> nat \<Rightarrow> nat io" where
  "make_context env width height =
     then_io (gl (Call ''glfwInit'' [])) (
     if \<not> glfw_init_ok env then
       then_io (fprintf_stderr ''Error: Failed to initialize GLFW!\<newline>'') (exit_io (- 1))
     else
     then_io (seq_io [
       gl (Call ''glfwWindowHint'' [Hint GLFW_CONTEXT_VERSION_MAJOR, SInt 3]),
       gl (Call ''glfwWindowHint'' [Hint GLFW_CONTEXT_VERSION_MINOR, SInt 3]),
       gl (Call ''glfwWindowHint'' [Hint GLFW_OPENGL_FORWARD_COMPAT, SInt GL_TRUE]),
       gl (Call ''glfwWindowHint'' [Hint GLFW_OPENGL_PROFILE, SInt GLFW_OPENGL_CORE_PROFILE]),
       gl (Call ''glfwCreateWindow''
             [SInt (to_signed 32 width), SInt (to_signed 32 height), Str ''swingline''])]) (
     let window = created_window env in
     if window = 0 then
       then_io (fprintf_stderr ''Error:  Failed to create window'') (exit_io (- 1))
     else
     then_io (gl (Call ''glfwMakeContextCurrent'' [UInt window])) (
     then_io (gl (Call ''glGetString'' [Enum GL_VERSION])) (
     let ver = version_string env in
     bind_io (lift_io (load ver 0)) (\<lambda>c0.
     bind_io (lift_io (load ver 2)) (\<lambda>c2.
     let major = digit_value c0; minor = digit_value c2 in
     if size_t (major * 10 + minor) < 33 then
       then_io (fprintf_stderr
         (''Error: OpenGL context is too old (require 3.3, got '' @ show_nat major @ ''.'' @
          show_nat minor @ '')\<newline>''))
       (exit_io (- 1))
     else return_io window))))))"

definition new_texture :: "platform \<Rightarrow> nat io" where
  "new_texture env =
     bind_io (gl_gen env (Call ''glGenTextures'' [])) (\<lambda>tex.
     then_io (seq_io [
       gl (Call ''glBindTexture'' [Enum GL_TEXTURE_2D, UInt tex]),
       gl (Call ''glTexParameterf'' [Enum GL_TEXTURE_2D, Enum GL_TEXTURE_WRAP_S, Enum GL_CLAMP]),
       gl (Call ''glTexParameterf'' [Enum GL_TEXTURE_2D, Enum GL_TEXTURE_WRAP_T, Enum GL_CLAMP]),
       gl (Call ''glTexParameteri'' [Enum GL_TEXTURE_2D, Enum GL_TEXTURE_MAG_FILTER, Enum GL_LINEAR]),
       gl (Call ''glTexParameteri'' [Enum GL_TEXTURE_2D, Enum GL_TEXTURE_MIN_FILTER, Enum GL_LINEAR])])
     (return_io tex))"


section \<open>The renderer\<close>

definition render_voronoi :: "nat \<Rightarrow> nat \<Rightarrow> nat \<Rightarrow> nat \<Rightarrow> nat \<Rightarrow> unit io" where
  "render_voronoi program fbo vao cone_res point_count =
     seq_io [
       gl (Call ''glBindFramebuffer'' [Enum GL_FRAMEBUFFER, UInt fbo]),
       gl (Call ''glEnable'' [Enum GL_DEPTH_TEST]),
       gl (Call ''glClearColor'' [Flt 1, Flt 1, Flt 0, Flt 1]),
       gl (Call ''glClearDepth'' [Flt 1]),
       gl (Call ''glClear'' [Bits {GL_DEPTH_BUFFER_BIT, GL_COLOR_BUFFER_BIT}]),
       gl (Call ''glUseProgram'' [UInt program]),
       gl (Call ''glBindVertexArray'' [UInt vao]),
       gl (Call ''glDrawArraysInstanced''
             [Enum GL_TRIANGLE_FAN, SInt 0, SInt (to_signed 32 (size_t (cone_res + 2))),
              SInt (to_signed 32 point_count)]),
       gl (Call ''glBindVertexArray'' [UInt 0]),
       gl (Call ''glUseProgram'' [UInt 0]),
       gl (Call ''glBindFramebuffer'' [Enum GL_FRAMEBUFFER, UInt 0])]"

text \<open>The constants of \<^verbatim>\<open>main\<close>.\<close>

definition cone_res :: nat where "cone_res = 64"
definition point_count :: nat where "point_count = 100"
definition width :: nat where "width = 400"
definition height :: nat where "height = 400"

text \<open>
  \<^verbatim>\<open>main\<close> up to its loop, in the two parts its banner comments mark. The first part
  creates the context and "all of the parts used in the voronoi rendering step", the
  offscreen target and its completeness check included; it yields the window, the vertex
  array, the program, the framebuffer and the colour texture. C leaves open which
  argument of \<^verbatim>\<open>build_program\<close> is evaluated first; here it is the vertex shader.
\<close>

definition main_voronoi_parts :: "platform \<Rightarrow> (nat \<times> nat \<times> nat \<times> nat \<times> nat) io" where
  "main_voronoi_parts env =
     bind_io (make_context env width height) (\<lambda>win.
     bind_io (gl_gen env (Call ''glGenVertexArrays'' [])) (\<lambda>voronoi_vao.
     then_io (gl (Call ''glBindVertexArray'' [UInt voronoi_vao])) (
     then_io (build_cone env cone_res) (
     bind_io (build_instances env point_count) (\<lambda>_.
     then_io (gl (Call ''glBindVertexArray'' [UInt 0])) (
     bind_io (build_shader env GL_VERTEX_SHADER voronoi_vert_src) (\<lambda>vert.
     bind_io (build_shader env GL_FRAGMENT_SHADER voronoi_frag_src) (\<lambda>frag.
     bind_io (build_program env vert frag) (\<lambda>voronoi_program.
     bind_io (gl_gen env (Call ''glGenFramebuffers'' [])) (\<lambda>voronoi_fbo.
     bind_io (new_texture env) (\<lambda>voronoi_tex.
     bind_io (new_texture env) (\<lambda>voronoi_depth.
     then_io (seq_io [
       gl (Call ''glBindTexture'' [Enum GL_TEXTURE_2D, UInt voronoi_tex]),
       gl (Call ''glTexImage2D'' [Enum GL_TEXTURE_2D, SInt 0, Enum GL_RGB,
             SInt (to_signed 32 width), SInt (to_signed 32 height), SInt 0,
             Enum GL_RGB, Enum GL_UNSIGNED_BYTE, Data NULL]),
       gl (Call ''glBindTexture'' [Enum GL_TEXTURE_2D, UInt voronoi_depth]),
       gl (Call ''glTexImage2D'' [Enum GL_TEXTURE_2D, SInt 0, Enum GL_DEPTH_COMPONENT,
             SInt (to_signed 32 width), SInt (to_signed 32 height), SInt 0,
             Enum GL_DEPTH_COMPONENT, Enum GL_FLOAT, Data NULL]),
       gl (Call ''glBindTexture'' [Enum GL_TEXTURE_2D, UInt 0])]) (
     bind_io (gl_gen env (Call ''glGenFramebuffers'' [])) (\<lambda>voronoi_fbo.
     then_io (seq_io [
       gl (Call ''glBindFramebuffer'' [Enum GL_FRAMEBUFFER, UInt voronoi_fbo]),
       gl (Call ''glFramebufferTexture2D'' [Enum GL_FRAMEBUFFER, Enum GL_COLOR_ATTACHMENT0,
             Enum GL_TEXTURE_2D, UInt voronoi_tex, SInt 0]),
       gl (Call ''glFramebufferTexture2D'' [Enum GL_FRAMEBUFFER, Enum GL_DEPTH_ATTACHMENT,
             Enum GL_TEXTURE_2D, UInt voronoi_depth, SInt 0]),
       gl (Call ''glCheckFramebufferStatus'' [Enum GL_FRAMEBUFFER])]) (
     let status = framebuffer_status env in
     if status \<noteq> GL_FRAMEBUFFER_COMPLETE then
       then_io (fprintf_stderr
         (''Error: framebuffer is incomplete ('' @ show_int status @ '')\<newline>''))
       (exit_io (- 1))
     else
     then_io (gl (Call ''glBindFramebuffer'' [Enum GL_FRAMEBUFFER, UInt 0]))
     (return_io (win, voronoi_vao, voronoi_program, voronoi_fbo, voronoi_tex)))))))))))))))))"

text \<open>
  The second part builds "everything needed for the transform feedback stage", runs the
  offscreen pass and binds what the loop draws with.
\<close>

definition main_present_parts :: "platform \<Rightarrow> nat \<Rightarrow> nat \<Rightarrow> nat \<Rightarrow> nat \<Rightarrow> nat \<Rightarrow> nat io" where
  "main_present_parts env win voronoi_vao voronoi_program voronoi_fbo voronoi_tex =
     bind_io (build_shader env GL_VERTEX_SHADER quad_vert_src) (\<lambda>vert.
     bind_io (build_shader env GL_FRAGMENT_SHADER blit_frag_src) (\<lambda>frag.
     bind_io (build_program env vert frag) (\<lambda>blit_program.
     bind_io (build_quad env) (\<lambda>quad_vao.
     then_io (render_voronoi voronoi_program voronoi_fbo voronoi_vao cone_res point_count) (
     then_io (seq_io [
       gl (Call ''glUseProgram'' [UInt blit_program]),
       gl (Call ''glBindVertexArray'' [UInt quad_vao]),
       gl (Call ''glActiveTexture'' [Enum GL_TEXTURE0]),
       gl (Call ''glBindTexture'' [Enum GL_TEXTURE_2D, UInt voronoi_tex]),
       gl (Call ''glGetUniformLocation'' [UInt blit_program, Str ''tex'']),
       gl (Call ''glUniform1i'' [SInt (uniform_location env blit_program ''tex''), SInt 0]),
       gl (Call ''glClearColor'' [Flt 0, Flt 0, Flt 0, Flt 1]),
       gl (Call ''glClearDepth'' [Flt 1])])
     (return_io win))))))"

definition main_startup :: "platform \<Rightarrow> nat io" where
  "main_startup env =
     bind_io (main_voronoi_parts env)
       (\<lambda>(win, voronoi_vao, voronoi_program, voronoi_fbo, voronoi_tex).
          main_present_parts env win voronoi_vao voronoi_program voronoi_fbo voronoi_tex)"

text \<open>
  The loop of \<^verbatim>\<open>main\<close>: \<open>close_requested env i\<close> is the answer of the \<open>i\<close>-th
  \<^verbatim>\<open>glfwWindowShouldClose\<close>. The loop need not end: \<open>None\<close> is a run that goes on
  for ever.
\<close>

definition present_pass :: "nat \<Rightarrow> unit io" where
  "present_pass win =
     seq_io [
       gl (Call ''glClear'' [Bits {GL_COLOR_BUFFER_BIT, GL_DEPTH_BUFFER_BIT}]),
       gl (Call ''glDrawArrays'' [Enum GL_TRIANGLE_FAN, SInt 0, SInt 4]),
       gl (Call ''glfwSwapBuffers'' [UInt win]),
       gl (Call ''glfwPollEvents'' [])]"

partial_function (option) main_loop ::
    "platform \<Rightarrow> nat \<Rightarrow> nat \<Rightarrow> proc \<Rightarrow> ((outcome + unit) \<times> proc) option" where
  "main_loop env win frame s =
     (case gl (Call ''glfwWindowShouldClose'' [UInt win]) s of
        (Inl e, s1) \<Rightarrow> Some (Inl e, s1)
      | (Inr _, s1) \<Rightarrow>
          if close_requested env frame then Some (Inr (), s1)
          else (case present_pass win s1 of
                  (Inl e, s2) \<Rightarrow> Some (Inl e, s2)
                | (Inr _, s2) \<Rightarrow> main_loop env win (Suc frame) s2))"

text \<open>
  The whole of \<^verbatim>\<open>main\<close>, from the start of the process: how it ends and the state it
  ends in. \<^verbatim>\<open>return 0\<close> from \<^verbatim>\<open>main\<close> is \<open>Exited 0\<close>.
\<close>

definition main :: "platform \<Rightarrow> (outcome \<times> proc) option" where
  "main env =
     (case main_startup env process_start of
        (Inl e, s) \<Rightarrow> Some (e, s)
      | (Inr win, s) \<Rightarrow>
          (case main_loop env win 0 s of
             None \<Rightarrow> None
           | Some (Inl e, s') \<Rightarrow> Some (e, s')
           | Some (Inr _, s') \<Rightarrow> Some (Exited 0, s')))"


section \<open>The geometry in the buffers\<close>

text \<open>
  The vertices the loop of \<^verbatim>\<open>build_cone\<close> computes, as a list: the apex, then for
  \<open>i = 0, ..., n\<close> the \<^verbatim>\<open>float\<close> values of \<^verbatim>\<open>cos(angle)\<close>, \<^verbatim>\<open>sin(angle)\<close>
  and 1. That the buffer holds them is proved below. \<open>packed3\<close> is the layout
  \<^verbatim>\<open>glVertexAttribPointer(0, 3, GL_FLOAT, GL_FALSE, 0, 0)\<close> reads: three consecutive
  floats for each vertex.
\<close>

definition cone_vertex :: "platform \<Rightarrow> nat \<Rightarrow> nat \<Rightarrow> float \<times> float \<times> float" where
  "cone_vertex env n v =
     (if v = 0 then (Fl 0, Fl 0, Fl (- 1))
      else (fcos env (cone_angle (v - 1) n), fsin env (cone_angle (v - 1) n), Fl 1))"

definition cone_mesh :: "platform \<Rightarrow> nat \<Rightarrow> (float \<times> float \<times> float) list" where
  "cone_mesh env n = map (cone_vertex env n) [0 ..< n + 2]"

definition packed3 :: "(float \<times> float \<times> float) list \<Rightarrow> float option list" where
  "packed3 vs = concat (map (\<lambda>(x, y, z). [Some x, Some y, Some z]) vs)"


text \<open>
  The components of the instance offsets that \<^verbatim>\<open>build_instances\<close> computes from the
  values \<^verbatim>\<open>rand\<close> yields, \<open>c\<close> values having been drawn before.
\<close>

definition drawn_offsets :: "platform \<Rightarrow> nat \<Rightarrow> nat \<Rightarrow> nat \<Rightarrow> float list" where
  "drawn_offsets env seed c m =
     map (\<lambda>i. random_offset env (rand_sequence env seed (c + i))) [0 ..< m]"

text \<open>
  The vertices OpenGL reads from a buffer of packed triples, and how many there are.
\<close>

definition vertex :: "float ptr \<Rightarrow> nat \<Rightarrow> (float \<times> float \<times> float) option" where
  "vertex p k =
     (case p of
        NULL \<Rightarrow> None
      | Block cs \<Rightarrow>
          if 3 * k + 2 < length cs
          then (case (cs ! (3 * k), cs ! (3 * k + 1), cs ! (3 * k + 2)) of
                  (Some x, Some y, Some z) \<Rightarrow> Some (x, y, z)
                | _ \<Rightarrow> None)
          else None)"

definition vertex_count :: "float ptr \<Rightarrow> nat" where
  "vertex_count p = (case p of NULL \<Rightarrow> 0 | Block cs \<Rightarrow> length cs div 3)"


section \<open>Runs in which every step succeeds\<close>

text \<open>
  The conditions on the platform under which \<^verbatim>\<open>main\<close> reaches the completeness
  check of the offscreen target, and under which it reaches its loop: the context is
  created with a version of at least 3.3, the two allocations of the geometry succeed,
  and the shaders compile and link. The shaders and programs are named by the order in
  which the names are generated.
\<close>

definition version_ok :: "platform \<Rightarrow> bool" where
  "version_ok env =
     (case load (version_string env) 0 of
        Inl _ \<Rightarrow> False
      | Inr c0 \<Rightarrow>
          (case load (version_string env) 2 of
             Inl _ \<Rightarrow> False
           | Inr c2 \<Rightarrow> \<not> size_t (digit_value c0 * 10 + digit_value c2) < 33))"

definition reaches_target_check :: "platform \<Rightarrow> bool" where
  "reaches_target_check env \<longleftrightarrow>
     glfw_init_ok env \<and> created_window env \<noteq> 0 \<and> version_ok env \<and>
     malloc_succeeds env 0 ((cone_res + 2) * 3 * sizeof_float) \<and>
     malloc_succeeds env 1 (point_count * 2 * sizeof_float) \<and>
     fst (compiler env GL_VERTEX_SHADER voronoi_vert_src) \<and>
     fst (compiler env GL_FRAGMENT_SHADER voronoi_frag_src) \<and>
     fst (linker env (fresh_name env 3) (fresh_name env 4))"

definition startup_ok :: "platform \<Rightarrow> bool" where
  "startup_ok env \<longleftrightarrow>
     reaches_target_check env \<and>
     framebuffer_status env = GL_FRAMEBUFFER_COMPLETE \<and>
     fst (compiler env GL_VERTEX_SHADER quad_vert_src) \<and>
     fst (compiler env GL_FRAGMENT_SHADER blit_frag_src) \<and>
     fst (linker env (fresh_name env 10) (fresh_name env 11))"

text \<open>
  The calls of such a run, in the order \<^verbatim>\<open>main\<close> makes them: up to the
  completeness check, and from there to the loop. They are stated once, here, and proved
  below to be what \<open>main_startup\<close> does.
\<close>

definition calls_to_target_check :: "platform \<Rightarrow> api_call list" where
  "calls_to_target_check env =
     [
      Call ''glfwInit'' [],
      Call ''glfwWindowHint'' [Hint GLFW_CONTEXT_VERSION_MAJOR, SInt 3],
      Call ''glfwWindowHint'' [Hint GLFW_CONTEXT_VERSION_MINOR, SInt 3],
      Call ''glfwWindowHint'' [Hint GLFW_OPENGL_FORWARD_COMPAT, SInt GL_TRUE],
      Call ''glfwWindowHint'' [Hint GLFW_OPENGL_PROFILE, SInt GLFW_OPENGL_CORE_PROFILE],
      Call ''glfwCreateWindow'' [SInt (int width), SInt (int height), Str ''swingline''],
      Call ''glfwMakeContextCurrent'' [UInt (created_window env)],
      Call ''glGetString'' [Enum GL_VERSION],
      Call ''glGenVertexArrays'' [],
      Call ''glBindVertexArray'' [UInt (fresh_name env 0)],
      Call ''glGenBuffers'' [],
      Call ''glBindBuffer'' [Enum GL_ARRAY_BUFFER, UInt (fresh_name env 1)],
      Call ''glBufferData'' [Enum GL_ARRAY_BUFFER, SInt 792,
         Data (Block (packed3 (cone_mesh env cone_res))), Enum GL_STATIC_DRAW],
      Call ''glEnableVertexAttribArray'' [UInt 0],
      Call ''glVertexAttribPointer'' [UInt 0, SInt 3, Enum GL_FLOAT, SInt GL_FALSE, SInt 0,
         UInt 0],
      Call ''glGenBuffers'' [],
      Call ''glBindBuffer'' [Enum GL_ARRAY_BUFFER, UInt (fresh_name env 2)],
      Call ''glBufferData'' [Enum GL_ARRAY_BUFFER, SInt 800,
         Data (Block (map Some (drawn_offsets env 1 0 (2 * point_count)))),
         Enum GL_STATIC_DRAW],
      Call ''glEnableVertexAttribArray'' [UInt 1],
      Call ''glVertexAttribPointer'' [UInt 1, SInt 2, Enum GL_FLOAT, SInt GL_FALSE, SInt 0,
         UInt 0],
      Call ''glVertexAttribDivisor'' [UInt 1, UInt 1],
      Call ''glBindVertexArray'' [UInt 0],
      Call ''glCreateShader'' [Enum GL_VERTEX_SHADER],
      Call ''glShaderSource'' [UInt (fresh_name env 3), Str voronoi_vert_src],
      Call ''glCompileShader'' [UInt (fresh_name env 3)],
      Call ''glGetShaderiv'' [UInt (fresh_name env 3), Enum GL_COMPILE_STATUS],
      Call ''glCreateShader'' [Enum GL_FRAGMENT_SHADER],
      Call ''glShaderSource'' [UInt (fresh_name env 4), Str voronoi_frag_src],
      Call ''glCompileShader'' [UInt (fresh_name env 4)],
      Call ''glGetShaderiv'' [UInt (fresh_name env 4), Enum GL_COMPILE_STATUS],
      Call ''glCreateProgram'' [],
      Call ''glAttachShader'' [UInt (fresh_name env 5), UInt (fresh_name env 3)],
      Call ''glAttachShader'' [UInt (fresh_name env 5), UInt (fresh_name env 4)],
      Call ''glLinkProgram'' [UInt (fresh_name env 5)],
      Call ''glGetProgramiv'' [UInt (fresh_name env 5), Enum GL_LINK_STATUS],
      Call ''glGenFramebuffers'' [],
      Call ''glGenTextures'' [],
      Call ''glBindTexture'' [Enum GL_TEXTURE_2D, UInt (fresh_name env 7)],
      Call ''glTexParameterf'' [Enum GL_TEXTURE_2D, Enum GL_TEXTURE_WRAP_S, Enum GL_CLAMP],
      Call ''glTexParameterf'' [Enum GL_TEXTURE_2D, Enum GL_TEXTURE_WRAP_T, Enum GL_CLAMP],
      Call ''glTexParameteri'' [Enum GL_TEXTURE_2D, Enum GL_TEXTURE_MAG_FILTER,
         Enum GL_LINEAR],
      Call ''glTexParameteri'' [Enum GL_TEXTURE_2D, Enum GL_TEXTURE_MIN_FILTER,
         Enum GL_LINEAR],
      Call ''glGenTextures'' [],
      Call ''glBindTexture'' [Enum GL_TEXTURE_2D, UInt (fresh_name env 8)],
      Call ''glTexParameterf'' [Enum GL_TEXTURE_2D, Enum GL_TEXTURE_WRAP_S, Enum GL_CLAMP],
      Call ''glTexParameterf'' [Enum GL_TEXTURE_2D, Enum GL_TEXTURE_WRAP_T, Enum GL_CLAMP],
      Call ''glTexParameteri'' [Enum GL_TEXTURE_2D, Enum GL_TEXTURE_MAG_FILTER,
         Enum GL_LINEAR],
      Call ''glTexParameteri'' [Enum GL_TEXTURE_2D, Enum GL_TEXTURE_MIN_FILTER,
         Enum GL_LINEAR],
      Call ''glBindTexture'' [Enum GL_TEXTURE_2D, UInt (fresh_name env 7)],
      Call ''glTexImage2D'' [Enum GL_TEXTURE_2D, SInt 0, Enum GL_RGB, SInt (int width),
         SInt (int height), SInt 0, Enum GL_RGB, Enum GL_UNSIGNED_BYTE, Data NULL],
      Call ''glBindTexture'' [Enum GL_TEXTURE_2D, UInt (fresh_name env 8)],
      Call ''glTexImage2D'' [Enum GL_TEXTURE_2D, SInt 0, Enum GL_DEPTH_COMPONENT,
         SInt (int width), SInt (int height), SInt 0, Enum GL_DEPTH_COMPONENT,
         Enum GL_FLOAT, Data NULL],
      Call ''glBindTexture'' [Enum GL_TEXTURE_2D, UInt 0],
      Call ''glGenFramebuffers'' [],
      Call ''glBindFramebuffer'' [Enum GL_FRAMEBUFFER, UInt (fresh_name env 9)],
      Call ''glFramebufferTexture2D'' [Enum GL_FRAMEBUFFER, Enum GL_COLOR_ATTACHMENT0,
         Enum GL_TEXTURE_2D, UInt (fresh_name env 7), SInt 0],
      Call ''glFramebufferTexture2D'' [Enum GL_FRAMEBUFFER, Enum GL_DEPTH_ATTACHMENT,
         Enum GL_TEXTURE_2D, UInt (fresh_name env 8), SInt 0],
      Call ''glCheckFramebufferStatus'' [Enum GL_FRAMEBUFFER]]"

definition calls_after_target_check :: "platform \<Rightarrow> api_call list" where
  "calls_after_target_check env =
     [
      Call ''glBindFramebuffer'' [Enum GL_FRAMEBUFFER, UInt 0],
      Call ''glCreateShader'' [Enum GL_VERTEX_SHADER],
      Call ''glShaderSource'' [UInt (fresh_name env 10), Str quad_vert_src],
      Call ''glCompileShader'' [UInt (fresh_name env 10)],
      Call ''glGetShaderiv'' [UInt (fresh_name env 10), Enum GL_COMPILE_STATUS],
      Call ''glCreateShader'' [Enum GL_FRAGMENT_SHADER],
      Call ''glShaderSource'' [UInt (fresh_name env 11), Str blit_frag_src],
      Call ''glCompileShader'' [UInt (fresh_name env 11)],
      Call ''glGetShaderiv'' [UInt (fresh_name env 11), Enum GL_COMPILE_STATUS],
      Call ''glCreateProgram'' [],
      Call ''glAttachShader'' [UInt (fresh_name env 12), UInt (fresh_name env 10)],
      Call ''glAttachShader'' [UInt (fresh_name env 12), UInt (fresh_name env 11)],
      Call ''glLinkProgram'' [UInt (fresh_name env 12)],
      Call ''glGetProgramiv'' [UInt (fresh_name env 12), Enum GL_LINK_STATUS],
      Call ''glGenVertexArrays'' [],
      Call ''glGenBuffers'' [],
      Call ''glBindVertexArray'' [UInt (fresh_name env 13)],
      Call ''glBindBuffer'' [Enum GL_ARRAY_BUFFER, UInt (fresh_name env 14)],
      Call ''glBufferData'' [Enum GL_ARRAY_BUFFER, SInt 32, Data (Block [Some (Fl (- 1)),
         Some (Fl (- 1)), Some (Fl 1), Some (Fl (- 1)), Some (Fl 1), Some (Fl 1),
         Some (Fl (- 1)), Some (Fl 1)]), Enum GL_STATIC_DRAW],
      Call ''glEnableVertexAttribArray'' [UInt 0],
      Call ''glVertexAttribPointer'' [UInt 0, SInt 2, Enum GL_FLOAT, SInt GL_FALSE, SInt 0,
         UInt 0],
      Call ''glBindVertexArray'' [UInt 0],
      Call ''glBindFramebuffer'' [Enum GL_FRAMEBUFFER, UInt (fresh_name env 9)],
      Call ''glEnable'' [Enum GL_DEPTH_TEST],
      Call ''glClearColor'' [Flt 1, Flt 1, Flt 0, Flt 1],
      Call ''glClearDepth'' [Flt 1],
      Call ''glClear'' [Bits {GL_DEPTH_BUFFER_BIT, GL_COLOR_BUFFER_BIT}],
      Call ''glUseProgram'' [UInt (fresh_name env 5)],
      Call ''glBindVertexArray'' [UInt (fresh_name env 0)],
      Call ''glDrawArraysInstanced'' [Enum GL_TRIANGLE_FAN, SInt 0,
         SInt (int (cone_res + 2)), SInt (int point_count)],
      Call ''glBindVertexArray'' [UInt 0],
      Call ''glUseProgram'' [UInt 0],
      Call ''glBindFramebuffer'' [Enum GL_FRAMEBUFFER, UInt 0],
      Call ''glUseProgram'' [UInt (fresh_name env 12)],
      Call ''glBindVertexArray'' [UInt (fresh_name env 13)],
      Call ''glActiveTexture'' [Enum GL_TEXTURE0],
      Call ''glBindTexture'' [Enum GL_TEXTURE_2D, UInt (fresh_name env 7)],
      Call ''glGetUniformLocation'' [UInt (fresh_name env 12), Str ''tex''],
      Call ''glUniform1i'' [SInt (uniform_location env (fresh_name env 12) ''tex''), SInt 0],
      Call ''glClearColor'' [Flt 0, Flt 0, Flt 0, Flt 1],
      Call ''glClearDepth'' [Flt 1]]"

text \<open>One turn of the loop of \<^verbatim>\<open>main\<close> in which the window stays open.\<close>

definition frame_calls :: "nat \<Rightarrow> api_call list" where
  "frame_calls win =
     [Call ''glfwWindowShouldClose'' [UInt win],
      Call ''glClear'' [Bits {GL_COLOR_BUFFER_BIT, GL_DEPTH_BUFFER_BIT}],
      Call ''glDrawArrays'' [Enum GL_TRIANGLE_FAN, SInt 0, SInt 4],
      Call ''glfwSwapBuffers'' [UInt win],
      Call ''glfwPollEvents'' []]"

text \<open>
  Views of a log: the calls that make up the two passes (target binding, depth test,
  clears, draws, buffer swaps), the calls that size and attach textures, and the uploads
  of vertex data.
\<close>

definition call_name :: "api_call \<Rightarrow> string" where
  "call_name c = (case c of Call f args \<Rightarrow> f)"

definition pass_trace :: "api_call list \<Rightarrow> api_call list" where
  "pass_trace cs =
     filter (\<lambda>c. call_name c \<in> set [''glBindFramebuffer'', ''glEnable'', ''glClearColor'',
       ''glClearDepth'', ''glClear'', ''glDrawArraysInstanced'', ''glDrawArrays'',
       ''glfwSwapBuffers'']) cs"

definition target_trace :: "api_call list \<Rightarrow> api_call list" where
  "target_trace cs =
     filter (\<lambda>c. call_name c \<in> set [''glBindTexture'', ''glTexImage2D'',
       ''glFramebufferTexture2D'', ''glCheckFramebufferStatus'']) cs"

definition uploads :: "api_call list \<Rightarrow> api_call list" where
  "uploads cs = filter (\<lambda>c. call_name c = ''glBufferData'') cs"


text \<open>An action extends the log when it only appends calls to it.\<close>

definition extends_log :: "'a io \<Rightarrow> bool" where
  "extends_log m \<longleftrightarrow> (\<forall>s. \<exists>ys. api_log (snd (m s)) = api_log s @ ys)"


section \<open>A platform to run on\<close>

text \<open>
  A platform on which every step of the program succeeds: allocations below 4 GiB
  succeed, \<^verbatim>\<open>rand\<close> is a linear congruential sequence within \<open>[0, RAND_MAX]\<close>,
  \<^verbatim>\<open>cos\<close> and \<^verbatim>\<open>sin\<close> return the \<^verbatim>\<open>double\<close> nearest to the cosine and sine, the
  context is OpenGL 4.1, every shader compiles and links, the framebuffer is complete,
  and the window asks to close at the third poll.
\<close>

definition demo_platform :: platform where
  "demo_platform =
     \<lparr> RAND_MAX = 2147483647,
       rand_sequence = (\<lambda>seed i. (int seed * 1103515245 + int i * 12345) mod 2147483648),
       libm_cos = (\<lambda>x. to_double (cos x)),
       libm_sin = (\<lambda>x. to_double (sin x)),
       malloc_succeeds = (\<lambda>i bytes. bytes < 2 ^ 32),
       system_entropy = 0,
       glfw_init_ok = True,
       created_window = 1,
       version_string = c_string ''4.1 Metal'',
       fresh_name = Suc,
       compiler = (\<lambda>type src. (True, [])),
       linker = (\<lambda>vert frag. (True, [])),
       framebuffer_status = GL_FRAMEBUFFER_COMPLETE,
       uniform_location = (\<lambda>program name. 0),
       close_requested = (\<lambda>i. 2 \<le> i) \<rparr>"


section \<open>Instance colour encoding\<close>

lemma smod_nonneg: "0 \<le> k \<Longrightarrow> k smod 256 = k mod 256" for k :: int
  by (cases "k = 0") (simp_all add: smod_int_alt_def)

lemma sdiv_nonneg_256: "0 \<le> k \<Longrightarrow> k sdiv 256 = k div 256" for k :: int
  by (cases "k = 0") (simp_all add: signed_divide_int_def)

lemma sdiv_nonneg_65536: "0 \<le> k \<Longrightarrow> k sdiv 65536 = k div 65536" for k :: int
  by (cases "k = 0") (simp_all add: signed_divide_int_def)

lemma instance_color_eq:
  assumes "0 \<le> k"
  shows "instance_color k =
    (real_of_int (k mod 256) / 255, real_of_int (k div 256 mod 256) / 255,
     real_of_int (k div 65536 mod 256) / 255)"
proof -
  have "0 \<le> k div 256" and "0 \<le> k div 65536"
    using assms by simp_all
  then show ?thesis
    using assms
    by (simp add: instance_color_def voronoi_vert_def Let_def smod_nonneg
        sdiv_nonneg_256 sdiv_nonneg_65536)
qed

lemma store_channel_byte:
  assumes "0 \<le> r" "r \<le> 255"
  shows "store_channel (real_of_int r / 255) = r"
proof -
  have "0 \<le> real_of_int r / 255" "real_of_int r / 255 \<le> 1"
    using assms by simp_all
  then have "max 0 (min 1 (real_of_int r / 255)) = real_of_int r / 255"
    by simp
  then show ?thesis
    by (simp add: store_channel_def)
qed

lemma three_bytes:
  fixes k :: int
  assumes "0 \<le> k" "k < 2 ^ 24"
  shows "k mod 256 + 256 * (k div 256 mod 256) + 65536 * (k div 65536 mod 256) = k"
proof -
  have "k div 65536 < 256" "0 \<le> k div 65536"
    using assms by simp_all
  then have hi: "k div 65536 mod 256 = k div 65536"
    by simp
  have dd: "k div 65536 = k div 256 div 256"
    by (simp add: div_mult2_eq [symmetric])
  have a: "k = 256 * (k div 256) + k mod 256"
    by simp
  have b: "k div 256 = 256 * (k div 256 div 256) + k div 256 mod 256"
    by simp
  show ?thesis
    using a b hi dd by linarith
qed

lemma sampled_index_bytes:
  fixes k :: int
  assumes "0 \<le> k"
  shows "sampled_index k =
    k mod 256 + 256 * (k div 256 mod 256) + 65536 * (k div 65536 mod 256)"
proof -
  have r: "store_channel (real_of_int (k mod 256) / 255) = k mod 256"
    by (rule store_channel_byte) simp_all
  have g: "store_channel (real_of_int (k div 256 mod 256) / 255) = k div 256 mod 256"
    by (rule store_channel_byte) simp_all
  have b: "store_channel (real_of_int (k div 65536 mod 256) / 255) = k div 65536 mod 256"
    by (rule store_channel_byte) simp_all
  show ?thesis
    unfolding sampled_index_def instance_color_eq [OF assms] voronoi_frag_def
      store_rgb_def decode_rgb_def fst_conv snd_conv r g b ..
qed

lemma sampled_index_id:
  fixes k :: int
  assumes "0 \<le> k" "k < 2 ^ 24"
  shows "sampled_index k = k"
  unfolding sampled_index_bytes [OF assms(1)] by (rule three_bytes [OF assms])

text \<open>
  C2. For every instance index \<open>k\<close> with \<open>0 \<le> k < 2^24\<close>, the colour encoding of the
  vertex stage, \<open>(k mod 256, (k / 256) mod 256, (k / 65536) mod 256)\<close> normalised to
  \<open>[0,1]^3\<close>, is injective, and decoding the three 8-bit channels recovers \<open>k\<close>.
\<close>

theorem color_encoding_roundtrip:
  "(\<forall>k. 0 \<le> k \<and> k < 2 ^ 24 \<longrightarrow>
      instance_color k =
        (real_of_int (k mod 256) / 255, real_of_int (k div 256 mod 256) / 255,
         real_of_int (k div 65536 mod 256) / 255) \<and>
      sampled_index k = k) \<and>
   inj_on instance_color {0 ..< 2 ^ 24}"
proof (intro conjI allI impI)
  fix k :: int
  assume "0 \<le> k \<and> k < 2 ^ 24"
  then show "instance_color k =
        (real_of_int (k mod 256) / 255, real_of_int (k div 256 mod 256) / 255,
         real_of_int (k div 65536 mod 256) / 255)"
    by (simp add: instance_color_eq)
next
  fix k :: int
  assume "0 \<le> k \<and> k < 2 ^ 24"
  then show "sampled_index k = k"
    by (simp add: sampled_index_id)
next
  show "inj_on instance_color {0 ..< 2 ^ 24}"
  proof (rule inj_onI)
    fix j k :: int
    assume j: "j \<in> {0 ..< 2 ^ 24}" and k: "k \<in> {0 ..< 2 ^ 24}"
      and eq: "instance_color j = instance_color k"
    have "sampled_index j = sampled_index k"
      using eq by (simp add: sampled_index_def)
    moreover have "sampled_index j = j" "sampled_index k = k"
      using j k by (simp_all add: sampled_index_id)
    ultimately show "j = k"
      by simp
  qed
qed

theorem color_encoding_roundtrip_witness:
  "map sampled_index [0, 1, 255, 256, 65535, 65536, 99] = [0, 1, 255, 256, 65535, 65536, 99] \<and>
   instance_color 65535 = (1, 1, 0) \<and> instance_color 256 = (0, 1 / 255, 0) \<and>
   instance_color 99 \<noteq> instance_color 65536"
proof -
  note r = color_encoding_roundtrip
  have a: "\<And>k. 0 \<le> k \<Longrightarrow> k < 2 ^ 24 \<Longrightarrow> sampled_index k = k"
    using r by blast
  have c: "\<And>k. 0 \<le> k \<Longrightarrow> k < 2 ^ 24 \<Longrightarrow> instance_color k =
        (real_of_int (k mod 256) / 255, real_of_int (k div 256 mod 256) / 255,
         real_of_int (k div 65536 mod 256) / 255)"
    using r by blast
  have i: "inj_on instance_color {0 ..< 2 ^ 24}"
    using r by blast
  have "instance_color 99 \<noteq> instance_color 65536"
    using inj_onD [OF i, of 99 65536] by auto
  then show ?thesis
    by (simp add: a c)
qed


section \<open>Running the process\<close>

lemma bind_return [simp]: "bind_io (return_io x) f = f x"
  by (rule ext) (simp add: bind_io_def return_io_def)

lemma bind_return_right [simp]: "bind_io m return_io = m"
  by (rule ext) (simp add: bind_io_def return_io_def split: prod.splits sum.splits)

lemma bind_assoc: "bind_io (bind_io m f) g = bind_io m (\<lambda>x. bind_io (f x) g)"
  by (rule ext) (simp add: bind_io_def split: prod.splits sum.splits)

lemma bind_lift_Inr [simp]: "bind_io (lift_io (Inr x)) f = f x"
  by (rule ext) (simp add: bind_io_def lift_io_def)

lemma bind_lift_Inl [simp]: "bind_io (lift_io (Inl e)) f = halt e"
  by (rule ext) (simp add: bind_io_def lift_io_def halt_def)

lemma bind_halt [simp]: "bind_io (halt e) f = halt e"
  by (rule ext) (simp add: bind_io_def halt_def)

lemma for_io_Nil_eta: "for_io [] body = return_io"
  by (rule ext) simp

lemma for_io_snoc: "for_io (xs @ [i]) body x = bind_io (for_io xs body x) (body i)"
proof (induction xs arbitrary: x)
  case Nil
  show ?case by (simp add: for_io_Nil_eta)
next
  case (Cons a xs)
  have "for_io (xs @ [i]) body = (\<lambda>y. bind_io (for_io xs body y) (body i))"
    by (rule ext) (rule Cons.IH)
  then show ?case by (simp add: bind_assoc)
qed

lemma length_packed3 [simp]: "length (packed3 vs) = 3 * length vs"
  by (induction vs) (auto simp: packed3_def)

lemma packed3_snoc: "packed3 (vs @ [(x, y, z)]) = packed3 vs @ [Some x, Some y, Some z]"
  by (simp add: packed3_def)

lemma store_Block: "i < length cs \<Longrightarrow> store (Block cs) i v = Inr (Block (cs[i := Some v]))"
  by (simp add: store_def)

lemma size_t_id: "n < 2 ^ 64 \<Longrightarrow> size_t n = n"
  by (simp add: size_t_def)

lemma write3:
  assumes "length xs = k"
  shows "((xs @ a # b # c # ys)[k := a', Suc k := b', Suc (Suc k) := c']) = xs @ a' # b' # c' # ys"
  using assms by (simp add: list_update_append)

lemma cone_ring_vertex_step:
  assumes len: "length xs = 3 * i + 3" and small: "3 * i + 5 < 2 ^ 64"
  shows "cone_ring_vertex env n i (Block (xs @ None # None # None # ys)) =
    return_io (Block (xs @ Some (fcos env (cone_angle i n)) #
       Some (fsin env (cone_angle i n)) # Some (Fl 1) # ys))"
proof -
  have i3: "i * 3 + 3 = 3 * i + 3" "i * 3 + 4 = Suc (3 * i + 3)" "i * 3 + 5 = Suc (Suc (3 * i + 3))"
    by simp_all
  have s: "size_t (3 * i + 3) = 3 * i + 3" "size_t (Suc (3 * i + 3)) = Suc (3 * i + 3)"
    "size_t (Suc (Suc (3 * i + 3))) = Suc (Suc (3 * i + 3))"
    using small by (simp_all add: size_t_id)
  show ?thesis
    unfolding cone_ring_vertex_def Let_def i3 s
    using len
    by (simp add: store_Block list_update_append lift_io_def return_io_def fun_eq_iff bind_io_def)
qed


lemma replicate3: "0 < k \<Longrightarrow> replicate (3 * k) x = x # x # x # replicate (3 * (k - 1)) x"
proof (cases k)
  case 0
  assume "0 < k"
  with 0 show ?thesis by simp
next
  case (Suc j)
  have "3 * Suc j = Suc (Suc (Suc (3 * j)))"
    by simp
  then show ?thesis
    using Suc by (simp only: replicate_Suc diff_Suc_1)
qed

lemma cone_vertex_Suc:
  "cone_vertex env n (Suc i) = (fcos env (cone_angle i n), fsin env (cone_angle i n), Fl 1)"
  by (simp add: cone_vertex_def)

lemma cone_loop:
  assumes small: "3 * n + 5 < 2 ^ 64"
  shows "m \<le> Suc n \<Longrightarrow>
    for_io [0 ..< m] (cone_ring_vertex env n)
      (Block (packed3 [cone_vertex env n 0] @ replicate (3 * Suc n) None)) =
    return_io (Block (packed3 (map (cone_vertex env n) [0 ..< Suc m]) @
      replicate (3 * (Suc n - m)) None))"
proof (induction m)
  case 0
  show ?case by (simp add: for_io_Nil_eta)
next
  case (Suc m)
  let ?xs = "packed3 (map (cone_vertex env n) [0 ..< Suc m])"
  have len: "length ?xs = 3 * m + 3"
    by simp
  have sm: "3 * m + 5 < 2 ^ 64"
    using Suc.prems small by simp
  have rep: "replicate (3 * (Suc n - m)) (None :: float option) =
      None # None # None # replicate (3 * (Suc n - Suc m)) None"
    using Suc.prems by (simp add: replicate3)
  have snoc: "packed3 (map (cone_vertex env n) [0 ..< Suc (Suc m)]) =
      ?xs @ [Some (fcos env (cone_angle m n)), Some (fsin env (cone_angle m n)), Some (Fl 1)]"
  proof -
    have "[0 ..< Suc (Suc m)] = [0 ..< Suc m] @ [Suc m]"
      by (rule upt_Suc_append) simp
    then show ?thesis
      by (simp only: map_append list.map cone_vertex_Suc packed3_snoc)
  qed
  have ih: "for_io [0 ..< m] (cone_ring_vertex env n)
      (Block (packed3 [cone_vertex env n 0] @ replicate (3 * Suc n) None)) =
    return_io (Block (?xs @ replicate (3 * (Suc n - m)) None))"
    using Suc by simp
  have "for_io [0 ..< Suc m] (cone_ring_vertex env n)
      (Block (packed3 [cone_vertex env n 0] @ replicate (3 * Suc n) None)) =
    cone_ring_vertex env n m (Block (?xs @ replicate (3 * (Suc n - m)) None))"
  proof -
    have "[0 ..< Suc m] = [0 ..< m] @ [m]"
      by simp
    then show ?thesis
      by (simp only: for_io_snoc ih bind_return)
  qed
  also have "\<dots> = return_io (Block (?xs @ Some (fcos env (cone_angle m n)) #
       Some (fsin env (cone_angle m n)) # Some (Fl 1) #
       replicate (3 * (Suc n - Suc m)) None))"
    unfolding rep by (rule cone_ring_vertex_step [OF len sm])
  finally show ?case
    unfolding snoc by simp
qed

lemma to_signed_id: "n < 2 ^ 63 \<Longrightarrow> to_signed 64 n = int n"
proof -
  assume "n < 2 ^ 63"
  then have "int n < 2 ^ 63"
    by (metis of_nat_less_iff of_nat_numeral of_nat_power)
  then have "(int n + 2 ^ 63) mod 2 ^ 64 = int n + 2 ^ 63"
    by simp
  then show ?thesis
    by (simp add: to_signed_def)
qed

lemma bind_io_Inr: "m s = (Inr x, s') \<Longrightarrow> bind_io m f s = f x s'"
  by (simp add: bind_io_def)

lemma bind_io_Inl: "m s = (Inl e, s') \<Longrightarrow> bind_io m f s = (Inl e, s')"
  by (simp add: bind_io_def)

lemma build_cone_ok:
  assumes small64: "(n + 2) * 3 * sizeof_float < 2 ^ 64"
    and m: "malloc_succeeds env (malloc_count s) ((n + 2) * 3 * sizeof_float)"
  shows "build_cone env n s =
    (Inr (), s\<lparr>api_log := api_log s @
      [Call ''glGenBuffers'' [],
       Call ''glBindBuffer'' [Enum GL_ARRAY_BUFFER, UInt (fresh_name env (name_count s))],
       Call ''glBufferData'' [Enum GL_ARRAY_BUFFER,
         SInt (to_signed 64 ((n + 2) * 3 * sizeof_float)),
         Data (Block (packed3 (cone_mesh env n))), Enum GL_STATIC_DRAW],
       Call ''glEnableVertexAttribArray'' [UInt 0],
       Call ''glVertexAttribPointer'' [UInt 0, SInt 3, Enum GL_FLOAT, SInt GL_FALSE, SInt 0, UInt 0]],
      malloc_count := Suc (malloc_count s), name_count := Suc (name_count s)\<rparr>)"
proof -
  define bytes where "bytes = (n + 2) * 3 * sizeof_float"
  define rest :: "float option list" where "rest = replicate (3 * Suc n) None"
  have small: "bytes < 2 ^ 64"
    using small64 by (simp add: bytes_def)
  have b: "size_t bytes = bytes"
    using small by (rule size_t_id)
  have cells: "bytes div sizeof_float = 3 + 3 * Suc n"
    by (simp add: sizeof_float_def bytes_def)
  have small': "3 * n + 5 < 2 ^ 64"
    using small by (simp add: sizeof_float_def bytes_def)
  have loop: "for_io [0 ..< Suc n] (cone_ring_vertex env n)
      (Block (Some (Fl 0) # Some (Fl 0) # Some (Fl (- 1)) # rest)) =
    return_io (Block (packed3 (cone_mesh env n)))"
    using cone_loop [OF small', of "Suc n" env]
    by (simp add: cone_mesh_def packed3_def cone_vertex_def rest_def
        del: upt_Suc replicate_Suc)
  have al: "malloc env sizeof_float bytes s =
      (Inr (Block (None # None # None # rest)), s\<lparr>malloc_count := Suc (malloc_count s)\<rparr>)"
  proof -
    have "replicate (3 + 3 * Suc n) (None :: float option) = None # None # None # rest"
      unfolding replicate_add rest_def by (simp add: numeral_3_eq_3)
    moreover have "malloc_succeeds env (malloc_count s) bytes"
      using m by (simp only: bytes_def)
    ultimately show ?thesis
      unfolding malloc_def cells by simp
  qed
  have st: "store (Block (None # None # None # rest)) 0 (Fl 0) =
      Inr (Block (Some (Fl 0) # None # None # rest))"
    "store (Block (Some (Fl 0) # None # None # rest)) (Suc 0) (Fl 0) =
      Inr (Block (Some (Fl 0) # Some (Fl 0) # None # rest))"
    "store (Block (Some (Fl 0) # Some (Fl 0) # None # rest)) 2 (Fl (- 1)) =
      Inr (Block (Some (Fl 0) # Some (Fl 0) # Some (Fl (- 1)) # rest))"
    by (simp_all add: store_def)
  show ?thesis
    unfolding build_cone_def Let_def bytes_def [symmetric] b
    by (simp add: al st loop then_io_def bind_io_def lift_io_def gl_def gl_gen_def
        return_io_def del: upt_Suc)
qed

lemma drawn_offsets_Suc:
  "drawn_offsets env seed c (Suc m) =
     drawn_offsets env seed c m @ [random_offset env (rand_sequence env seed (c + m))]"
  by (simp add: drawn_offsets_def)

lemma length_drawn_offsets [simp]: "length (drawn_offsets env seed c m) = m"
  by (simp add: drawn_offsets_def)

lemma instance_component_step:
  assumes "length xs = i"
  shows "instance_component env i (Block (xs @ None # ys)) s =
    (Inr (Block (xs @ Some (random_offset env (rand_sequence env (rand_seed s) (rand_count s))) # ys)),
     s\<lparr>rand_count := Suc (rand_count s)\<rparr>)"
  using assms
  by (auto simp add: instance_component_def bind_io_def rand_def lift_io_def store_def)

lemma instances_loop:
  "m \<le> k \<Longrightarrow>
    for_io [0 ..< m] (instance_component env) (Block (replicate k None)) s =
    (Inr (Block (map Some (drawn_offsets env (rand_seed s) (rand_count s) m) @
                 replicate (k - m) None)),
     s\<lparr>rand_count := rand_count s + m\<rparr>)"
proof (induction m)
  case 0
  show ?case by (simp add: return_io_def drawn_offsets_def)
next
  case (Suc m)
  let ?xs = "map Some (drawn_offsets env (rand_seed s) (rand_count s) m)"
  have ih: "for_io [0 ..< m] (instance_component env) (Block (replicate k None)) s =
    (Inr (Block (?xs @ replicate (k - m) None)), s\<lparr>rand_count := rand_count s + m\<rparr>)"
    using Suc by simp
  have rep: "replicate (k - m) (None :: float option) = None # replicate (k - Suc m) None"
    using Suc.prems by (cases "k - m") (simp_all add: Suc_diff_Suc)
  have len: "length ?xs = m"
    by simp
  have "[0 ..< Suc m] = [0 ..< m] @ [m]"
    by simp
  then have "for_io [0 ..< Suc m] (instance_component env) (Block (replicate k None)) s =
      bind_io (for_io [0 ..< m] (instance_component env) (Block (replicate k None)))
        (instance_component env m) s"
    by (simp only: for_io_snoc)
  also have "\<dots> = instance_component env m (Block (?xs @ None # replicate (k - Suc m) None))
      (s\<lparr>rand_count := rand_count s + m\<rparr>)"
    by (simp add: bind_io_def ih rep)
  also have "\<dots> = (Inr (Block (map Some (drawn_offsets env (rand_seed s) (rand_count s) (Suc m)) @
                 replicate (k - Suc m) None)),
     s\<lparr>rand_count := rand_count s + Suc m\<rparr>)"
    unfolding instance_component_step [OF len] drawn_offsets_Suc by simp
  finally show ?case .
qed

lemma build_instances_ok:
  assumes small64: "n * 2 * sizeof_float < 2 ^ 64"
    and m: "malloc_succeeds env (malloc_count s) (n * 2 * sizeof_float)"
  shows "build_instances env n s =
    (Inr (fresh_name env (name_count s)),
     s\<lparr>api_log := api_log s @
      [Call ''glGenBuffers'' [],
       Call ''glBindBuffer'' [Enum GL_ARRAY_BUFFER, UInt (fresh_name env (name_count s))],
       Call ''glBufferData'' [Enum GL_ARRAY_BUFFER, SInt (to_signed 64 (n * 2 * sizeof_float)),
         Data (Block (map Some (drawn_offsets env (rand_seed s) (rand_count s) (2 * n)))),
         Enum GL_STATIC_DRAW],
       Call ''glEnableVertexAttribArray'' [UInt 1],
       Call ''glVertexAttribPointer'' [UInt 1, SInt 2, Enum GL_FLOAT, SInt GL_FALSE, SInt 0, UInt 0],
       Call ''glVertexAttribDivisor'' [UInt 1, UInt 1]],
      malloc_count := Suc (malloc_count s), name_count := Suc (name_count s),
      rand_count := rand_count s + 2 * n\<rparr>)"
proof -
  define bytes where "bytes = n * 2 * sizeof_float"
  define s1 where "s1 = s\<lparr>malloc_count := Suc (malloc_count s)\<rparr>"
  have small: "bytes < 2 ^ 64"
    using small64 by (simp add: bytes_def)
  have b: "size_t bytes = bytes"
    using small by (rule size_t_id)
  have cells: "bytes div sizeof_float = 2 * n"
    by (simp add: sizeof_float_def bytes_def)
  have "2 * n < 2 ^ 64"
    using small by (simp add: sizeof_float_def bytes_def)
  then have bound: "size_t (2 * n) = 2 * n"
    by (rule size_t_id)
  have al: "malloc env sizeof_float bytes s = (Inr (Block (replicate (2 * n) None)), s1)"
  proof -
    have "malloc_succeeds env (malloc_count s) bytes"
      using m by (simp only: bytes_def)
    then show ?thesis
      unfolding malloc_def cells s1_def by simp
  qed
  have loop: "for_io [0 ..< 2 * n] (instance_component env) (Block (replicate (2 * n) None)) s1 =
      (Inr (Block (map Some (drawn_offsets env (rand_seed s) (rand_count s) (2 * n)))),
       s1\<lparr>rand_count := rand_count s + 2 * n\<rparr>)"
    using instances_loop [of "2 * n" "2 * n" env s1] by (simp add: s1_def)
  show ?thesis
    unfolding build_instances_def Let_def bytes_def [symmetric] b bound
    by (simp add: al [unfolded s1_def] loop [unfolded s1_def] then_io_def bind_io_def
        gl_def gl_gen_def return_io_def)
qed

lemma build_cone_null:
  assumes "\<not> malloc_succeeds env (malloc_count s) (size_t ((n + 2) * 3 * sizeof_float))"
  shows "build_cone env n s = (Inl Undefined, s\<lparr>malloc_count := Suc (malloc_count s)\<rparr>)"
  using assms
  by (simp add: build_cone_def Let_def bind_io_def malloc_def store_def lift_io_def halt_def)

lemma build_instances_null:
  assumes "\<not> malloc_succeeds env (malloc_count s) (size_t (n * 2 * sizeof_float))"
    and "0 < size_t (2 * n)"
  shows "build_instances env n s =
    (Inl Undefined, s\<lparr>malloc_count := Suc (malloc_count s), rand_count := Suc (rand_count s)\<rparr>)"
proof -
  have "[0 ..< size_t (2 * n)] = 0 # [1 ..< size_t (2 * n)]"
    using assms(2) by (simp add: upt_conv_Cons)
  then show ?thesis
    using assms(1)
    by (simp add: build_instances_def Let_def bind_io_def malloc_def store_def lift_io_def
        instance_component_def rand_def halt_def)
qed

section \<open>Rounding errors\<close>

text \<open>
  Rounding to \<open>p\<close> significant bits moves a number by at most half a unit in its last
  place: by the fraction \<open>2 powr - p\<close> of a normal number, and by
  \<open>2 powr (emin - p)\<close> at most below the normal range.
\<close>

lemma nearest_even_error: "\<bar>real_of_int (nearest_even y) - y\<bar> \<le> 1 / 2"
proof -
  define f where "f = \<lfloor>y\<rfloor>"
  have f: "real_of_int f \<le> y" "y < real_of_int f + 1"
    unfolding f_def by linarith+
  have "nearest_even y = f \<and> y - real_of_int f \<le> 1 / 2 \<or>
      nearest_even y = f + 1 \<and> 1 / 2 \<le> y - real_of_int f"
    unfolding nearest_even_def Let_def f_def [symmetric] by (simp add: not_less)
  then show ?thesis
    using f by (auto simp: abs_if)
qed

lemma nearest_even_of_int: "nearest_even (real_of_int k) = k"
  by (simp add: nearest_even_def)

lemma binade_bounds:
  assumes "x \<noteq> 0"
  shows "2 powr real_of_int (binade x) \<le> \<bar>x\<bar>" and "\<bar>x\<bar> < 2 powr real_of_int (binade x + 1)"
  using floor_log_eq_powr_iff [of "\<bar>x\<bar>" 2 "binade x"] assms by (simp_all add: binade_def)

lemma binade_eq:
  assumes "2 powr real_of_int k \<le> \<bar>x\<bar>" and "\<bar>x\<bar> < 2 powr real_of_int (k + 1)"
  shows "binade x = k"
proof -
  have "0 < \<bar>x\<bar>"
    using assms(1) by (smt (verit) powr_gt_zero)
  then show ?thesis
    unfolding binade_def using floor_log_eq_powr_iff [of "\<bar>x\<bar>" 2 k] assms by simp
qed

lemma round_binary_zero: "round_binary p emin 0 = 0"
  by (simp add: round_binary_def nearest_even_def)

lemma round_binary_error:
  "\<bar>round_binary p emin x - x\<bar> \<le> 2 powr real_of_int (max (binade x) emin - int p)"
proof -
  define q where "q = max (binade x) emin - int p + 1"
  define s where "s = 2 powr real_of_int q"
  have s: "0 < s"
    by (simp add: s_def)
  have "round_binary p emin x - x = (real_of_int (nearest_even (x / s)) - x / s) * s"
    using s by (simp add: round_binary_def q_def s_def Let_def algebra_simps)
  then have "\<bar>round_binary p emin x - x\<bar> = \<bar>real_of_int (nearest_even (x / s)) - x / s\<bar> * s"
    using s by (simp add: abs_mult)
  also have "\<dots> \<le> 1 / 2 * s"
    using s nearest_even_error [of "x / s"] by (intro mult_right_mono) simp_all
  also have "\<dots> = 2 powr real_of_int (max (binade x) emin - int p)"
  proof -
    have "real_of_int q = real_of_int (max (binade x) emin - int p) + 1"
      by (simp add: q_def)
    then show ?thesis
      by (simp add: s_def powr_add)
  qed
  finally show ?thesis .
qed

lemma round_binary_relative:
  assumes "2 powr real_of_int emin \<le> \<bar>x\<bar>"
  shows "\<bar>round_binary p emin x - x\<bar> \<le> \<bar>x\<bar> * 2 powr (- real p)"
proof -
  have x: "x \<noteq> 0"
    using assms by (smt (verit) powr_gt_zero)
  have "2 powr real_of_int emin < 2 powr real_of_int (binade x + 1)"
    using assms binade_bounds(2) [OF x] by linarith
  then have "emin \<le> binade x"
    by simp
  then have "max (binade x) emin - int p = binade x - int p"
    by simp
  then have "\<bar>round_binary p emin x - x\<bar> \<le> 2 powr (real_of_int (binade x) + - real p)"
    using round_binary_error [of p emin x] by simp
  also have "\<dots> = 2 powr real_of_int (binade x) * 2 powr (- real p)"
    by (rule powr_add)
  also have "\<dots> \<le> \<bar>x\<bar> * 2 powr (- real p)"
    using binade_bounds(1) [OF x] by (intro mult_right_mono) simp_all
  finally show ?thesis .
qed

lemma round_binary_absolute:
  "\<bar>round_binary p emin x - x\<bar> \<le> \<bar>x\<bar> * 2 powr (- real p) + 2 powr (real_of_int emin - real p)"
proof (cases "2 powr real_of_int emin \<le> \<bar>x\<bar>")
  case True
  have "0 \<le> 2 powr (real_of_int emin - real p)"
    by simp
  then show ?thesis
    using round_binary_relative [OF True, of p] by linarith
next
  case False
  have "binade x \<le> emin \<or> x = 0"
  proof (cases "x = 0")
    case False
    have "2 powr real_of_int (binade x) < 2 powr real_of_int emin"
      using binade_bounds(1) [OF False] \<open>\<not> 2 powr real_of_int emin \<le> \<bar>x\<bar>\<close> by linarith
    then show ?thesis
      by simp
  qed simp
  then show ?thesis
  proof
    assume "binade x \<le> emin"
    then have "max (binade x) emin - int p = emin - int p"
      by simp
    then have "\<bar>round_binary p emin x - x\<bar> \<le> 2 powr (real_of_int emin - real p)"
      using round_binary_error [of p emin x] by simp
    moreover have "0 \<le> \<bar>x\<bar> * 2 powr (- real p)"
      by simp
    ultimately show ?thesis
      by linarith
  next
    assume "x = 0"
    then show ?thesis
      by (simp add: round_binary_zero)
  qed
qed

text \<open>
  Bounds on \<open>\<pi>\<close> from Machin's formula and the alternating series of the arctangent,
  and the distance of \<^verbatim>\<open>M_PI\<close> from \<open>\<pi>\<close>.
\<close>

lemma arctan_partial_sums:
  assumes "0 < x" and "x \<le> 1"
  shows "(\<Sum>k<2 * n. (- 1) ^ k * (1 / real (k * 2 + 1) * x ^ (k * 2 + 1))) \<le> arctan x"
    and "arctan x \<le> (\<Sum>k<2 * n + 1. (- 1) ^ k * (1 / real (k * 2 + 1) * x ^ (k * 2 + 1)))"
proof -
  let ?a = "\<lambda>k. 1 / real (k * 2 + 1) * x ^ (k * 2 + 1)"
  have x: "\<bar>x\<bar> \<le> 1"
    using assms by simp
  have "0 < ?a 0"
    using assms by simp
  then have "(\<Sum>k. (- 1) ^ k * ?a k) \<in>
      {\<Sum>k<2 * n. (- 1) ^ k * ?a k .. \<Sum>k<2 * n + 1. (- 1) ^ k * ?a k}"
    using summable_Leibniz(2) [OF zeroseq_arctan_series [OF x] monoseq_arctan_series [OF x]]
    by blast
  then show "(\<Sum>k<2 * n. (- 1) ^ k * ?a k) \<le> arctan x"
    and "arctan x \<le> (\<Sum>k<2 * n + 1. (- 1) ^ k * ?a k)"
    unfolding arctan_series [OF x] by simp_all
qed

lemma pi_bounds: "31415926535 / 10 ^ 10 \<le> pi" "pi \<le> 31415926536 / 10 ^ 10"
proof -
  have p: "pi = 16 * arctan (1 / 5) - 4 * arctan (1 / 239)"
    using machin by simp
  have l5: "(\<Sum>k<8. (- 1) ^ k * (1 / real (k * 2 + 1) * (1 / 5) ^ (k * 2 + 1))) \<le> arctan (1 / 5)"
    using arctan_partial_sums(1) [of "1 / 5" 4] by simp
  have u5: "arctan (1 / 5) \<le> (\<Sum>k<9. (- 1) ^ k * (1 / real (k * 2 + 1) * (1 / 5) ^ (k * 2 + 1)))"
    using arctan_partial_sums(2) [of "1 / 5" 4] by simp
  have l239: "(\<Sum>k<2. (- 1) ^ k * (1 / real (k * 2 + 1) * (1 / 239) ^ (k * 2 + 1))) \<le> arctan (1 / 239)"
    using arctan_partial_sums(1) [of "1 / 239" 1] by simp
  have u239: "arctan (1 / 239) \<le> (\<Sum>k<3. (- 1) ^ k * (1 / real (k * 2 + 1) * (1 / 239) ^ (k * 2 + 1)))"
    using arctan_partial_sums(2) [of "1 / 239" 1] by simp
  show "31415926535 / 10 ^ 10 \<le> pi"
    unfolding p using l5 u239 by (simp add: eval_nat_numeral)
  show "pi \<le> 31415926536 / 10 ^ 10"
    unfolding p using u5 l239 by (simp add: eval_nat_numeral)
qed

lemma M_PI_error: "\<bar>M_PI - pi\<bar> \<le> 1 / 10 ^ 9"
proof -
  have "M_PI - pi \<le> 1 / 10 ^ 9" "pi - M_PI \<le> 1 / 10 ^ 9"
    using pi_bounds by (simp_all add: M_PI_def)
  then show ?thesis
    by linarith
qed

lemma cos_lipschitz:
  fixes a b :: real
  shows "\<bar>cos a - cos b\<bar> \<le> \<bar>a - b\<bar>"
proof -
  have "\<bar>cos a - cos b\<bar> = 2 * \<bar>sin ((a + b) / 2)\<bar> * \<bar>sin ((b - a) / 2)\<bar>"
    by (simp add: cos_diff_cos abs_mult)
  also have "\<dots> \<le> 2 * 1 * \<bar>(b - a) / 2\<bar>"
    by (intro mult_mono abs_sin_x_le_abs_x) simp_all
  finally show ?thesis
    by simp
qed

lemma sin_lipschitz:
  fixes a b :: real
  shows "\<bar>sin a - sin b\<bar> \<le> \<bar>a - b\<bar>"
proof -
  have "\<bar>sin a - sin b\<bar> = 2 * \<bar>sin ((a - b) / 2)\<bar> * \<bar>cos ((a + b) / 2)\<bar>"
    by (simp add: sin_diff_sin abs_mult)
  also have "\<dots> \<le> 2 * \<bar>(a - b) / 2\<bar> * 1"
    by (intro mult_mono abs_sin_x_le_abs_x) simp_all
  finally show ?thesis
    by simp
qed

text \<open>
  The angle \<^verbatim>\<open>build_cone\<close> computes for the \<open>i\<close>-th ring vertex is within
  \<open>377 / 10 ^ 9\<close> of \<open>2\<pi>i/n\<close>: four roundings to \<^verbatim>\<open>double\<close>, one to
  \<^verbatim>\<open>float\<close>, and the error of \<^verbatim>\<open>M_PI\<close>.
\<close>

lemma to_double_zero: "to_double 0 = 0"
  by (simp add: to_double_def round_binary_zero)

lemma to_single_zero: "to_single 0 = 0"
  by (simp add: to_single_def round_binary_zero)

lemma to_double_near:
  assumes "1 / 2 ^ 100 \<le> x"
  shows "(1 - 1 / 2 ^ 53) * x \<le> to_double x" and "to_double x \<le> (1 + 1 / 2 ^ 53) * x"
proof -
  have x: "0 < x"
    using assms by (smt (verit) zero_less_divide_1_iff zero_less_numeral zero_less_power)
  have "(2::real) powr real_of_int (- 1022) \<le> 1 / 2 ^ 100"
    by (simp add: powr_neg_numeral)
  then have "2 powr real_of_int (- 1022) \<le> \<bar>x\<bar>"
    using assms by linarith
  then have "\<bar>to_double x - x\<bar> \<le> \<bar>x\<bar> * 2 powr (- real 53)"
    unfolding to_double_def by (rule round_binary_relative)
  then have "\<bar>to_double x - x\<bar> \<le> x / 2 ^ 53"
    using x by (simp add: powr_neg_numeral)
  then have "x - to_double x \<le> x / 2 ^ 53" and "to_double x - x \<le> x / 2 ^ 53"
    by linarith+
  then show "(1 - 1 / 2 ^ 53) * x \<le> to_double x" and "to_double x \<le> (1 + 1 / 2 ^ 53) * x"
    by (simp_all add: algebra_simps)
qed

lemma to_single_near:
  assumes "1 / 2 ^ 100 \<le> x"
  shows "(1 - 1 / 2 ^ 24) * x \<le> to_single x" and "to_single x \<le> (1 + 1 / 2 ^ 24) * x"
proof -
  have x: "0 < x"
    using assms by (smt (verit) zero_less_divide_1_iff zero_less_numeral zero_less_power)
  have "(2::real) powr real_of_int (- 126) \<le> 1 / 2 ^ 100"
    by (simp add: powr_neg_numeral)
  then have "2 powr real_of_int (- 126) \<le> \<bar>x\<bar>"
    using assms by linarith
  then have "\<bar>to_single x - x\<bar> \<le> \<bar>x\<bar> * 2 powr (- real 24)"
    unfolding to_single_def by (rule round_binary_relative)
  then have "\<bar>to_single x - x\<bar> \<le> x / 2 ^ 24"
    using x by (simp add: powr_neg_numeral)
  then have "x - to_single x \<le> x / 2 ^ 24" and "to_single x - x \<le> x / 2 ^ 24"
    by linarith+
  then show "(1 - 1 / 2 ^ 24) * x \<le> to_single x" and "to_single x \<le> (1 + 1 / 2 ^ 24) * x"
    by (simp_all add: algebra_simps)
qed

lemma to_single_error: "\<bar>to_single x - x\<bar> \<le> \<bar>x\<bar> / 2 ^ 24 + 1 / 2 ^ 150"
proof -
  have "\<bar>to_single x - x\<bar> \<le> \<bar>x\<bar> * 2 powr (- real 24) + 2 powr (real_of_int (- 126) - real 24)"
    unfolding to_single_def by (rule round_binary_absolute)
  moreover have "real_of_int (- 126) - real 24 = - 150"
    by simp
  ultimately show ?thesis
    by (simp add: powr_neg_numeral)
qed

lemma scaled_between:
  fixes c :: real
  assumes "l * x \<le> y" and "y \<le> h * x" and "0 \<le> c"
  shows "l * (c * x) \<le> c * y" and "c * y \<le> h * (c * x)"
  using mult_left_mono [OF assms(1,3)] mult_left_mono [OF assms(2,3)]
  by (simp_all add: mult.left_commute)

lemma rounded_between:
  fixes e :: real
  assumes "l * x \<le> y" and "y \<le> h * x" and "(1 - e) * y \<le> r" and "r \<le> (1 + e) * y"
    and "0 \<le> e" and "e \<le> 1"
  shows "((1 - e) * l) * x \<le> r" and "r \<le> ((1 + e) * h) * x"
proof -
  have "(1 - e) * (l * x) \<le> (1 - e) * y"
    using assms(1,6) by (intro mult_left_mono) simp_all
  then show "((1 - e) * l) * x \<le> r"
    using assms(3) by (simp add: mult.assoc)
  have "(1 + e) * y \<le> (1 + e) * (h * x)"
    using assms(2,5) by (intro mult_left_mono) simp_all
  then show "r \<le> ((1 + e) * h) * x"
    using assms(4) by (simp add: mult.assoc)
qed

lemma quotient_between:
  fixes x z :: real
  assumes "l1 * x \<le> y" and "y \<le> h1 * x" and "l2 * z \<le> w" and "w \<le> h2 * z"
    and "0 < l1" and "0 < l2" and "0 < x" and "0 < z"
  shows "(l1 / h2) * (x / z) \<le> y / w" and "y / w \<le> (h1 / l2) * (x / z)"
proof -
  have w: "0 < w"
    using assms(3,6,8) by (smt (verit) mult_pos_pos)
  have y: "0 < y"
    using assms(1,5,7) by (smt (verit) mult_pos_pos)
  have h2: "0 < h2"
    using w assms(4,8) by (smt (verit) mult_nonneg_nonpos2 mult_le_0_iff)
  have "(l1 * x) / (h2 * z) \<le> y / w"
    using assms(1,4) w y by (intro frac_le) simp_all
  then show "(l1 / h2) * (x / z) \<le> y / w"
    by simp
  have "0 \<le> h1 * x" and "0 < l2 * z"
    using assms(2,6,8) y by simp_all
  then have "y / w \<le> (h1 * x) / (l2 * z)"
    using assms(2,3) by (intro frac_le)
  then show "y / w \<le> (h1 / l2) * (x / z)"
    by simp
qed

lemma cone_angle_error:
  assumes "0 < n" and "i \<le> n" and "n < 2 ^ 64"
  shows "\<exists>a. cone_angle i n = Fl a \<and> \<bar>a - 2 * pi * real i / real n\<bar> \<le> 377 / 10 ^ 9"
proof (cases "i = 0")
  case True
  have "cone_angle 0 n = Fl 0"
    using assms(1) by (simp add: cone_angle_def to_double_zero to_float_def to_single_zero FLT_MAX_def)
  then show ?thesis
    using True by simp
next
  case False
  define u :: real where "u = 1 / 2 ^ 53"
  define v :: real where "v = 1 / 2 ^ 24"
  define X where "X = 2 * M_PI * real i / real n"
  define di where "di = to_double (real i)"
  define t1 where "t1 = 2 * M_PI * di"
  define t2 where "t2 = to_double t1"
  define dn where "dn = to_double (real n)"
  define w where "w = t2 / dn"
  define t3 where "t3 = to_double w"
  define a where "a = to_single t3"
  have u: "0 \<le> u" "u \<le> 1" and v: "0 \<le> v" "v \<le> 1"
    by (simp_all add: u_def v_def)
  have i: "1 \<le> real i" "real i \<le> real n" and n: "1 \<le> real n" and n64: "real n \<le> 2 ^ 64"
    using False assms by (simp_all add: Suc_leI)
  have M: "3 \<le> M_PI" "M_PI \<le> 4"
    by (simp_all add: M_PI_def)
  have X: "6 / 2 ^ 64 \<le> X" "X \<le> 2 * M_PI" "0 < X"
  proof -
    have "6 * 1 / 2 ^ 64 \<le> (2 * M_PI) * real i / real n"
      using M i n64 n by (intro frac_le mult_mono) simp_all
    then show "6 / 2 ^ 64 \<le> X"
      by (simp add: X_def)
    then show "0 < X"
      by (smt (verit) zero_less_divide_iff zero_less_numeral zero_less_power)
    have "real i / real n \<le> 1"
      using i n by simp
    then have "2 * M_PI * (real i / real n) \<le> 2 * M_PI * 1"
      using M by (intro mult_left_mono) simp_all
    then show "X \<le> 2 * M_PI"
      by (simp add: X_def)
  qed
  have di: "(1 - u) * real i \<le> di" "di \<le> (1 + u) * real i"
    using to_double_near [of "real i"] i unfolding u_def di_def
    by (smt (verit) divide_le_eq_1_pos one_le_power zero_less_numeral zero_less_power one_le_numeral)+
  have small: "1 / 2 ^ 100 \<le> X / 4"
    using X(1) by simp
  have t1: "(1 - u) * (2 * M_PI * real i) \<le> t1" "t1 \<le> (1 + u) * (2 * M_PI * real i)"
    unfolding t1_def using scaled_between [OF di, of "2 * M_PI"] M by (simp_all add: mult.assoc)
  have t1_normal: "1 / 2 ^ 100 \<le> t1"
  proof -
    have "1 / 2 * (2 * 3 * 1) \<le> (1 - u) * (2 * M_PI * real i)"
      using M i by (intro mult_mono) (simp_all add: u_def)
    then show ?thesis
      using t1(1) by simp
  qed
  have t2: "((1 - u) * (1 - u)) * (2 * M_PI * real i) \<le> t2"
    "t2 \<le> ((1 + u) * (1 + u)) * (2 * M_PI * real i)"
    unfolding t2_def
    using rounded_between [OF t1 _ _ u] to_double_near [OF t1_normal] by (simp_all add: u_def)
  have dn: "(1 - u) * real n \<le> dn" "dn \<le> (1 + u) * real n"
    using to_double_near [of "real n"] n unfolding u_def dn_def
    by (smt (verit) divide_le_eq_1_pos one_le_power zero_less_numeral zero_less_power one_le_numeral)+
  have pos: "0 < 2 * M_PI * real i" "0 < real n"
    using M i n by simp_all
  have w: "((1 - u) * (1 - u) / (1 + u)) * X \<le> w" "w \<le> ((1 + u) * (1 + u) / (1 - u)) * X"
    unfolding w_def X_def
    using quotient_between [OF t2 dn _ _ pos] by (simp_all add: u_def)
  have w_normal: "1 / 2 ^ 100 \<le> w"
  proof -
    have "1 / 4 * X \<le> ((1 - u) * (1 - u) / (1 + u)) * X"
      using X(3) by (intro mult_right_mono) (simp_all add: u_def)
    then show ?thesis
      using w(1) small by simp
  qed
  have t3: "((1 - u) * ((1 - u) * (1 - u) / (1 + u))) * X \<le> t3"
    "t3 \<le> ((1 + u) * ((1 + u) * (1 + u) / (1 - u))) * X"
    unfolding t3_def
    using rounded_between [OF w _ _ u] to_double_near [OF w_normal] by (simp_all add: u_def)
  have t3_normal: "1 / 2 ^ 100 \<le> t3"
  proof -
    have "1 / 4 * X \<le> ((1 - u) * ((1 - u) * (1 - u) / (1 + u))) * X"
      using X(3) by (intro mult_right_mono) (simp_all add: u_def)
    then show ?thesis
      using t3(1) small by simp
  qed
  have a: "((1 - v) * ((1 - u) * ((1 - u) * (1 - u) / (1 + u)))) * X \<le> a"
    "a \<le> ((1 + v) * ((1 + u) * ((1 + u) * (1 + u) / (1 - u)))) * X"
    unfolding a_def
    using rounded_between [OF t3 _ _ v] to_single_near [OF t3_normal] by (simp_all add: v_def)
  define rho :: real where "rho = 1 / 2 ^ 24 + 1 / 2 ^ 50"
  have lo: "1 - rho \<le> (1 - v) * ((1 - u) * ((1 - u) * (1 - u) / (1 + u)))"
    and hi: "(1 + v) * ((1 + u) * ((1 + u) * (1 + u) / (1 - u))) \<le> 1 + rho"
    by (simp_all add: u_def v_def rho_def)
  have "(1 - rho) * X \<le> a" and "a \<le> (1 + rho) * X"
    using mult_right_mono [OF lo, of X] mult_right_mono [OF hi, of X] a X(3) by simp_all
  then have "\<bar>a - X\<bar> \<le> rho * X"
    by (simp add: abs_le_iff algebra_simps)
  also have "\<dots> \<le> rho * (2 * M_PI)"
    using X(2) by (intro mult_left_mono) (simp_all add: rho_def)
  finally have aX: "\<bar>a - X\<bar> \<le> rho * (2 * M_PI)" .
  have "X - 2 * pi * real i / real n = 2 * (M_PI - pi) * (real i / real n)"
    by (simp add: X_def algebra_simps diff_divide_distrib)
  then have "\<bar>X - 2 * pi * real i / real n\<bar> = \<bar>2 * (M_PI - pi) * (real i / real n)\<bar>"
    by (simp only:)
  also have "\<dots> = 2 * \<bar>M_PI - pi\<bar> * (real i / real n)"
    by (simp only: abs_mult abs_divide abs_of_nat abs_numeral)
  also have "\<dots> \<le> 2 * (1 / 10 ^ 9) * 1"
    using M_PI_error i n by (intro mult_mono) simp_all
  finally have Xt: "\<bar>X - 2 * pi * real i / real n\<bar> \<le> 2 / 10 ^ 9"
    by simp
  have "rho * (2 * M_PI) + 2 / 10 ^ 9 \<le> 377 / 10 ^ 9"
    by (simp add: rho_def M_PI_def)
  then have close: "\<bar>a - 2 * pi * real i / real n\<bar> \<le> 377 / 10 ^ 9"
    using aX Xt by linarith
  have "a \<le> (1 + rho) * (2 * M_PI)"
    using \<open>a \<le> (1 + rho) * X\<close> X(2) mult_left_mono [of X "2 * M_PI" "1 + rho"]
    by (simp add: rho_def)
  moreover have "(1 + rho) * (2 * M_PI) \<le> FLT_MAX"
    by (simp add: rho_def M_PI_def FLT_MAX_def)
  moreover have "0 \<le> a"
    using \<open>(1 - rho) * X \<le> a\<close> X(3) mult_nonneg_nonneg [of "1 - rho" X] by (simp add: rho_def)
  ultimately have "\<bar>a\<bar> \<le> FLT_MAX"
    by simp
  then have "cone_angle i n = Fl a"
    using assms(1)
    by (simp add: cone_angle_def to_float_def a_def t3_def w_def t2_def dn_def t1_def di_def)
  then show ?thesis
    using close by blast
qed

section \<open>The cone mesh\<close>

lemma packed3_Cons:
  "packed3 ((x, y, z) # vs) = Some x # Some y # Some z # packed3 vs"
  by (simp add: packed3_def)

lemma packed3_nth:
  "k < length vs \<Longrightarrow>
     packed3 vs ! (3 * k) = Some (fst (vs ! k)) \<and>
     packed3 vs ! (3 * k + 1) = Some (fst (snd (vs ! k))) \<and>
     packed3 vs ! (3 * k + 2) = Some (snd (snd (vs ! k)))"
proof (induction vs arbitrary: k)
  case Nil
  then show ?case by simp
next
  case (Cons v vs)
  obtain x y z where v: "v = (x, y, z)"
    by (cases v) auto
  show ?case
  proof (cases k)
    case 0
    then show ?thesis by (simp add: v packed3_Cons)
  next
    case (Suc j)
    have j: "j < length vs"
      using Cons.prems Suc by simp
    have i: "3 * k = Suc (Suc (Suc (3 * j)))" "3 * k + 1 = Suc (Suc (Suc (3 * j + 1)))"
      "3 * k + 2 = Suc (Suc (Suc (3 * j + 2)))"
      using Suc by simp_all
    show ?thesis
      unfolding i v packed3_Cons using Cons.IH [OF j] Suc by simp
  qed
qed

lemma vertex_packed3:
  assumes "k < length vs"
  shows "vertex (Block (packed3 vs)) k = Some (vs ! k)"
proof -
  have "3 * k + 2 < length (packed3 vs)"
    using assms by simp
  then show ?thesis
    using packed3_nth [OF assms] by (simp add: vertex_def)
qed

lemma cone_mesh_nth:
  "k < N + 2 \<Longrightarrow> cone_mesh env N ! k = cone_vertex env N k"
  by (simp add: cone_mesh_def del: upt_Suc)

lemma length_cone_mesh [simp]: "length (cone_mesh env N) = N + 2"
  by (simp add: cone_mesh_def)

lemma cone_vertex_apex:
  "vertex (Block (packed3 (cone_mesh env N))) 0 = Some (Fl 0, Fl 0, Fl (- 1))"
  by (simp add: vertex_packed3 cone_mesh_nth cone_vertex_def)

lemma cone_vertex_ring:
  assumes "i \<le> N"
  shows "vertex (Block (packed3 (cone_mesh env N))) (i + 1) =
    Some (fcos env (cone_angle i N), fsin env (cone_angle i N), Fl 1)"
proof -
  have "i + 1 < length (cone_mesh env N)" "i + 1 < N + 2"
    using assms by simp_all
  then show ?thesis
    by (simp add: vertex_packed3 cone_mesh_nth cone_vertex_def)
qed

text \<open>
  A value of the C library that is within \<open>1 / 2 ^ 24\<close> of the cosine or sine of the
  computed angle is stored, as a \<^verbatim>\<open>float\<close>, within \<open>5 / 10 ^ 7\<close> of the cosine or
  sine of the exact angle.
\<close>

lemma stored_value_near:
  assumes "\<bar>c - f a\<bar> \<le> 1 / 2 ^ 24" and "\<bar>f a - f t\<bar> \<le> 377 / 10 ^ 9" and "\<bar>f t\<bar> \<le> 1"
  shows "\<exists>x. to_float c = Fl x \<and> \<bar>x - f t\<bar> \<le> 1 / (2 * 10 ^ 6)"
proof -
  have c: "\<bar>c - f t\<bar> \<le> 1 / 2 ^ 24 + 377 / 10 ^ 9"
    using assms(1,2) by linarith
  then have "\<bar>c\<bar> \<le> 1 + (1 / 2 ^ 24 + 377 / 10 ^ 9)"
    using assms(3) by linarith
  then have "\<bar>c\<bar> / 2 ^ 24 \<le> (1 + (1 / 2 ^ 24 + 377 / 10 ^ 9)) / 2 ^ 24"
    by (rule divide_right_mono) simp
  then have r: "\<bar>to_single c - c\<bar> \<le> (1 + (1 / 2 ^ 24 + 377 / 10 ^ 9)) / 2 ^ 24 + 1 / 2 ^ 150"
    using to_single_error [of c] by linarith
  have "(1 + (1 / 2 ^ 24 + 377 / 10 ^ 9)) / 2 ^ 24 + 1 / 2 ^ 150 + (1 / 2 ^ 24 + 377 / 10 ^ 9)
      \<le> (1 :: real) / (2 * 10 ^ 6)"
    by simp
  then have near: "\<bar>to_single c - f t\<bar> \<le> 1 / (2 * 10 ^ 6)"
    using r c by linarith
  moreover have "1 / (2 * 10 ^ 6) \<le> (1 :: real)"
    by simp
  ultimately have "\<bar>to_single c\<bar> \<le> 2"
    using assms(3) by linarith
  moreover have "2 \<le> FLT_MAX"
    by (simp add: FLT_MAX_def)
  ultimately have "to_float c = Fl (to_single c)"
    by (simp add: to_float_def)
  then show ?thesis
    using near by blast
qed

lemma ring_vertex_near:
  assumes "0 < n" and "i \<le> n" and "n < 2 ^ 64"
    and "\<And>x. \<bar>libm_cos env x - cos x\<bar> \<le> 1 / 2 ^ 24"
    and "\<And>x. \<bar>libm_sin env x - sin x\<bar> \<le> 1 / 2 ^ 24"
  shows "\<exists>x y. fcos env (cone_angle i n) = Fl x \<and> fsin env (cone_angle i n) = Fl y \<and>
    \<bar>x - cos (2 * pi * real i / real n)\<bar> \<le> 1 / (2 * 10 ^ 6) \<and>
    \<bar>y - sin (2 * pi * real i / real n)\<bar> \<le> 1 / (2 * 10 ^ 6)"
proof -
  obtain a where a: "cone_angle i n = Fl a" "\<bar>a - 2 * pi * real i / real n\<bar> \<le> 377 / 10 ^ 9"
    using cone_angle_error [OF assms(1-3)] by blast
  have "\<bar>cos a - cos (2 * pi * real i / real n)\<bar> \<le> 377 / 10 ^ 9"
    using cos_lipschitz [of a "2 * pi * real i / real n"] a(2) by linarith
  then obtain x where x: "to_float (libm_cos env a) = Fl x"
    "\<bar>x - cos (2 * pi * real i / real n)\<bar> \<le> 1 / (2 * 10 ^ 6)"
    using stored_value_near [of "libm_cos env a" cos a "2 * pi * real i / real n"] assms(4)
    by auto
  have "\<bar>sin a - sin (2 * pi * real i / real n)\<bar> \<le> 377 / 10 ^ 9"
    using sin_lipschitz [of a "2 * pi * real i / real n"] a(2) by linarith
  then obtain y where y: "to_float (libm_sin env a) = Fl y"
    "\<bar>y - sin (2 * pi * real i / real n)\<bar> \<le> 1 / (2 * 10 ^ 6)"
    using stored_value_near [of "libm_sin env a" sin a "2 * pi * real i / real n"] assms(5)
    by auto
  show ?thesis
    using x y by (simp add: fcos_def fsin_def a(1))
qed

lemma build_cone_apex_only:
  assumes bytes: "size_t ((n + 2) * 3 * sizeof_float) = 12"
    and m: "malloc_succeeds env (malloc_count s) 12"
  shows "build_cone env n s = (Inl Undefined, s\<lparr>malloc_count := Suc (malloc_count s)\<rparr>)"
proof -
  have cells: "(12::nat) div sizeof_float = 3"
    by (simp add: sizeof_float_def)
  have al: "malloc env sizeof_float 12 s =
      (Inr (Block [None, None, None]), s\<lparr>malloc_count := Suc (malloc_count s)\<rparr>)"
    using m unfolding malloc_def cells by (simp add: numeral_3_eq_3)
  have first: "[0 ..< Suc n] = 0 # [Suc 0 ..< Suc n]"
    by (simp add: upt_conv_Cons del: upt_Suc)
  have ring: "cone_ring_vertex env n 0 (Block [Some (Fl 0), Some (Fl 0), Some (Fl (- 1))]) =
      halt Undefined"
    by (simp add: cone_ring_vertex_def Let_def size_t_def store_def)
  show ?thesis
    unfolding build_cone_def Let_def bytes first
    by (simp add: al bind_io_def lift_io_def store_def ring halt_def del: upt_Suc)
qed

text \<open>
  C3, as the code has it. For every \<open>N \<ge> 3\<close> whose buffer size \<open>12 (N + 2)\<close> fits
  the signed size \<^verbatim>\<open>glBufferData\<close> takes, when the allocation succeeds and the
  \<^verbatim>\<open>cos\<close> and \<^verbatim>\<open>sin\<close> of the C library are accurate to \<open>1 / 2 ^ 24\<close>,
  \<^verbatim>\<open>build_cone(N)\<close> uploads a buffer of exactly \<open>N + 2\<close> vertices. Vertex 0 is
  the apex \<open>(0, 0, -1)\<close>. Vertices \<open>1, ..., N + 1\<close> are the ring: for
  \<open>i = 0, ..., N\<close>, vertex \<open>i + 1\<close> has \<open>z = 1\<close> exactly, and its \<open>x\<close> and \<open>y\<close>
  are the \<^verbatim>\<open>float\<close> values computed for \<open>cos (2\<pi>i/N)\<close> and \<open>sin (2\<pi>i/N)\<close>,
  within \<open>5 / 10 ^ 7\<close> of them. The first and the last ring vertex are equal to within
  floating-point exactness: they differ by at most \<open>1 / 10 ^ 6\<close> in \<open>x\<close> and in
  \<open>y\<close>.
\<close>

theorem build_cone_mesh:
  assumes "3 \<le> N" and "(N + 2) * 3 * sizeof_float < 2 ^ 63"
    and "malloc_succeeds env (malloc_count s) ((N + 2) * 3 * sizeof_float)"
    and "\<And>x. \<bar>libm_cos env x - cos x\<bar> \<le> 1 / 2 ^ 24"
    and "\<And>x. \<bar>libm_sin env x - sin x\<bar> \<le> 1 / 2 ^ 24"
  shows "\<exists>buf s'. build_cone env N s = (Inr (), s') \<and>
    api_log s' = api_log s @
      [Call ''glGenBuffers'' [],
       Call ''glBindBuffer'' [Enum GL_ARRAY_BUFFER, UInt (fresh_name env (name_count s))],
       Call ''glBufferData'' [Enum GL_ARRAY_BUFFER, SInt (int ((N + 2) * 3 * sizeof_float)),
         Data buf, Enum GL_STATIC_DRAW],
       Call ''glEnableVertexAttribArray'' [UInt 0],
       Call ''glVertexAttribPointer'' [UInt 0, SInt 3, Enum GL_FLOAT, SInt GL_FALSE, SInt 0, UInt 0]] \<and>
    vertex_count buf = N + 2 \<and>
    vertex buf 0 = Some (Fl 0, Fl 0, Fl (- 1)) \<and>
    (\<forall>i\<le>N. \<exists>x y. vertex buf (i + 1) = Some (Fl x, Fl y, Fl 1) \<and>
       \<bar>x - cos (2 * pi * real i / real N)\<bar> \<le> 1 / (2 * 10 ^ 6) \<and>
       \<bar>y - sin (2 * pi * real i / real N)\<bar> \<le> 1 / (2 * 10 ^ 6)) \<and>
    (\<exists>x y x' y'. vertex buf 1 = Some (Fl x, Fl y, Fl 1) \<and>
       vertex buf (N + 1) = Some (Fl x', Fl y', Fl 1) \<and>
       \<bar>x - x'\<bar> \<le> 1 / 10 ^ 6 \<and> \<bar>y - y'\<bar> \<le> 1 / 10 ^ 6)"
proof -
  have n: "0 < N"
    using assms(1) by simp
  have small: "(N + 2) * 3 * sizeof_float < 2 ^ 64"
    using assms(2) by simp
  have n64: "N < 2 ^ 64"
    using small by (simp add: sizeof_float_def)
  let ?buf = "Block (packed3 (cone_mesh env N))"
  let ?s' = "s\<lparr>api_log := api_log s @
      [Call ''glGenBuffers'' [],
       Call ''glBindBuffer'' [Enum GL_ARRAY_BUFFER, UInt (fresh_name env (name_count s))],
       Call ''glBufferData'' [Enum GL_ARRAY_BUFFER, SInt (int ((N + 2) * 3 * sizeof_float)),
         Data ?buf, Enum GL_STATIC_DRAW],
       Call ''glEnableVertexAttribArray'' [UInt 0],
       Call ''glVertexAttribPointer'' [UInt 0, SInt 3, Enum GL_FLOAT, SInt GL_FALSE, SInt 0, UInt 0]],
      malloc_count := Suc (malloc_count s), name_count := Suc (name_count s)\<rparr>"
  have run: "build_cone env N s = (Inr (), ?s')"
    unfolding build_cone_ok [OF small assms(3)] to_signed_id [OF assms(2)] ..
  have calls: "api_log ?s' = api_log s @
      [Call ''glGenBuffers'' [],
       Call ''glBindBuffer'' [Enum GL_ARRAY_BUFFER, UInt (fresh_name env (name_count s))],
       Call ''glBufferData'' [Enum GL_ARRAY_BUFFER, SInt (int ((N + 2) * 3 * sizeof_float)),
         Data ?buf, Enum GL_STATIC_DRAW],
       Call ''glEnableVertexAttribArray'' [UInt 0],
       Call ''glVertexAttribPointer'' [UInt 0, SInt 3, Enum GL_FLOAT, SInt GL_FALSE, SInt 0, UInt 0]]"
    by simp
  have count: "vertex_count ?buf = N + 2"
    by (simp add: vertex_count_def)
  have near: "\<exists>x y. vertex ?buf (i + 1) = Some (Fl x, Fl y, Fl 1) \<and>
       \<bar>x - cos (2 * pi * real i / real N)\<bar> \<le> 1 / (2 * 10 ^ 6) \<and>
       \<bar>y - sin (2 * pi * real i / real N)\<bar> \<le> 1 / (2 * 10 ^ 6)" if "i \<le> N" for i
    using ring_vertex_near [OF n that n64 assms(4,5)] cone_vertex_ring [OF that, of env]
    by auto
  then have ring: "\<forall>i\<le>N. \<exists>x y. vertex ?buf (i + 1) = Some (Fl x, Fl y, Fl 1) \<and>
       \<bar>x - cos (2 * pi * real i / real N)\<bar> \<le> 1 / (2 * 10 ^ 6) \<and>
       \<bar>y - sin (2 * pi * real i / real N)\<bar> \<le> 1 / (2 * 10 ^ 6)"
    by blast
  obtain x y where first: "vertex ?buf 1 = Some (Fl x, Fl y, Fl 1)"
    "\<bar>x - 1\<bar> \<le> 1 / (2 * 10 ^ 6)" "\<bar>y\<bar> \<le> 1 / (2 * 10 ^ 6)"
    using near [of 0] by auto
  have "2 * pi * real N / real N = 2 * pi"
    using n by simp
  then obtain x' y' where last: "vertex ?buf (N + 1) = Some (Fl x', Fl y', Fl 1)"
    "\<bar>x' - 1\<bar> \<le> 1 / (2 * 10 ^ 6)" "\<bar>y'\<bar> \<le> 1 / (2 * 10 ^ 6)"
    using near [of N] by auto
  have "(1 :: real) / (2 * 10 ^ 6) + 1 / (2 * 10 ^ 6) = 1 / 10 ^ 6"
    by simp
  then have "\<bar>x - x'\<bar> \<le> 1 / 10 ^ 6" "\<bar>y - y'\<bar> \<le> 1 / 10 ^ 6"
    using first(2,3) last(2,3) by linarith+
  then have closed: "\<exists>x y x' y'. vertex ?buf 1 = Some (Fl x, Fl y, Fl 1) \<and>
       vertex ?buf (N + 1) = Some (Fl x', Fl y', Fl 1) \<and>
       \<bar>x - x'\<bar> \<le> 1 / 10 ^ 6 \<and> \<bar>y - y'\<bar> \<le> 1 / 10 ^ 6"
    using first(1) last(1) by blast
  show ?thesis
    by (intro exI [of _ ?buf] exI [of _ ?s'] conjI run calls count cone_vertex_apex ring closed)
qed

text \<open>
  The \<^verbatim>\<open>cos\<close> and \<^verbatim>\<open>sin\<close> of the platform below are accurate as the theorem asks.
\<close>

lemma demo_libm_accurate:
  "\<bar>libm_cos demo_platform x - cos x\<bar> \<le> 1 / 2 ^ 24"
  "\<bar>libm_sin demo_platform x - sin x\<bar> \<le> 1 / 2 ^ 24"
proof -
  have r: "\<bar>to_double c - c\<bar> \<le> 1 / 2 ^ 24" if "\<bar>c\<bar> \<le> 1" for c
  proof -
    have "\<bar>to_double c - c\<bar> \<le> \<bar>c\<bar> * 2 powr (- real 53) + 2 powr (real_of_int (- 1022) - real 53)"
      unfolding to_double_def by (rule round_binary_absolute)
    moreover have "real_of_int (- 1022) - real 53 = - 1075"
      by simp
    ultimately have "\<bar>to_double c - c\<bar> \<le> \<bar>c\<bar> / 2 ^ 53 + 1 / 2 ^ 1075"
      by (simp add: powr_neg_numeral)
    moreover have "\<bar>c\<bar> / 2 ^ 53 \<le> 1 / 2 ^ 53"
      using that by (rule divide_right_mono) simp
    moreover have "(1 :: real) / 2 ^ 53 + 1 / 2 ^ 1075 \<le> 1 / 2 ^ 24"
      by simp
    ultimately show ?thesis
      by linarith
  qed
  show "\<bar>libm_cos demo_platform x - cos x\<bar> \<le> 1 / 2 ^ 24"
    using r [of "cos x"] by (simp add: demo_platform_def)
  show "\<bar>libm_sin demo_platform x - sin x\<bar> \<le> 1 / 2 ^ 24"
    using r [of "sin x"] by (simp add: demo_platform_def)
qed

theorem build_cone_mesh_witness:
  "\<exists>buf s'. build_cone demo_platform 64 process_start = (Inr (), s') \<and>
     api_log s' ! 2 = Call ''glBufferData'' [Enum GL_ARRAY_BUFFER, SInt 792, Data buf, Enum GL_STATIC_DRAW] \<and>
     vertex_count buf = 66 \<and>
     vertex buf 0 = Some (Fl 0, Fl 0, Fl (- 1)) \<and>
     (\<exists>x y. vertex buf 17 = Some (Fl x, Fl y, Fl 1) \<and>
        \<bar>x\<bar> \<le> 1 / (2 * 10 ^ 6) \<and> \<bar>y - 1\<bar> \<le> 1 / (2 * 10 ^ 6)) \<and>
     (\<exists>x y x' y'. vertex buf 1 = Some (Fl x, Fl y, Fl 1) \<and>
        vertex buf 65 = Some (Fl x', Fl y', Fl 1) \<and>
        \<bar>x - x'\<bar> \<le> 1 / 10 ^ 6 \<and> \<bar>y - y'\<bar> \<le> 1 / 10 ^ 6)"
proof -
  have h: "(3::nat) \<le> 64" "(64 + 2) * 3 * sizeof_float < 2 ^ 63"
    "malloc_succeeds demo_platform (malloc_count process_start) ((64 + 2) * 3 * sizeof_float)"
    by (simp_all add: sizeof_float_def demo_platform_def process_start_def)
  obtain buf s' where r: "build_cone demo_platform 64 process_start = (Inr (), s')"
    "api_log s' = api_log process_start @
      [Call ''glGenBuffers'' [],
       Call ''glBindBuffer'' [Enum GL_ARRAY_BUFFER, UInt (fresh_name demo_platform (name_count process_start))],
       Call ''glBufferData'' [Enum GL_ARRAY_BUFFER, SInt (int ((64 + 2) * 3 * sizeof_float)),
         Data buf, Enum GL_STATIC_DRAW],
       Call ''glEnableVertexAttribArray'' [UInt 0],
       Call ''glVertexAttribPointer'' [UInt 0, SInt 3, Enum GL_FLOAT, SInt GL_FALSE, SInt 0, UInt 0]]"
    "vertex_count buf = 64 + 2"
    "vertex buf 0 = Some (Fl 0, Fl 0, Fl (- 1))"
    "\<forall>i\<le>64. \<exists>x y. vertex buf (i + 1) = Some (Fl x, Fl y, Fl 1) \<and>
       \<bar>x - cos (2 * pi * real i / real 64)\<bar> \<le> 1 / (2 * 10 ^ 6) \<and>
       \<bar>y - sin (2 * pi * real i / real 64)\<bar> \<le> 1 / (2 * 10 ^ 6)"
    "\<exists>x y x' y'. vertex buf 1 = Some (Fl x, Fl y, Fl 1) \<and>
       vertex buf (64 + 1) = Some (Fl x', Fl y', Fl 1) \<and>
       \<bar>x - x'\<bar> \<le> 1 / 10 ^ 6 \<and> \<bar>y - y'\<bar> \<le> 1 / 10 ^ 6"
    using build_cone_mesh [OF h demo_libm_accurate] by blast
  have "\<exists>x y. vertex buf (16 + 1) = Some (Fl x, Fl y, Fl 1) \<and>
       \<bar>x - cos (2 * pi * real 16 / real 64)\<bar> \<le> 1 / (2 * 10 ^ 6) \<and>
       \<bar>y - sin (2 * pi * real 16 / real 64)\<bar> \<le> 1 / (2 * 10 ^ 6)"
    using r(5) [rule_format, of 16] by simp
  moreover have "2 * pi * real 16 / real 64 = pi / 2"
    by simp
  ultimately have q: "\<exists>x y. vertex buf 17 = Some (Fl x, Fl y, Fl 1) \<and>
        \<bar>x\<bar> \<le> 1 / (2 * 10 ^ 6) \<and> \<bar>y - 1\<bar> \<le> 1 / (2 * 10 ^ 6)"
    by (simp add: cos_pi_half sin_pi_half)
  have c: "\<exists>x y x' y'. vertex buf 1 = Some (Fl x, Fl y, Fl 1) \<and>
        vertex buf 65 = Some (Fl x', Fl y', Fl 1) \<and>
        \<bar>x - x'\<bar> \<le> 1 / 10 ^ 6 \<and> \<bar>y - y'\<bar> \<le> 1 / 10 ^ 6"
    using r(6) by simp
  have l: "api_log s' ! 2 =
      Call ''glBufferData'' [Enum GL_ARRAY_BUFFER, SInt 792, Data buf, Enum GL_STATIC_DRAW]"
    unfolding r(2) by (simp add: process_start_def sizeof_float_def)
  have k: "vertex_count buf = 66"
    using r(3) by simp
  show ?thesis
    by (intro exI [of _ buf] exI [of _ s'] conjI r(1) l k r(4) q c)
qed


text \<open>
  The buffer of \<^verbatim>\<open>main\<close> (\<open>N = 64\<close>) on the platform above. The angle of the last
  ring vertex is the \<^verbatim>\<open>float\<close> nearest to \<open>2\<pi>\<close>, \<open>13176795 / 2 ^ 21\<close>, which is
  greater than \<open>2\<pi>\<close> by about \<open>1.75 / 10 ^ 7\<close>: the first ring vertex is
  \<open>(1, 0, 1)\<close>, the last one is \<open>(1, y, 1)\<close> with \<open>y\<close> about \<open>1.75 / 10 ^ 7\<close>. The
  two are equal to within the rounding of the angle, not bit for bit.
\<close>

lemma round_binary_in_binade:
  assumes "2 powr real_of_int k \<le> \<bar>x\<bar>" and "\<bar>x\<bar> < 2 powr real_of_int (k + 1)" and "emin \<le> k"
  shows "round_binary p emin x =
    real_of_int (nearest_even (x / 2 powr real_of_int (k - int p + 1))) *
      2 powr real_of_int (k - int p + 1)"
  using binade_eq [OF assms(1,2)] assms(3) by (simp add: round_binary_def max_def)

lemma nearest_even_near:
  assumes "\<bar>y - real_of_int k\<bar> < 1 / 2"
  shows "nearest_even y = k"
proof -
  have "\<bar>real_of_int (nearest_even y) - real_of_int k\<bar> < 1"
    using nearest_even_error [of y] assms by linarith
  then have "\<bar>real_of_int (nearest_even y - k)\<bar> < 1"
    by simp
  then have "\<bar>nearest_even y - k\<bar> < 1"
    by linarith
  then show ?thesis
    by simp
qed

lemma to_double_64: "to_double 64 = 64"
  using round_binary_in_binade [of 6 64 "- 1022" 53]
  by (simp add: to_double_def powr_neg_numeral nearest_even_def)

lemma to_double_turns: "to_double (2 * M_PI * 64) = 2 * M_PI * 64"
  using round_binary_in_binade [of 8 "2 * M_PI * 64" "- 1022" 53]
  by (simp add: to_double_def M_PI_def powr_neg_numeral nearest_even_def)

lemma to_double_turn: "to_double (2 * M_PI) = 2 * M_PI"
  using round_binary_in_binade [of 2 "2 * M_PI" "- 1022" 53]
  by (simp add: to_double_def M_PI_def powr_neg_numeral nearest_even_def)

lemma to_single_turn: "to_single (2 * M_PI) = 13176795 / 2 ^ 21"
  using round_binary_in_binade [of 2 "2 * M_PI" "- 126" 24]
  by (simp add: to_single_def M_PI_def powr_neg_numeral nearest_even_def)

lemma cone_angle_closing: "cone_angle 64 64 = Fl (13176795 / 2 ^ 21)"
proof -
  have "to_double (to_double (2 * M_PI * to_double (real 64)) / to_double (real 64)) =
      to_double (2 * M_PI * 64 / 64)"
    by (simp only: of_nat_numeral to_double_64 to_double_turns)
  also have "\<dots> = 2 * M_PI"
    by (simp add: to_double_turn)
  finally have "cone_angle 64 64 = to_float (2 * M_PI)"
    by (simp only: cone_angle_def) simp
  then show ?thesis
    by (simp add: to_float_def to_single_turn FLT_MAX_def)
qed

lemma to_single_one:
  assumes "\<bar>c - 1\<bar> \<le> 1 / 2 ^ 26"
  shows "to_single c = 1"
proof (cases "1 \<le> c")
  case True
  have "c - 1 \<le> 1 / 2 ^ 26" and "1 - c \<le> 1 / 2 ^ 26"
    using assms by linarith+
  then have "c * 2 ^ 23 - real_of_int (2 ^ 23) < 1 / 2 \<and>
      - (c * 2 ^ 23 - real_of_int (2 ^ 23)) < 1 / 2"
    by simp
  then have "\<bar>c * 2 ^ 23 - real_of_int (2 ^ 23)\<bar> < 1 / 2"
    by (simp only: abs_less_iff)
  then have "nearest_even (c * 2 ^ 23) = 2 ^ 23"
    by (rule nearest_even_near)
  moreover have "to_single c = real_of_int (nearest_even (c * 2 ^ 23)) / 2 ^ 23"
    using round_binary_in_binade [of 0 c "- 126" 24] True assms
    by (simp add: to_single_def powr_neg_numeral abs_le_iff)
  ultimately show ?thesis
    by simp
next
  case False
  have "c - 1 \<le> 1 / 2 ^ 26" and "1 - c \<le> 1 / 2 ^ 26"
    using assms by linarith+
  then have "c * 2 ^ 24 - real_of_int (2 ^ 24) < 1 / 2 \<and>
      - (c * 2 ^ 24 - real_of_int (2 ^ 24)) < 1 / 2"
    by simp
  then have "\<bar>c * 2 ^ 24 - real_of_int (2 ^ 24)\<bar> < 1 / 2"
    by (simp only: abs_less_iff)
  then have "nearest_even (c * 2 ^ 24) = 2 ^ 24"
    by (rule nearest_even_near)
  moreover have "to_single c = real_of_int (nearest_even (c * 2 ^ 24)) / 2 ^ 24"
    using round_binary_in_binade [of "- 1" c "- 126" 24] False assms
    by (simp add: to_single_def powr_neg_numeral abs_le_iff)
  ultimately show ?thesis
    by simp
qed

lemma to_double_absolute: "\<bar>to_double c - c\<bar> \<le> \<bar>c\<bar> / 2 ^ 53 + 1 / 2 ^ 1075"
proof -
  have "\<bar>to_double c - c\<bar> \<le> \<bar>c\<bar> * 2 powr (- real 53) + 2 powr (real_of_int (- 1022) - real 53)"
    unfolding to_double_def by (rule round_binary_absolute)
  moreover have "real_of_int (- 1022) - real 53 = - 1075"
    by simp
  ultimately show ?thesis
    by (simp add: powr_neg_numeral)
qed

lemma closing_angle_excess:
  "17482 / 10 ^ 11 \<le> 13176795 / 2 ^ 21 - 2 * pi" "13176795 / 2 ^ 21 - 2 * pi \<le> 17503 / 10 ^ 11"
  using pi_bounds by simp_all

lemma sin_small:
  fixes d :: real
  assumes "0 \<le> d"
  shows "d - d ^ 3 / 6 \<le> sin d" and "sin d \<le> d"
proof -
  have "(\<Sum>m<3. sin_coeff m * d ^ m) = d"
    by (simp add: sin_coeff_def eval_nat_numeral)
  then have "\<bar>sin d - d\<bar> \<le> inverse (fact 3) * \<bar>d\<bar> ^ 3"
    using Maclaurin_sin_bound [of d 3] by simp
  moreover have "inverse (fact 3) * \<bar>d\<bar> ^ 3 = d ^ 3 / 6"
    using assms by (simp add: eval_nat_numeral)
  ultimately show "d - d ^ 3 / 6 \<le> sin d"
    by linarith
  show "sin d \<le> d"
    using assms by (rule sin_x_le_x)
qed

lemma one_minus_cos:
  fixes d :: real
  shows "0 \<le> 1 - cos d" and "1 - cos d \<le> d ^ 2 / 2"
proof -
  have c: "cos d = 1 - 2 * sin (d / 2) ^ 2"
    using cos_double_sin [of "d / 2"] by simp
  show "0 \<le> 1 - cos d"
    by simp
  have "\<bar>sin (d / 2)\<bar> ^ 2 \<le> \<bar>d / 2\<bar> ^ 2"
    by (intro power_mono abs_sin_x_le_abs_x) simp
  then have "sin (d / 2) ^ 2 \<le> (d / 2) ^ 2"
    by (simp only: power2_abs)
  then show "1 - cos d \<le> d ^ 2 / 2"
    unfolding c by (simp add: power_divide)
qed

lemma closing_cos: "to_single (to_double (cos (13176795 / 2 ^ 21))) = 1"
proof -
  define d :: real where "d = 13176795 / 2 ^ 21 - 2 * pi"
  have d: "0 \<le> d" "d \<le> 2 / 10 ^ 7"
    using closing_angle_excess by (simp_all add: d_def)
  have "cos (13176795 / 2 ^ 21) = cos (d + 2 * pi)"
    by (simp add: d_def)
  then have c: "cos (13176795 / 2 ^ 21) = cos d"
    by (simp only: cos_periodic)
  have "d ^ 2 \<le> (2 / 10 ^ 7) ^ 2"
    using d by (intro power_mono)
  moreover have "((2 :: real) / 10 ^ 7) ^ 2 = 4 / 10 ^ 14"
    by (simp add: power2_eq_square)
  ultimately have "d ^ 2 / 2 \<le> 2 / 10 ^ 14"
    by simp
  then have "1 - cos d \<le> 2 / 10 ^ 14"
    using one_minus_cos(2) [of d] by linarith
  moreover have "0 \<le> 1 - cos d"
    by (rule one_minus_cos)
  moreover have "\<bar>to_double (cos d) - cos d\<bar> \<le> \<bar>cos d\<bar> / 2 ^ 53 + 1 / 2 ^ 1075"
    by (rule to_double_absolute)
  moreover have "\<bar>cos d\<bar> / 2 ^ 53 \<le> 1 / 2 ^ 53"
    by (intro divide_right_mono) simp_all
  moreover have "(2 :: real) / 10 ^ 14 + (1 / 2 ^ 53 + 1 / 2 ^ 1075) \<le> 1 / 2 ^ 26"
    by simp
  ultimately have "\<bar>to_double (cos d) - 1\<bar> \<le> 1 / 2 ^ 26"
    by linarith
  then show ?thesis
    unfolding c by (rule to_single_one)
qed

lemma closing_sin:
  "174 / 10 ^ 9 \<le> to_single (to_double (sin (13176795 / 2 ^ 21)))"
  "to_single (to_double (sin (13176795 / 2 ^ 21))) \<le> 176 / 10 ^ 9"
proof -
  define d :: real where "d = 13176795 / 2 ^ 21 - 2 * pi"
  have d: "17482 / 10 ^ 11 \<le> d" "d \<le> 17503 / 10 ^ 11"
    using closing_angle_excess by (simp_all add: d_def)
  have "sin (13176795 / 2 ^ 21) = sin (d + 2 * pi)"
    by (simp add: d_def)
  then have s: "sin (13176795 / 2 ^ 21) = sin d"
    by (simp only: sin_periodic)
  have d0: "0 \<le> d"
    using d(1) by simp
  have "d ^ 3 \<le> (17503 / 10 ^ 11) ^ 3"
    using d d0 by (intro power_mono)
  moreover have "((17503 :: real) / 10 ^ 11) ^ 3 \<le> 6 / 10 ^ 11"
    by (simp add: power3_eq_cube)
  ultimately have "d ^ 3 / 6 \<le> 1 / 10 ^ 11"
    by simp
  then have lo: "17481 / 10 ^ 11 \<le> sin d" and hi: "sin d \<le> 17503 / 10 ^ 11"
    using sin_small [OF d0] d by linarith+
  have n1: "1 / 2 ^ 100 \<le> sin d"
    using lo by simp
  note b = to_double_near [OF n1]
  have "(1 - 1 / 2 ^ 53) * (17481 / 10 ^ 11) \<le> (1 - 1 / 2 ^ 53) * sin d"
    using lo by (intro mult_left_mono) simp_all
  then have clo: "17480 / 10 ^ 11 \<le> to_double (sin d)"
    using b(1) by simp
  have "(1 + 1 / 2 ^ 53) * sin d \<le> (1 + 1 / 2 ^ 53) * (17503 / 10 ^ 11)"
    using hi by (intro mult_left_mono) simp_all
  then have chi: "to_double (sin d) \<le> 17504 / 10 ^ 11"
    using b(2) by simp
  have n2: "1 / 2 ^ 100 \<le> to_double (sin d)"
    using clo by simp
  note e = to_single_near [OF n2]
  have "(1 - 1 / 2 ^ 24) * (17480 / 10 ^ 11) \<le> (1 - 1 / 2 ^ 24) * to_double (sin d)"
    using clo by (intro mult_left_mono) simp_all
  then show "174 / 10 ^ 9 \<le> to_single (to_double (sin (13176795 / 2 ^ 21)))"
    unfolding s using e(1) by simp
  have "(1 + 1 / 2 ^ 24) * to_double (sin d) \<le> (1 + 1 / 2 ^ 24) * (17504 / 10 ^ 11)"
    using chi by (intro mult_left_mono) simp_all
  then show "to_single (to_double (sin (13176795 / 2 ^ 21))) \<le> 176 / 10 ^ 9"
    unfolding s using e(2) by simp
qed

lemma to_double_one: "to_double 1 = 1"
  using round_binary_in_binade [of 0 1 "- 1022" 53]
  by (simp add: to_double_def powr_neg_numeral nearest_even_def)

lemma to_single_of_one: "to_single 1 = 1"
  by (rule to_single_one) simp

lemma demo_ring_ends:
  "\<exists>y. cone_vertex demo_platform 64 1 = (Fl 1, Fl 0, Fl 1) \<and>
     cone_vertex demo_platform 64 65 = (Fl 1, Fl y, Fl 1) \<and>
     174 / 10 ^ 9 \<le> y \<and> y \<le> 176 / 10 ^ 9"
proof -
  have zero: "cone_angle 0 64 = Fl 0"
    by (simp add: cone_angle_def to_double_zero to_float_def to_single_zero FLT_MAX_def)
  have one: "to_float 1 = Fl 1" and nought: "to_float 0 = Fl 0"
    by (simp_all add: to_float_def to_single_of_one to_single_zero FLT_MAX_def)
  have first: "cone_vertex demo_platform 64 1 = (Fl 1, Fl 0, Fl 1)"
    by (simp add: cone_vertex_def zero fcos_def fsin_def demo_platform_def to_double_one
        to_double_zero one nought)
  let ?y = "to_single (to_double (sin (13176795 / 2 ^ 21)))"
  have y: "174 / 10 ^ 9 \<le> ?y" "?y \<le> 176 / 10 ^ 9"
    by (rule closing_sin)+
  then have "\<bar>?y\<bar> \<le> FLT_MAX"
    by (simp add: FLT_MAX_def)
  then have "to_float (to_double (sin (13176795 / 2 ^ 21))) = Fl ?y"
    by (simp add: to_float_def)
  moreover have "to_float (to_double (cos (13176795 / 2 ^ 21))) = Fl 1"
    unfolding to_float_def closing_cos by (simp add: FLT_MAX_def)
  moreover have "cone_angle (65 - 1) 64 = Fl (13176795 / 2 ^ 21)"
    using cone_angle_closing by simp
  ultimately have last: "cone_vertex demo_platform 64 65 = (Fl 1, Fl ?y, Fl 1)"
    by (simp add: cone_vertex_def fcos_def fsin_def demo_platform_def)
  show ?thesis
    using first last y by blast
qed

lemma demo_ring_not_closed:
  "\<exists>buf s' y. build_cone demo_platform 64 process_start = (Inr (), s') \<and>
     api_log s' ! 2 = Call ''glBufferData'' [Enum GL_ARRAY_BUFFER, SInt 792, Data buf, Enum GL_STATIC_DRAW] \<and>
     vertex buf 1 = Some (Fl 1, Fl 0, Fl 1) \<and>
     vertex buf 65 = Some (Fl 1, Fl y, Fl 1) \<and>
     174 / 10 ^ 9 \<le> y \<and> y \<le> 176 / 10 ^ 9"
proof -
  obtain y where y: "cone_vertex demo_platform 64 1 = (Fl 1, Fl 0, Fl 1)"
    "cone_vertex demo_platform 64 65 = (Fl 1, Fl y, Fl 1)" "174 / 10 ^ 9 \<le> y" "y \<le> 176 / 10 ^ 9"
    using demo_ring_ends by blast
  let ?buf = "Block (packed3 (cone_mesh demo_platform 64))"
  let ?s' = "process_start\<lparr>api_log := api_log process_start @
      [Call ''glGenBuffers'' [],
       Call ''glBindBuffer'' [Enum GL_ARRAY_BUFFER, UInt (fresh_name demo_platform (name_count process_start))],
       Call ''glBufferData'' [Enum GL_ARRAY_BUFFER,
         SInt (to_signed 64 ((64 + 2) * 3 * sizeof_float)), Data ?buf, Enum GL_STATIC_DRAW],
       Call ''glEnableVertexAttribArray'' [UInt 0],
       Call ''glVertexAttribPointer'' [UInt 0, SInt 3, Enum GL_FLOAT, SInt GL_FALSE, SInt 0, UInt 0]],
      malloc_count := Suc (malloc_count process_start),
      name_count := Suc (name_count process_start)\<rparr>"
  have h: "(64 + 2) * 3 * sizeof_float < 2 ^ 64"
    "malloc_succeeds demo_platform (malloc_count process_start) ((64 + 2) * 3 * sizeof_float)"
    by (simp_all add: sizeof_float_def demo_platform_def process_start_def)
  have run: "build_cone demo_platform 64 process_start = (Inr (), ?s')"
    by (rule build_cone_ok [OF h])
  have "(64 + 2) * 3 * sizeof_float < 2 ^ 63"
    by (simp add: sizeof_float_def)
  then have "to_signed 64 ((64 + 2) * 3 * sizeof_float) = 792"
    by (simp add: to_signed_id sizeof_float_def)
  then have call: "api_log ?s' ! 2 =
      Call ''glBufferData'' [Enum GL_ARRAY_BUFFER, SInt 792, Data ?buf, Enum GL_STATIC_DRAW]"
    by (simp add: process_start_def)
  have v1: "vertex ?buf 1 = Some (Fl 1, Fl 0, Fl 1)"
    using vertex_packed3 [of 1 "cone_mesh demo_platform 64"] cone_mesh_nth [of 1 64 demo_platform] y(1)
    by simp
  have v65: "vertex ?buf 65 = Some (Fl 1, Fl y, Fl 1)"
    using vertex_packed3 [of 65 "cone_mesh demo_platform 64"] cone_mesh_nth [of 65 64 demo_platform] y(2)
    by simp
  show ?thesis
    by (intro exI [of _ ?buf] exI [of _ ?s'] exI [of _ y] conjI run call v1 v65 y(3,4))
qed

text \<open>
  The claim as stated, for every \<open>N \<ge> 3\<close>, fails where the size computation wraps:
  for \<open>N = SIZE_MAX\<close> the allocation holds the apex only and the first ring vertex is
  written past its end.
\<close>

theorem build_cone_mesh_counterexample:
  "3 \<le> SIZE_MAX \<and>
   build_cone demo_platform SIZE_MAX process_start =
     (Inl Undefined, process_start\<lparr>malloc_count := 1\<rparr>)"
proof -
  have "(SIZE_MAX + 2) * 3 * sizeof_float = 12 + 12 * 2 ^ 64"
    by (simp add: SIZE_MAX_def sizeof_float_def)
  then have "size_t ((SIZE_MAX + 2) * 3 * sizeof_float) = 12"
    by (simp add: size_t_def)
  moreover have "malloc_succeeds demo_platform (malloc_count process_start) 12"
    by (simp add: demo_platform_def)
  ultimately have "build_cone demo_platform SIZE_MAX process_start =
      (Inl Undefined, process_start\<lparr>malloc_count := Suc (malloc_count process_start)\<rparr>)"
    by (rule build_cone_apex_only)
  then show ?thesis
    by (simp add: process_start_def SIZE_MAX_def)
qed

section \<open>Writes into the heap buffers\<close>

lemma packed3_written: "None \<notin> set (packed3 vs)"
  by (induction vs) (auto simp: packed3_def)

lemma build_cone_empty:
  assumes "size_t ((n + 2) * 3 * sizeof_float) = 0"
  shows "build_cone env n s = (Inl Undefined, s\<lparr>malloc_count := Suc (malloc_count s)\<rparr>)"
  unfolding build_cone_def Let_def assms
  by (simp add: bind_io_def malloc_def store_def lift_io_def halt_def del: upt_Suc)

lemma build_instances_empty:
  assumes "size_t (n * 2 * sizeof_float) = 0" and "0 < size_t (2 * n)"
  shows "build_instances env n s =
    (Inl Undefined, s\<lparr>malloc_count := Suc (malloc_count s), rand_count := Suc (rand_count s)\<rparr>)"
proof -
  have "[0 ..< size_t (2 * n)] = 0 # [1 ..< size_t (2 * n)]"
    using assms(2) by (simp add: upt_conv_Cons)
  then show ?thesis
    unfolding build_instances_def Let_def assms(1)
    by (simp add: bind_io_def malloc_def store_def lift_io_def instance_component_def
        rand_def halt_def)
qed

lemma size_max_bound: "k \<le> SIZE_MAX \<longleftrightarrow> k < 2 ^ 64"
  by (auto simp add: SIZE_MAX_def)

text \<open>
  C10, as the code has it. For every \<open>n \<ge> 1\<close> whose size computation does not wrap
  (\<open>(n + 2) * 3 * sizeof(float) \<le> SIZE_MAX\<close>) and whose allocation succeeds, every write of
  \<^verbatim>\<open>build_cone\<close> is in bounds: it returns without an undefined write, having written
  every cell of the \<open>(n + 2) * 3\<close> floats it allocated, the last one, at index
  \<open>3 (n + 2) - 1\<close>, by the last iteration of the loop. Likewise \<^verbatim>\<open>build_instances\<close>,
  when \<open>n * 2 * sizeof(float) \<le> SIZE_MAX\<close> and the allocation succeeds, writes exactly the
  \<open>2 n\<close> cells it allocated.
\<close>

theorem geometry_writes_in_bounds:
  assumes "1 \<le> n"
  shows
   "((n + 2) * 3 * sizeof_float \<le> SIZE_MAX \<and>
     malloc_succeeds env (malloc_count s) ((n + 2) * 3 * sizeof_float) \<longrightarrow>
     (\<exists>cs s'. build_cone env n s = (Inr (), s') \<and>
        api_log s' = api_log s @
          [Call ''glGenBuffers'' [],
           Call ''glBindBuffer'' [Enum GL_ARRAY_BUFFER, UInt (fresh_name env (name_count s))],
           Call ''glBufferData'' [Enum GL_ARRAY_BUFFER,
             SInt (to_signed 64 ((n + 2) * 3 * sizeof_float)), Data (Block cs), Enum GL_STATIC_DRAW],
           Call ''glEnableVertexAttribArray'' [UInt 0],
           Call ''glVertexAttribPointer'' [UInt 0, SInt 3, Enum GL_FLOAT, SInt GL_FALSE, SInt 0, UInt 0]] \<and>
        length cs = (n + 2) * 3 \<and> (\<forall>j<length cs. cs ! j \<noteq> None) \<and>
        cs ! (3 * (n + 2) - 1) = Some (Fl 1))) \<and>
    (n * 2 * sizeof_float \<le> SIZE_MAX \<and>
     malloc_succeeds env (malloc_count s) (n * 2 * sizeof_float) \<longrightarrow>
     (\<exists>cs vbo s'. build_instances env n s = (Inr vbo, s') \<and>
        api_log s' = api_log s @
          [Call ''glGenBuffers'' [],
           Call ''glBindBuffer'' [Enum GL_ARRAY_BUFFER, UInt vbo],
           Call ''glBufferData'' [Enum GL_ARRAY_BUFFER,
             SInt (to_signed 64 (n * 2 * sizeof_float)), Data (Block cs), Enum GL_STATIC_DRAW],
           Call ''glEnableVertexAttribArray'' [UInt 1],
           Call ''glVertexAttribPointer'' [UInt 1, SInt 2, Enum GL_FLOAT, SInt GL_FALSE, SInt 0, UInt 0],
           Call ''glVertexAttribDivisor'' [UInt 1, UInt 1]] \<and>
        length cs = 2 * n \<and> (\<forall>j<length cs. cs ! j \<noteq> None)))"
proof (intro conjI impI)
  assume a: "(n + 2) * 3 * sizeof_float \<le> SIZE_MAX \<and>
     malloc_succeeds env (malloc_count s) ((n + 2) * 3 * sizeof_float)"
  have n: "0 < n"
    using assms by simp
  have small: "(n + 2) * 3 * sizeof_float < 2 ^ 64"
    using a by (simp add: size_max_bound)
  let ?cs = "packed3 (cone_mesh env n)"
  have written: "\<forall>j<length ?cs. ?cs ! j \<noteq> None"
    using packed3_written [of "cone_mesh env n"] by (metis nth_mem)
  have "n + 1 < length (cone_mesh env n)"
    by simp
  then have "?cs ! (3 * (n + 1) + 2) = Some (snd (snd (cone_mesh env n ! (n + 1))))"
    using packed3_nth by blast
  moreover have "3 * (n + 1) + 2 = 3 * (n + 2) - 1"
    by simp
  moreover have "cone_mesh env n ! (n + 1) = cone_vertex env n (n + 1)"
    by (rule cone_mesh_nth) simp
  ultimately have last: "?cs ! (3 * (n + 2) - 1) = Some (Fl 1)"
    by (simp add: cone_vertex_def)
  have len: "length ?cs = (n + 2) * 3"
    by simp
  show "\<exists>cs s'. build_cone env n s = (Inr (), s') \<and>
        api_log s' = api_log s @
          [Call ''glGenBuffers'' [],
           Call ''glBindBuffer'' [Enum GL_ARRAY_BUFFER, UInt (fresh_name env (name_count s))],
           Call ''glBufferData'' [Enum GL_ARRAY_BUFFER,
             SInt (to_signed 64 ((n + 2) * 3 * sizeof_float)), Data (Block cs), Enum GL_STATIC_DRAW],
           Call ''glEnableVertexAttribArray'' [UInt 0],
           Call ''glVertexAttribPointer'' [UInt 0, SInt 3, Enum GL_FLOAT, SInt GL_FALSE, SInt 0, UInt 0]] \<and>
        length cs = (n + 2) * 3 \<and> (\<forall>j<length cs. cs ! j \<noteq> None) \<and>
        cs ! (3 * (n + 2) - 1) = Some (Fl 1)"
  proof -
    let ?s' = "s\<lparr>api_log := api_log s @
      [Call ''glGenBuffers'' [],
       Call ''glBindBuffer'' [Enum GL_ARRAY_BUFFER, UInt (fresh_name env (name_count s))],
       Call ''glBufferData'' [Enum GL_ARRAY_BUFFER,
         SInt (to_signed 64 ((n + 2) * 3 * sizeof_float)),
         Data (Block ?cs), Enum GL_STATIC_DRAW],
       Call ''glEnableVertexAttribArray'' [UInt 0],
       Call ''glVertexAttribPointer'' [UInt 0, SInt 3, Enum GL_FLOAT, SInt GL_FALSE, SInt 0, UInt 0]],
      malloc_count := Suc (malloc_count s), name_count := Suc (name_count s)\<rparr>"
    have run: "build_cone env n s = (Inr (), ?s')"
      by (rule build_cone_ok [OF small conjunct2 [OF a]])
    have calls: "api_log ?s' = api_log s @
      [Call ''glGenBuffers'' [],
       Call ''glBindBuffer'' [Enum GL_ARRAY_BUFFER, UInt (fresh_name env (name_count s))],
       Call ''glBufferData'' [Enum GL_ARRAY_BUFFER,
         SInt (to_signed 64 ((n + 2) * 3 * sizeof_float)),
         Data (Block ?cs), Enum GL_STATIC_DRAW],
       Call ''glEnableVertexAttribArray'' [UInt 0],
       Call ''glVertexAttribPointer'' [UInt 0, SInt 3, Enum GL_FLOAT, SInt GL_FALSE, SInt 0, UInt 0]]"
      by simp
    show ?thesis
      by (intro exI [of _ ?cs] exI [of _ ?s'] conjI run calls len written last)
  qed
next
  assume a: "n * 2 * sizeof_float \<le> SIZE_MAX \<and>
     malloc_succeeds env (malloc_count s) (n * 2 * sizeof_float)"
  have small: "n * 2 * sizeof_float < 2 ^ 64"
    using a by (simp add: size_max_bound)
  let ?cs = "map Some (drawn_offsets env (rand_seed s) (rand_count s) (2 * n))"
  have written: "\<forall>j<length ?cs. ?cs ! j \<noteq> None"
    by simp
  have len: "length ?cs = 2 * n"
    by simp
  show "\<exists>cs vbo s'. build_instances env n s = (Inr vbo, s') \<and>
        api_log s' = api_log s @
          [Call ''glGenBuffers'' [],
           Call ''glBindBuffer'' [Enum GL_ARRAY_BUFFER, UInt vbo],
           Call ''glBufferData'' [Enum GL_ARRAY_BUFFER,
             SInt (to_signed 64 (n * 2 * sizeof_float)), Data (Block cs), Enum GL_STATIC_DRAW],
           Call ''glEnableVertexAttribArray'' [UInt 1],
           Call ''glVertexAttribPointer'' [UInt 1, SInt 2, Enum GL_FLOAT, SInt GL_FALSE, SInt 0, UInt 0],
           Call ''glVertexAttribDivisor'' [UInt 1, UInt 1]] \<and>
        length cs = 2 * n \<and> (\<forall>j<length cs. cs ! j \<noteq> None)"
  proof -
    let ?s' = "s\<lparr>api_log := api_log s @
      [Call ''glGenBuffers'' [],
       Call ''glBindBuffer'' [Enum GL_ARRAY_BUFFER, UInt (fresh_name env (name_count s))],
       Call ''glBufferData'' [Enum GL_ARRAY_BUFFER, SInt (to_signed 64 (n * 2 * sizeof_float)),
         Data (Block ?cs), Enum GL_STATIC_DRAW],
       Call ''glEnableVertexAttribArray'' [UInt 1],
       Call ''glVertexAttribPointer'' [UInt 1, SInt 2, Enum GL_FLOAT, SInt GL_FALSE, SInt 0, UInt 0],
       Call ''glVertexAttribDivisor'' [UInt 1, UInt 1]],
      malloc_count := Suc (malloc_count s), name_count := Suc (name_count s),
      rand_count := rand_count s + 2 * n\<rparr>"
    have run: "build_instances env n s = (Inr (fresh_name env (name_count s)), ?s')"
      by (rule build_instances_ok [OF small conjunct2 [OF a]])
    have calls: "api_log ?s' = api_log s @
      [Call ''glGenBuffers'' [],
       Call ''glBindBuffer'' [Enum GL_ARRAY_BUFFER, UInt (fresh_name env (name_count s))],
       Call ''glBufferData'' [Enum GL_ARRAY_BUFFER, SInt (to_signed 64 (n * 2 * sizeof_float)),
         Data (Block ?cs), Enum GL_STATIC_DRAW],
       Call ''glEnableVertexAttribArray'' [UInt 1],
       Call ''glVertexAttribPointer'' [UInt 1, SInt 2, Enum GL_FLOAT, SInt GL_FALSE, SInt 0, UInt 0],
       Call ''glVertexAttribDivisor'' [UInt 1, UInt 1]]"
      by simp
    show ?thesis
      by (intro exI [of _ ?cs] exI [of _ "fresh_name env (name_count s)"] exI [of _ ?s']
          conjI run calls len written)
  qed
qed

theorem geometry_writes_in_bounds_witness:
  "(\<exists>cs s'. build_cone demo_platform 64 process_start = (Inr (), s') \<and>
      api_log s' ! 2 = Call ''glBufferData'' [Enum GL_ARRAY_BUFFER, SInt 792, Data (Block cs),
        Enum GL_STATIC_DRAW] \<and>
      length cs = 198 \<and> (\<forall>j<length cs. cs ! j \<noteq> None) \<and> cs ! 197 = Some (Fl 1)) \<and>
   (\<exists>cs vbo s'. build_instances demo_platform 64 process_start = (Inr vbo, s') \<and>
      api_log s' ! 2 = Call ''glBufferData'' [Enum GL_ARRAY_BUFFER, SInt 512, Data (Block cs),
        Enum GL_STATIC_DRAW] \<and>
      length cs = 128 \<and> (\<forall>j<length cs. cs ! j \<noteq> None))"
proof -
  have h: "(1::nat) \<le> 64"
    by simp
  have c: "(64 + 2) * 3 * sizeof_float \<le> SIZE_MAX \<and>
     malloc_succeeds demo_platform (malloc_count process_start) ((64 + 2) * 3 * sizeof_float)"
    and i: "64 * 2 * sizeof_float \<le> SIZE_MAX \<and>
     malloc_succeeds demo_platform (malloc_count process_start) (64 * 2 * sizeof_float)"
    by (simp_all add: sizeof_float_def SIZE_MAX_def demo_platform_def)
  have s: "to_signed 64 792 = 792" "to_signed 64 512 = 512"
    by (simp_all add: to_signed_def)
  note t = geometry_writes_in_bounds [OF h, of demo_platform process_start]
  obtain cs s' where 1: "build_cone demo_platform 64 process_start = (Inr (), s')"
    "api_log s' = api_log process_start @
          [Call ''glGenBuffers'' [],
           Call ''glBindBuffer'' [Enum GL_ARRAY_BUFFER, UInt (fresh_name demo_platform (name_count process_start))],
           Call ''glBufferData'' [Enum GL_ARRAY_BUFFER,
             SInt (to_signed 64 ((64 + 2) * 3 * sizeof_float)), Data (Block cs), Enum GL_STATIC_DRAW],
           Call ''glEnableVertexAttribArray'' [UInt 0],
           Call ''glVertexAttribPointer'' [UInt 0, SInt 3, Enum GL_FLOAT, SInt GL_FALSE, SInt 0, UInt 0]]"
    "length cs = (64 + 2) * 3" "\<forall>j<length cs. cs ! j \<noteq> None"
    "cs ! (3 * (64 + 2) - 1) = Some (Fl 1)"
    using t c by blast
  obtain ds vbo t' where 2: "build_instances demo_platform 64 process_start = (Inr vbo, t')"
    "api_log t' = api_log process_start @
          [Call ''glGenBuffers'' [],
           Call ''glBindBuffer'' [Enum GL_ARRAY_BUFFER, UInt vbo],
           Call ''glBufferData'' [Enum GL_ARRAY_BUFFER,
             SInt (to_signed 64 (64 * 2 * sizeof_float)), Data (Block ds), Enum GL_STATIC_DRAW],
           Call ''glEnableVertexAttribArray'' [UInt 1],
           Call ''glVertexAttribPointer'' [UInt 1, SInt 2, Enum GL_FLOAT, SInt GL_FALSE, SInt 0, UInt 0],
           Call ''glVertexAttribDivisor'' [UInt 1, UInt 1]]"
    "length ds = 2 * 64" "\<forall>j<length ds. ds ! j \<noteq> None"
    using t i by blast
  have "\<exists>cs s'. build_cone demo_platform 64 process_start = (Inr (), s') \<and>
      api_log s' ! 2 = Call ''glBufferData'' [Enum GL_ARRAY_BUFFER, SInt 792, Data (Block cs),
        Enum GL_STATIC_DRAW] \<and>
      length cs = 198 \<and> (\<forall>j<length cs. cs ! j \<noteq> None) \<and> cs ! 197 = Some (Fl 1)"
    using 1 by (intro exI [of _ cs] exI [of _ s']) (simp add: process_start_def sizeof_float_def s)
  moreover have "\<exists>cs vbo s'. build_instances demo_platform 64 process_start = (Inr vbo, s') \<and>
      api_log s' ! 2 = Call ''glBufferData'' [Enum GL_ARRAY_BUFFER, SInt 512, Data (Block cs),
        Enum GL_STATIC_DRAW] \<and>
      length cs = 128 \<and> (\<forall>j<length cs. cs ! j \<noteq> None)"
    using 2 by (intro exI [of _ ds] exI [of _ vbo] exI [of _ t']) (simp add: process_start_def sizeof_float_def s)
  ultimately show ?thesis
    by blast
qed

text \<open>
  For every \<open>n \<ge> 1\<close> the claim fails: where the byte count wraps to 0, the first write
  is already out of bounds.
\<close>

theorem geometry_writes_in_bounds_counterexample:
  "(1::nat) \<le> 2 ^ 62 - 2 \<and>
   build_cone demo_platform (2 ^ 62 - 2) process_start =
     (Inl Undefined, process_start\<lparr>malloc_count := 1\<rparr>) \<and>
   (1::nat) \<le> 2 ^ 61 \<and>
   build_instances demo_platform (2 ^ 61) process_start =
     (Inl Undefined, process_start\<lparr>malloc_count := 1, rand_count := 1\<rparr>)"
proof -
  have "(2 ^ 62 - 2 + 2) * 3 * sizeof_float = 3 * 2 ^ 64"
    by (simp add: sizeof_float_def)
  then have c: "size_t ((2 ^ 62 - 2 + 2) * 3 * sizeof_float) = 0"
    by (simp add: size_t_def)
  have "(2::nat) ^ 61 * 2 * sizeof_float = 2 ^ 64"
    by (simp add: sizeof_float_def)
  then have i: "size_t (2 ^ 61 * 2 * sizeof_float) = 0"
    by (simp add: size_t_def)
  have l: "0 < size_t (2 * 2 ^ 61)"
    by (simp add: size_t_def)
  show ?thesis
    unfolding build_cone_empty [OF c] build_instances_empty [OF i l]
    by (simp add: process_start_def)
qed

section \<open>Failed allocations\<close>

text \<open>
  C5, as the code has it. A failed allocation in \<^verbatim>\<open>build_cone\<close> or
  \<^verbatim>\<open>build_instances\<close> is not detected: the result of \<^verbatim>\<open>malloc\<close> is not
  compared with null, nothing is written to \<^verbatim>\<open>stderr\<close> and \<^verbatim>\<open>exit\<close> is not
  called. The next statement stores through the null pointer, which is undefined behaviour
  (in \<^verbatim>\<open>build_instances\<close> when the loop bound \<open>2 n\<close> is not 0, after one value has
  been drawn from \<^verbatim>\<open>rand\<close>).
\<close>

theorem allocation_failure_unchecked:
  "(\<not> malloc_succeeds env (malloc_count s) (size_t ((n + 2) * 3 * sizeof_float)) \<longrightarrow>
      build_cone env n s = (Inl Undefined, s\<lparr>malloc_count := Suc (malloc_count s)\<rparr>) \<and>
      stderr_text (snd (build_cone env n s)) = stderr_text s) \<and>
   (\<not> malloc_succeeds env (malloc_count s) (size_t (n * 2 * sizeof_float)) \<and> 0 < size_t (2 * n) \<longrightarrow>
      build_instances env n s =
        (Inl Undefined, s\<lparr>malloc_count := Suc (malloc_count s), rand_count := Suc (rand_count s)\<rparr>) \<and>
      stderr_text (snd (build_instances env n s)) = stderr_text s)"
  by (simp add: build_cone_null build_instances_null)

theorem allocation_failure_unchecked_witness:
  "build_cone (demo_platform\<lparr>malloc_succeeds := \<lambda>i bytes. False\<rparr>) 3 process_start =
     (Inl Undefined, process_start\<lparr>malloc_count := 1\<rparr>) \<and>
   build_instances (demo_platform\<lparr>malloc_succeeds := \<lambda>i bytes. False\<rparr>) 100 process_start =
     (Inl Undefined, process_start\<lparr>malloc_count := 1, rand_count := 1\<rparr>)"
proof -
  have "0 < size_t (2 * 100)"
    by (simp add: size_t_def)
  then show ?thesis
    using allocation_failure_unchecked
      [of "demo_platform\<lparr>malloc_succeeds := \<lambda>i bytes. False\<rparr>" process_start 3]
      allocation_failure_unchecked
      [of "demo_platform\<lparr>malloc_succeeds := \<lambda>i bytes. False\<rparr>" process_start 100]
    by (simp add: process_start_def)
qed

text \<open>
  The claim as stated fails for the allocation of the cone of \<^verbatim>\<open>main\<close>: the process
  does not exit with a diagnostic.
\<close>

theorem allocation_failure_counterexample:
  "fst (build_cone (demo_platform\<lparr>malloc_succeeds := \<lambda>i bytes. False\<rparr>) 64 process_start) =
     Inl Undefined \<and>
   stderr_text (snd (build_cone (demo_platform\<lparr>malloc_succeeds := \<lambda>i bytes. False\<rparr>) 64
     process_start)) = []"
  by (simp add: build_cone_null process_start_def)



section \<open>The range of the instance offsets\<close>

lemma random_offset_range:
  assumes "0 < RAND_MAX env" "0 \<le> r" "r \<le> RAND_MAX env"
  shows "\<exists>x. random_offset env r = Fl x \<and> - 1 \<le> x \<and> x \<le> 1"
proof -
  define q where "q = real_of_int r / real_of_int (RAND_MAX env)"
  have "0 \<le> q" "q \<le> 1"
    using assms by (simp_all add: q_def)
  then have "- 1 \<le> (q - 0.5) * 2" "(q - 0.5) * 2 \<le> 1"
    by simp_all
  then show ?thesis
    unfolding random_offset_def q_def by blast
qed

lemma random_offset_max: "0 < RAND_MAX env \<Longrightarrow> random_offset env (RAND_MAX env) = Fl 1"
  by (simp add: random_offset_def)

text \<open>
  C4, as the code has it. For every \<open>M \<ge> 1\<close> (whose size computation does not wrap and
  whose allocation succeeds), when \<^verbatim>\<open>rand\<close> yields values in \<open>[0, RAND_MAX]\<close>,
  every component of every one of the \<open>M\<close> instance offsets lies in the closed interval
  \<open>[-1, 1]\<close>; the bound 1 is the component computed from \<^verbatim>\<open>RAND_MAX\<close>.
\<close>

theorem instance_offsets_range:
  assumes "1 \<le> M" and "M * 2 * sizeof_float \<le> SIZE_MAX"
    and "malloc_succeeds env (malloc_count s) (M * 2 * sizeof_float)"
    and "0 < RAND_MAX env"
    and "\<forall>i. 0 \<le> rand_sequence env (rand_seed s) i \<and> rand_sequence env (rand_seed s) i \<le> RAND_MAX env"
  shows "\<exists>cs vbo s'. build_instances env M s = (Inr vbo, s') \<and>
        api_log s' = api_log s @
          [Call ''glGenBuffers'' [],
           Call ''glBindBuffer'' [Enum GL_ARRAY_BUFFER, UInt vbo],
           Call ''glBufferData'' [Enum GL_ARRAY_BUFFER,
             SInt (to_signed 64 (M * 2 * sizeof_float)), Data (Block cs), Enum GL_STATIC_DRAW],
           Call ''glEnableVertexAttribArray'' [UInt 1],
           Call ''glVertexAttribPointer'' [UInt 1, SInt 2, Enum GL_FLOAT, SInt GL_FALSE, SInt 0, UInt 0],
           Call ''glVertexAttribDivisor'' [UInt 1, UInt 1]] \<and>
        length cs = 2 * M \<and>
        (\<forall>c\<in>set cs. \<exists>x. c = Some (Fl x) \<and> - 1 \<le> x \<and> x \<le> 1) \<and>
        random_offset env (RAND_MAX env) = Fl 1"
proof -
  have small: "M * 2 * sizeof_float < 2 ^ 64"
    using assms(2) by (simp add: size_max_bound)
  let ?cs = "map Some (drawn_offsets env (rand_seed s) (rand_count s) (2 * M))"
  let ?s' = "s\<lparr>api_log := api_log s @
      [Call ''glGenBuffers'' [],
       Call ''glBindBuffer'' [Enum GL_ARRAY_BUFFER, UInt (fresh_name env (name_count s))],
       Call ''glBufferData'' [Enum GL_ARRAY_BUFFER, SInt (to_signed 64 (M * 2 * sizeof_float)),
         Data (Block ?cs), Enum GL_STATIC_DRAW],
       Call ''glEnableVertexAttribArray'' [UInt 1],
       Call ''glVertexAttribPointer'' [UInt 1, SInt 2, Enum GL_FLOAT, SInt GL_FALSE, SInt 0, UInt 0],
       Call ''glVertexAttribDivisor'' [UInt 1, UInt 1]],
      malloc_count := Suc (malloc_count s), name_count := Suc (name_count s),
      rand_count := rand_count s + 2 * M\<rparr>"
  have run: "build_instances env M s = (Inr (fresh_name env (name_count s)), ?s')"
    by (rule build_instances_ok [OF small assms(3)])
  have calls: "api_log ?s' = api_log s @
      [Call ''glGenBuffers'' [],
       Call ''glBindBuffer'' [Enum GL_ARRAY_BUFFER, UInt (fresh_name env (name_count s))],
       Call ''glBufferData'' [Enum GL_ARRAY_BUFFER, SInt (to_signed 64 (M * 2 * sizeof_float)),
         Data (Block ?cs), Enum GL_STATIC_DRAW],
       Call ''glEnableVertexAttribArray'' [UInt 1],
       Call ''glVertexAttribPointer'' [UInt 1, SInt 2, Enum GL_FLOAT, SInt GL_FALSE, SInt 0, UInt 0],
       Call ''glVertexAttribDivisor'' [UInt 1, UInt 1]]"
    by simp
  have len: "length ?cs = 2 * M"
    by simp
  have range: "\<forall>c\<in>set ?cs. \<exists>x. c = Some (Fl x) \<and> - 1 \<le> x \<and> x \<le> 1"
  proof
    fix c
    assume "c \<in> set ?cs"
    then obtain i where "c = Some (random_offset env (rand_sequence env (rand_seed s) (rand_count s + i)))"
      by (auto simp add: drawn_offsets_def)
    then show "\<exists>x. c = Some (Fl x) \<and> - 1 \<le> x \<and> x \<le> 1"
      using random_offset_range [OF assms(4), of "rand_sequence env (rand_seed s) (rand_count s + i)"]
        assms(5) by auto
  qed
  show ?thesis
    by (intro exI [of _ ?cs] exI [of _ "fresh_name env (name_count s)"] exI [of _ ?s']
        conjI run calls len range random_offset_max [OF assms(4)])
qed

lemma demo_rand_range:
  "0 \<le> rand_sequence demo_platform seed i \<and>
   rand_sequence demo_platform seed i \<le> RAND_MAX demo_platform"
proof -
  have "(int seed * 1103515245 + int i * 12345) mod 2147483648 < 2147483648"
    by (rule pos_mod_bound) simp
  then show ?thesis
    by (simp add: demo_platform_def)
qed

theorem instance_offsets_range_witness:
  "\<exists>cs vbo s'. build_instances demo_platform 100 process_start = (Inr vbo, s') \<and>
     api_log s' ! 2 = Call ''glBufferData'' [Enum GL_ARRAY_BUFFER, SInt 800, Data (Block cs),
       Enum GL_STATIC_DRAW] \<and>
     length cs = 200 \<and>
     (\<forall>c\<in>set cs. \<exists>x. c = Some (Fl x) \<and> - 1 \<le> x \<and> x \<le> 1)"
proof -
  have h: "(1::nat) \<le> 100" "100 * 2 * sizeof_float \<le> SIZE_MAX"
    "malloc_succeeds demo_platform (malloc_count process_start) (100 * 2 * sizeof_float)"
    "0 < RAND_MAX demo_platform"
    "\<forall>i. 0 \<le> rand_sequence demo_platform (rand_seed process_start) i \<and>
       rand_sequence demo_platform (rand_seed process_start) i \<le> RAND_MAX demo_platform"
    using demo_rand_range by (simp_all add: sizeof_float_def SIZE_MAX_def demo_platform_def)
  have s: "to_signed 64 800 = 800"
    by (simp add: to_signed_def)
  obtain cs vbo s' where r: "build_instances demo_platform 100 process_start = (Inr vbo, s')"
    "api_log s' = api_log process_start @
          [Call ''glGenBuffers'' [],
           Call ''glBindBuffer'' [Enum GL_ARRAY_BUFFER, UInt vbo],
           Call ''glBufferData'' [Enum GL_ARRAY_BUFFER,
             SInt (to_signed 64 (100 * 2 * sizeof_float)), Data (Block cs), Enum GL_STATIC_DRAW],
           Call ''glEnableVertexAttribArray'' [UInt 1],
           Call ''glVertexAttribPointer'' [UInt 1, SInt 2, Enum GL_FLOAT, SInt GL_FALSE, SInt 0, UInt 0],
           Call ''glVertexAttribDivisor'' [UInt 1, UInt 1]]"
    "length cs = 2 * 100"
    "\<forall>c\<in>set cs. \<exists>x. c = Some (Fl x) \<and> - 1 \<le> x \<and> x \<le> 1"
    using instance_offsets_range [OF h] by blast
  show ?thesis
    using r by (intro exI [of _ cs] exI [of _ vbo] exI [of _ s'])
      (simp add: process_start_def sizeof_float_def s)
qed

text \<open>
  The half-open interval of the claim fails when \<^verbatim>\<open>rand\<close> returns
  \<^verbatim>\<open>RAND_MAX\<close>: the component is 1.
\<close>

theorem instance_offsets_range_counterexample:
  "api_log (snd (build_instances (demo_platform\<lparr>rand_sequence := \<lambda>seed i. 2147483647\<rparr>) 1
      process_start)) ! 2 =
     Call ''glBufferData'' [Enum GL_ARRAY_BUFFER, SInt 8, Data (Block [Some (Fl 1), Some (Fl 1)]),
       Enum GL_STATIC_DRAW] \<and>
   \<not> (1::real) < 1"
proof -
  let ?P = "demo_platform\<lparr>rand_sequence := \<lambda>seed i. 2147483647\<rparr>"
  have small: "1 * 2 * sizeof_float < 2 ^ 64"
    by (simp add: sizeof_float_def)
  have m: "malloc_succeeds ?P (malloc_count process_start) (1 * 2 * sizeof_float)"
    by (simp add: demo_platform_def sizeof_float_def)
  have d: "drawn_offsets ?P (rand_seed process_start) (rand_count process_start) (2 * 1) =
      [Fl 1, Fl 1]"
    by (simp add: drawn_offsets_def random_offset_def demo_platform_def upt_rec)
  have s: "to_signed 64 (1 * 2 * sizeof_float) = 8"
    by (simp add: to_signed_def sizeof_float_def)
  show ?thesis
    unfolding build_instances_ok [OF small m] d s by (simp add: process_start_def)
qed

section \<open>Compile and link failures\<close>

lemma store_all_fill:
  "store_all (Block (xs @ replicate (length vs) None @ ys)) (length xs) vs =
     Inr (Block (xs @ map Some vs @ ys))"
proof (induction vs arbitrary: xs)
  case Nil
  show ?case by simp
next
  case (Cons v vs)
  have "store (Block (xs @ replicate (length (v # vs)) None @ ys)) (length xs) v =
      Inr (Block ((xs @ [Some v]) @ replicate (length vs) None @ ys))"
    by (simp add: store_def)
  moreover have "store_all (Block ((xs @ [Some v]) @ replicate (length vs) None @ ys))
      (length (xs @ [Some v])) vs = Inr (Block ((xs @ [Some v]) @ map Some vs @ ys))"
    by (rule Cons.IH)
  ultimately show ?case
    by simp
qed

lemma c_str_terminated: "NUL \<notin> set msg \<Longrightarrow> c_str (map Some msg @ Some NUL # rest) = Some msg"
  by (induction msg) auto

lemma info_log_length_fits:
  assumes "msg \<noteq> []" and "length msg + 2 < 2 ^ 31"
  shows "info_log_length msg = int (length msg) + 1"
    and "int_add (info_log_length msg) 1 = Inr (int (length msg) + 2)"
    and "size_t (size_t_of_int (int (length msg) + 2)) = length msg + 2"
proof -
  have small: "int (length msg) + 2 < 2 ^ 31"
    using assms(2) by (metis of_nat_add of_nat_less_iff of_nat_numeral of_nat_power)
  then have "(int (length msg + 1) + 2 ^ 31) mod 2 ^ 32 = int (length msg + 1) + 2 ^ 31"
    by simp
  then show l: "info_log_length msg = int (length msg) + 1"
    using assms(1) by (simp add: info_log_length_def to_signed_def)
  show "int_add (info_log_length msg) 1 = Inr (int (length msg) + 2)"
    unfolding l using small by (simp add: int_add_def INT_MAX_def INT_MIN_def)
  have "(int (length msg) + 2) mod 2 ^ 64 = int (length msg) + 2"
    using small by simp
  then have "size_t_of_int (int (length msg) + 2) = length msg + 2"
    by (simp add: size_t_of_int_def nat_add_distrib)
  moreover have "length msg + 2 < 2 ^ 64"
    using assms(2) by simp
  ultimately show "size_t (size_t_of_int (int (length msg) + 2)) = length msg + 2"
    by (simp add: size_t_id)
qed

lemma info_log_roundtrip:
  assumes "msg \<noteq> []" and "NUL \<notin> set msg" and "length msg + 2 < 2 ^ 31"
  shows "get_info_log msg (info_log_length msg)
        (Block (None # None # replicate (length msg) None)) =
      Inr (Block (map Some msg @ [Some NUL, None]))"
    and "read_string (Block (map Some msg @ [Some NUL, None])) = Inr msg"
proof -
  have l: "0 < info_log_length msg" "nat (info_log_length msg) - 1 = length msg"
    unfolding info_log_length_fits(1) [OF assms(1,3)] by simp_all
  have "store_all (Block (replicate (length (msg @ [NUL])) None @ [None])) 0
      (msg @ [NUL]) = Inr (Block (map Some (msg @ [NUL]) @ [None]))"
    using store_all_fill [of "[]" "msg @ [NUL]" "[None]"] by simp
  moreover have "None # None # replicate (length msg) (None :: char option) =
      replicate (length (msg @ [NUL])) None @ [None]"
    by (simp add: replicate_append_same)
  ultimately show "get_info_log msg (info_log_length msg)
        (Block (None # None # replicate (length msg) None)) =
      Inr (Block (map Some msg @ [Some NUL, None]))"
    using l by (simp add: get_info_log_def)
  show "read_string (Block (map Some msg @ [Some NUL, None])) = Inr msg"
    using c_str_terminated [OF assms(2), of "[None]"] by (simp add: read_string_def)
qed

lemma malloc_info_log:
  assumes "malloc_succeeds env (malloc_count s) (Suc (Suc (length msg)))"
  shows "malloc env (Suc 0) (Suc (Suc (length msg))) s =
    (Inr (Block (None # None # replicate (length msg) None)),
     s\<lparr>malloc_count := Suc (malloc_count s)\<rparr>)"
  using assms by (simp add: malloc_def)

lemma build_shader_ok:
  assumes "type = GL_VERTEX_SHADER \<or> type = GL_FRAGMENT_SHADER"
    and "fst (compiler env type src)"
  shows "build_shader env type src s =
    (Inr (fresh_name env (name_count s)),
     s\<lparr>api_log := api_log s @
       [Call ''glCreateShader'' [Enum type],
        Call ''glShaderSource'' [UInt (fresh_name env (name_count s)), Str src],
        Call ''glCompileShader'' [UInt (fresh_name env (name_count s))],
        Call ''glGetShaderiv'' [UInt (fresh_name env (name_count s)), Enum GL_COMPILE_STATUS]],
      name_count := Suc (name_count s)\<rparr>)"
  using assms
  by (simp add: build_shader_def bind_io_def then_io_def gl_def gl_gen_def return_io_def
      GL_TRUE_def GL_FALSE_def)

lemma build_shader_fail:
  assumes type: "type = GL_VERTEX_SHADER \<or> type = GL_FRAGMENT_SHADER"
    and failed: "\<not> fst (compiler env type src)"
    and msg: "snd (compiler env type src) = msg"
    and nonempty: "msg \<noteq> []" and c_string: "NUL \<notin> set msg"
    and small: "length msg + 2 < 2 ^ 31"
    and m: "malloc_succeeds env (malloc_count s) (length msg + 2)"
  shows "build_shader env type src s =
    (Inl (Exited (- 1)),
     s\<lparr>stderr_text := stderr_text s @
        ''Error: shader failed with error '' @ [CHR 0x27] @ msg @ [CHR 0x27] @ ''\<newline>'',
      api_log := api_log s @
       [Call ''glCreateShader'' [Enum type],
        Call ''glShaderSource'' [UInt (fresh_name env (name_count s)), Str src],
        Call ''glCompileShader'' [UInt (fresh_name env (name_count s))],
        Call ''glGetShaderiv'' [UInt (fresh_name env (name_count s)), Enum GL_COMPILE_STATUS],
        Call ''glGetShaderiv'' [UInt (fresh_name env (name_count s)), Enum GL_INFO_LOG_LENGTH],
        Call ''glGetShaderInfoLog''
          [UInt (fresh_name env (name_count s)), SInt (info_log_length msg)]],
      malloc_count := Suc (malloc_count s), name_count := Suc (name_count s)\<rparr>)"
proof -
  note fits = info_log_length_fits(2,3) [OF nonempty small]
  note al = malloc_info_log [of env]
  note rt = info_log_roundtrip [OF nonempty c_string small]
  show ?thesis
    using type failed m
    by (simp add: build_shader_def msg Let_def bind_io_def then_io_def gl_def gl_gen_def
        fprintf_stderr_def exit_io_def halt_def lift_io_def GL_TRUE_def GL_FALSE_def fits al rt)
qed


lemma store_all_NULL: "store_all NULL i (vs @ [v]) = Inl Undefined"
  by (cases vs) (simp_all add: store_def)

lemma build_shader_fail_null:
  assumes type: "type = GL_VERTEX_SHADER \<or> type = GL_FRAGMENT_SHADER"
    and failed: "\<not> fst (compiler env type src)"
    and nonempty: "snd (compiler env type src) \<noteq> []"
    and small: "length (snd (compiler env type src)) + 2 < 2 ^ 31"
    and m: "\<not> malloc_succeeds env (malloc_count s) (length (snd (compiler env type src)) + 2)"
  shows "fst (build_shader env type src s) = Inl Undefined \<and>
    stderr_text (snd (build_shader env type src s)) = stderr_text s"
proof -
  note fits = info_log_length_fits [OF nonempty small]
  have "0 < info_log_length (snd (compiler env type src))"
    unfolding fits(1) by simp
  then show ?thesis
    using type failed m
    by (simp add: build_shader_def Let_def bind_io_def then_io_def gl_def gl_gen_def
        halt_def lift_io_def GL_TRUE_def GL_FALSE_def malloc_def get_info_log_def
        store_all_NULL fits(2,3))
qed

lemma build_program_ok:
  assumes "fst (linker env vert frag)"
  shows "build_program env vert frag s =
    (Inr (fresh_name env (name_count s)),
     s\<lparr>api_log := api_log s @
       [Call ''glCreateProgram'' [],
        Call ''glAttachShader'' [UInt (fresh_name env (name_count s)), UInt vert],
        Call ''glAttachShader'' [UInt (fresh_name env (name_count s)), UInt frag],
        Call ''glLinkProgram'' [UInt (fresh_name env (name_count s))],
        Call ''glGetProgramiv'' [UInt (fresh_name env (name_count s)), Enum GL_LINK_STATUS]],
      name_count := Suc (name_count s)\<rparr>)"
  using assms
  by (simp add: build_program_def bind_io_def then_io_def gl_def gl_gen_def return_io_def
      GL_TRUE_def GL_FALSE_def)

lemma build_program_fail:
  assumes failed: "\<not> fst (linker env vert frag)"
    and msg: "snd (linker env vert frag) = msg"
    and nonempty: "msg \<noteq> []" and c_string: "NUL \<notin> set msg"
    and small: "length msg + 2 < 2 ^ 31"
    and m: "malloc_succeeds env (malloc_count s) (length msg + 2)"
  shows "build_program env vert frag s =
    (Inl (Exited (- 1)),
     s\<lparr>stderr_text := stderr_text s @
        ''Error: linking failed with error '' @ [CHR 0x27] @ msg @ [CHR 0x27] @ ''\<newline>'',
      api_log := api_log s @
       [Call ''glCreateProgram'' [],
        Call ''glAttachShader'' [UInt (fresh_name env (name_count s)), UInt vert],
        Call ''glAttachShader'' [UInt (fresh_name env (name_count s)), UInt frag],
        Call ''glLinkProgram'' [UInt (fresh_name env (name_count s))],
        Call ''glGetProgramiv'' [UInt (fresh_name env (name_count s)), Enum GL_LINK_STATUS],
        Call ''glGetProgramiv'' [UInt (fresh_name env (name_count s)), Enum GL_INFO_LOG_LENGTH],
        Call ''glGetProgramInfoLog''
          [UInt (fresh_name env (name_count s)), SInt (info_log_length msg)]],
      malloc_count := Suc (malloc_count s), name_count := Suc (name_count s)\<rparr>)"
proof -
  note fits = info_log_length_fits(2,3) [OF nonempty small]
  note al = malloc_info_log [of env]
  note rt = info_log_roundtrip [OF nonempty c_string small]
  show ?thesis
    using failed m
    by (simp add: build_program_def msg Let_def bind_io_def then_io_def gl_def gl_gen_def
        fprintf_stderr_def exit_io_def halt_def lift_io_def GL_TRUE_def GL_FALSE_def fits al rt)
qed

text \<open>
  A log of \<open>2 ^ 31 - 2\<close> characters has the length \<^verbatim>\<open>INT_MAX\<close> with its terminator:
  \<^verbatim>\<open>log_length + 1\<close> overflows and nothing is printed.
\<close>

lemma build_shader_log_overflow:
  assumes type: "type = GL_VERTEX_SHADER \<or> type = GL_FRAGMENT_SHADER"
    and failed: "\<not> fst (compiler env type src)"
    and long: "length (snd (compiler env type src)) + 2 = 2 ^ 31"
  shows "fst (build_shader env type src s) = Inl Undefined \<and>
    stderr_text (snd (build_shader env type src s)) = stderr_text s"
proof -
  let ?msg = "snd (compiler env type src)"
  have "int (length ?msg) + 2 = 2 ^ 31"
    using long by (metis of_nat_add of_nat_numeral of_nat_power)
  then have l: "int (length ?msg + 1) = 2 ^ 31 - 1"
    by simp
  have ne: "?msg \<noteq> []"
    using long by auto
  have "info_log_length ?msg = 2 ^ 31 - 1"
    using ne unfolding info_log_length_def to_signed_def l by simp
  then have "int_add (info_log_length ?msg) 1 = Inl Undefined"
    by (simp add: int_add_def INT_MAX_def INT_MIN_def)
  then show ?thesis
    using type failed
    by (simp add: build_shader_def Let_def bind_io_def then_io_def gl_def gl_gen_def
        halt_def lift_io_def GL_TRUE_def GL_FALSE_def)
qed

text \<open>
  C6, as the code has it. For every shader stage and source: if compilation reports
  failure, the backend's log is a nonempty C string that with its terminator and one more
  character fits a \<^verbatim>\<open>GLint\<close>, and the allocation of the buffer for it succeeds, then
  \<^verbatim>\<open>build_shader\<close> writes \<^verbatim>\<open>Error: shader failed with error '...'\<close> with the log
  to \<^verbatim>\<open>stderr\<close> and exits with \<^verbatim>\<open>exit(-1)\<close>; if compilation succeeds it returns
  the handle \<^verbatim>\<open>glCreateShader\<close> gave. \<^verbatim>\<open>build_program\<close> does the same with the
  link status and the link log.
\<close>

theorem shader_pipeline_failures:
  assumes "stage = GL_VERTEX_SHADER \<or> stage = GL_FRAGMENT_SHADER"
  shows
   "(compiler env stage src = (False, msg) \<and> msg \<noteq> [] \<and> NUL \<notin> set msg \<and>
     length msg + 2 < 2 ^ 31 \<and> malloc_succeeds env (malloc_count s) (length msg + 2) \<longrightarrow>
       build_shader env stage src s =
         (Inl (Exited (- 1)),
          s\<lparr>stderr_text := stderr_text s @
             ''Error: shader failed with error '' @ [CHR 0x27] @ msg @ [CHR 0x27] @ ''\<newline>'',
           api_log := api_log s @
            [Call ''glCreateShader'' [Enum stage],
             Call ''glShaderSource'' [UInt (fresh_name env (name_count s)), Str src],
             Call ''glCompileShader'' [UInt (fresh_name env (name_count s))],
             Call ''glGetShaderiv'' [UInt (fresh_name env (name_count s)), Enum GL_COMPILE_STATUS],
             Call ''glGetShaderiv'' [UInt (fresh_name env (name_count s)), Enum GL_INFO_LOG_LENGTH],
             Call ''glGetShaderInfoLog''
               [UInt (fresh_name env (name_count s)), SInt (info_log_length msg)]],
           malloc_count := Suc (malloc_count s), name_count := Suc (name_count s)\<rparr>)) \<and>
    (fst (compiler env stage src) \<longrightarrow>
       build_shader env stage src s =
         (Inr (fresh_name env (name_count s)),
          s\<lparr>api_log := api_log s @
            [Call ''glCreateShader'' [Enum stage],
             Call ''glShaderSource'' [UInt (fresh_name env (name_count s)), Str src],
             Call ''glCompileShader'' [UInt (fresh_name env (name_count s))],
             Call ''glGetShaderiv'' [UInt (fresh_name env (name_count s)), Enum GL_COMPILE_STATUS]],
           name_count := Suc (name_count s)\<rparr>)) \<and>
    (linker env vert frag = (False, msg) \<and> msg \<noteq> [] \<and> NUL \<notin> set msg \<and>
     length msg + 2 < 2 ^ 31 \<and> malloc_succeeds env (malloc_count s) (length msg + 2) \<longrightarrow>
       build_program env vert frag s =
         (Inl (Exited (- 1)),
          s\<lparr>stderr_text := stderr_text s @
             ''Error: linking failed with error '' @ [CHR 0x27] @ msg @ [CHR 0x27] @ ''\<newline>'',
           api_log := api_log s @
            [Call ''glCreateProgram'' [],
             Call ''glAttachShader'' [UInt (fresh_name env (name_count s)), UInt vert],
             Call ''glAttachShader'' [UInt (fresh_name env (name_count s)), UInt frag],
             Call ''glLinkProgram'' [UInt (fresh_name env (name_count s))],
             Call ''glGetProgramiv'' [UInt (fresh_name env (name_count s)), Enum GL_LINK_STATUS],
             Call ''glGetProgramiv'' [UInt (fresh_name env (name_count s)), Enum GL_INFO_LOG_LENGTH],
             Call ''glGetProgramInfoLog''
               [UInt (fresh_name env (name_count s)), SInt (info_log_length msg)]],
           malloc_count := Suc (malloc_count s), name_count := Suc (name_count s)\<rparr>)) \<and>
    (fst (linker env vert frag) \<longrightarrow>
       build_program env vert frag s =
         (Inr (fresh_name env (name_count s)),
          s\<lparr>api_log := api_log s @
            [Call ''glCreateProgram'' [],
             Call ''glAttachShader'' [UInt (fresh_name env (name_count s)), UInt vert],
             Call ''glAttachShader'' [UInt (fresh_name env (name_count s)), UInt frag],
             Call ''glLinkProgram'' [UInt (fresh_name env (name_count s))],
             Call ''glGetProgramiv'' [UInt (fresh_name env (name_count s)), Enum GL_LINK_STATUS]],
           name_count := Suc (name_count s)\<rparr>))"
proof (intro conjI impI)
  {
    assume c: "compiler env stage src = (False, msg) \<and> msg \<noteq> [] \<and> NUL \<notin> set msg \<and>
     length msg + 2 < 2 ^ 31 \<and> malloc_succeeds env (malloc_count s) (length msg + 2)"
    have "\<not> fst (compiler env stage src)" "snd (compiler env stage src) = msg"
      using c by simp_all
    then show "build_shader env stage src s =
         (Inl (Exited (- 1)),
          s\<lparr>stderr_text := stderr_text s @
             ''Error: shader failed with error '' @ [CHR 0x27] @ msg @ [CHR 0x27] @ ''\<newline>'',
           api_log := api_log s @
            [Call ''glCreateShader'' [Enum stage],
             Call ''glShaderSource'' [UInt (fresh_name env (name_count s)), Str src],
             Call ''glCompileShader'' [UInt (fresh_name env (name_count s))],
             Call ''glGetShaderiv'' [UInt (fresh_name env (name_count s)), Enum GL_COMPILE_STATUS],
             Call ''glGetShaderiv'' [UInt (fresh_name env (name_count s)), Enum GL_INFO_LOG_LENGTH],
             Call ''glGetShaderInfoLog''
               [UInt (fresh_name env (name_count s)), SInt (info_log_length msg)]],
           malloc_count := Suc (malloc_count s), name_count := Suc (name_count s)\<rparr>)"
      using c by (intro build_shader_fail [OF assms]) simp_all
  }
  {
    assume "fst (compiler env stage src)"
    then show "build_shader env stage src s =
         (Inr (fresh_name env (name_count s)),
          s\<lparr>api_log := api_log s @
            [Call ''glCreateShader'' [Enum stage],
             Call ''glShaderSource'' [UInt (fresh_name env (name_count s)), Str src],
             Call ''glCompileShader'' [UInt (fresh_name env (name_count s))],
             Call ''glGetShaderiv'' [UInt (fresh_name env (name_count s)), Enum GL_COMPILE_STATUS]],
           name_count := Suc (name_count s)\<rparr>)"
      by (rule build_shader_ok [OF assms])
  }
  {
    assume c: "linker env vert frag = (False, msg) \<and> msg \<noteq> [] \<and> NUL \<notin> set msg \<and>
     length msg + 2 < 2 ^ 31 \<and> malloc_succeeds env (malloc_count s) (length msg + 2)"
    have "\<not> fst (linker env vert frag)" "snd (linker env vert frag) = msg"
      using c by simp_all
    then show "build_program env vert frag s =
         (Inl (Exited (- 1)),
          s\<lparr>stderr_text := stderr_text s @
             ''Error: linking failed with error '' @ [CHR 0x27] @ msg @ [CHR 0x27] @ ''\<newline>'',
           api_log := api_log s @
            [Call ''glCreateProgram'' [],
             Call ''glAttachShader'' [UInt (fresh_name env (name_count s)), UInt vert],
             Call ''glAttachShader'' [UInt (fresh_name env (name_count s)), UInt frag],
             Call ''glLinkProgram'' [UInt (fresh_name env (name_count s))],
             Call ''glGetProgramiv'' [UInt (fresh_name env (name_count s)), Enum GL_LINK_STATUS],
             Call ''glGetProgramiv'' [UInt (fresh_name env (name_count s)), Enum GL_INFO_LOG_LENGTH],
             Call ''glGetProgramInfoLog''
               [UInt (fresh_name env (name_count s)), SInt (info_log_length msg)]],
           malloc_count := Suc (malloc_count s), name_count := Suc (name_count s)\<rparr>)"
      using c by (intro build_program_fail) simp_all
  }
  {
    assume "fst (linker env vert frag)"
    then show "build_program env vert frag s =
         (Inr (fresh_name env (name_count s)),
          s\<lparr>api_log := api_log s @
            [Call ''glCreateProgram'' [],
             Call ''glAttachShader'' [UInt (fresh_name env (name_count s)), UInt vert],
             Call ''glAttachShader'' [UInt (fresh_name env (name_count s)), UInt frag],
             Call ''glLinkProgram'' [UInt (fresh_name env (name_count s))],
             Call ''glGetProgramiv'' [UInt (fresh_name env (name_count s)), Enum GL_LINK_STATUS]],
           name_count := Suc (name_count s)\<rparr>)"
      by (rule build_program_ok)
  }
qed

theorem shader_pipeline_failures_witness:
  "fst (build_shader (demo_platform\<lparr>compiler := \<lambda>stage src. (False, ''0:1: error'')\<rparr>)
      GL_FRAGMENT_SHADER blit_frag_src process_start) = Inl (Exited (- 1)) \<and>
   stderr_text (snd (build_shader (demo_platform\<lparr>compiler := \<lambda>stage src. (False, ''0:1: error'')\<rparr>)
      GL_FRAGMENT_SHADER blit_frag_src process_start)) =
     ''Error: shader failed with error '' @ [CHR 0x27] @ ''0:1: error'' @ [CHR 0x27] @ ''\<newline>'' \<and>
   fst (build_shader demo_platform GL_FRAGMENT_SHADER blit_frag_src process_start) = Inr 1 \<and>
   fst (build_program (demo_platform\<lparr>linker := \<lambda>vert frag. (False, ''0:1: error'')\<rparr>) 1 2
      process_start) = Inl (Exited (- 1)) \<and>
   stderr_text (snd (build_program (demo_platform\<lparr>linker := \<lambda>vert frag. (False, ''0:1: error'')\<rparr>)
      1 2 process_start)) =
     ''Error: linking failed with error '' @ [CHR 0x27] @ ''0:1: error'' @ [CHR 0x27] @ ''\<newline>'' \<and>
   fst (build_program demo_platform 1 2 process_start) = Inr 1"
proof -
  have h: "GL_FRAGMENT_SHADER = GL_VERTEX_SHADER \<or> GL_FRAGMENT_SHADER = GL_FRAGMENT_SHADER"
    by simp
  have m: "''0:1: error'' \<noteq> [] \<and> NUL \<notin> set ''0:1: error'' \<and>
      length ''0:1: error'' + 2 < 2 ^ 31"
    by (simp add: NUL_def)
  have a: "malloc_succeeds demo_platform (malloc_count process_start) (length ''0:1: error'' + 2)"
    by (simp add: demo_platform_def)
  note c = shader_pipeline_failures [OF h, where src = blit_frag_src and vert = 1 and frag = 2
      and msg = "''0:1: error''" and s = process_start
      and env = "demo_platform\<lparr>compiler := \<lambda>stage src. (False, ''0:1: error'')\<rparr>"]
  note l = shader_pipeline_failures [OF h, where src = blit_frag_src and vert = 1 and frag = 2
      and msg = "''0:1: error''" and s = process_start
      and env = "demo_platform\<lparr>linker := \<lambda>vert frag. (False, ''0:1: error'')\<rparr>"]
  note d = shader_pipeline_failures [OF h, where src = blit_frag_src and vert = 1 and frag = 2
      and msg = "''0:1: error''" and s = process_start and env = demo_platform]
  have 1: "build_shader (demo_platform\<lparr>compiler := \<lambda>stage src. (False, ''0:1: error'')\<rparr>)
      GL_FRAGMENT_SHADER blit_frag_src process_start =
    (Inl (Exited (- 1)),
     process_start\<lparr>stderr_text := stderr_text process_start @
       ''Error: shader failed with error '' @ [CHR 0x27] @ ''0:1: error'' @ [CHR 0x27] @ ''\<newline>'',
       api_log := api_log process_start @
        [Call ''glCreateShader'' [Enum GL_FRAGMENT_SHADER],
         Call ''glShaderSource'' [UInt (fresh_name demo_platform (name_count process_start)), Str blit_frag_src],
         Call ''glCompileShader'' [UInt (fresh_name demo_platform (name_count process_start))],
         Call ''glGetShaderiv'' [UInt (fresh_name demo_platform (name_count process_start)), Enum GL_COMPILE_STATUS],
         Call ''glGetShaderiv'' [UInt (fresh_name demo_platform (name_count process_start)), Enum GL_INFO_LOG_LENGTH],
         Call ''glGetShaderInfoLog''
           [UInt (fresh_name demo_platform (name_count process_start)), SInt (info_log_length ''0:1: error'')]],
       malloc_count := Suc (malloc_count process_start),
       name_count := Suc (name_count process_start)\<rparr>)"
    using c m a by simp
  have 2: "build_program (demo_platform\<lparr>linker := \<lambda>vert frag. (False, ''0:1: error'')\<rparr>) 1 2
      process_start =
    (Inl (Exited (- 1)),
     process_start\<lparr>stderr_text := stderr_text process_start @
       ''Error: linking failed with error '' @ [CHR 0x27] @ ''0:1: error'' @ [CHR 0x27] @ ''\<newline>'',
       api_log := api_log process_start @
        [Call ''glCreateProgram'' [],
         Call ''glAttachShader'' [UInt (fresh_name demo_platform (name_count process_start)), UInt 1],
         Call ''glAttachShader'' [UInt (fresh_name demo_platform (name_count process_start)), UInt 2],
         Call ''glLinkProgram'' [UInt (fresh_name demo_platform (name_count process_start))],
         Call ''glGetProgramiv'' [UInt (fresh_name demo_platform (name_count process_start)), Enum GL_LINK_STATUS],
         Call ''glGetProgramiv'' [UInt (fresh_name demo_platform (name_count process_start)), Enum GL_INFO_LOG_LENGTH],
         Call ''glGetProgramInfoLog''
           [UInt (fresh_name demo_platform (name_count process_start)), SInt (info_log_length ''0:1: error'')]],
       malloc_count := Suc (malloc_count process_start),
       name_count := Suc (name_count process_start)\<rparr>)"
    using l m a by simp
  have 3: "fst (build_shader demo_platform GL_FRAGMENT_SHADER blit_frag_src process_start) = Inr 1"
    "fst (build_program demo_platform 1 2 process_start) = Inr 1"
    using d by (simp_all add: demo_platform_def process_start_def)
  show ?thesis
    unfolding 1 2 using 3 by (simp add: process_start_def)
qed

text \<open>
  Without the proviso on the allocation the claim fails: the buffer for the log is
  allocated with an unchecked \<^verbatim>\<open>malloc\<close>, and when that fails the log is written
  through a null pointer and no diagnostic is printed.
\<close>

theorem shader_pipeline_failures_counterexample:
  "fst (build_shader
      (demo_platform\<lparr>compiler := \<lambda>stage src. (False, ''0:1: error''),
                      malloc_succeeds := \<lambda>i bytes. False\<rparr>)
      GL_FRAGMENT_SHADER blit_frag_src process_start) = Inl Undefined \<and>
   stderr_text (snd (build_shader
      (demo_platform\<lparr>compiler := \<lambda>stage src. (False, ''0:1: error''),
                      malloc_succeeds := \<lambda>i bytes. False\<rparr>)
      GL_FRAGMENT_SHADER blit_frag_src process_start)) = []"
proof -
  have "stderr_text process_start = []"
    by (simp add: process_start_def)
  then show ?thesis
    using build_shader_fail_null [of GL_FRAGMENT_SHADER
      "demo_platform\<lparr>compiler := \<lambda>stage src. (False, ''0:1: error''),
                      malloc_succeeds := \<lambda>i bytes. False\<rparr>" blit_frag_src process_start]
    by simp
qed


section \<open>The startup and the loop of main\<close>

lemma make_context_ok:
  assumes "glfw_init_ok env" "created_window env \<noteq> 0" "version_ok env"
  shows "make_context env w h s =
    (Inr (created_window env),
     s\<lparr>api_log := api_log s @
       [Call ''glfwInit'' [],
        Call ''glfwWindowHint'' [Hint GLFW_CONTEXT_VERSION_MAJOR, SInt 3],
        Call ''glfwWindowHint'' [Hint GLFW_CONTEXT_VERSION_MINOR, SInt 3],
        Call ''glfwWindowHint'' [Hint GLFW_OPENGL_FORWARD_COMPAT, SInt GL_TRUE],
        Call ''glfwWindowHint'' [Hint GLFW_OPENGL_PROFILE, SInt GLFW_OPENGL_CORE_PROFILE],
        Call ''glfwCreateWindow'' [SInt (to_signed 32 w), SInt (to_signed 32 h), Str ''swingline''],
        Call ''glfwMakeContextCurrent'' [UInt (created_window env)],
        Call ''glGetString'' [Enum GL_VERSION]]\<rparr>)"
proof -
  obtain c0 c2 where v: "load (version_string env) 0 = Inr c0" "load (version_string env) 2 = Inr c2"
    "\<not> size_t (digit_value c0 * 10 + digit_value c2) < 33"
    using assms(3) by (auto simp add: version_ok_def split: sum.splits)
  show ?thesis
    using assms(1,2) v
    by (simp add: make_context_def Let_def bind_io_def then_io_def gl_def lift_io_def return_io_def)
qed

lemma new_texture_run:
  "new_texture env s =
    (Inr (fresh_name env (name_count s)),
     s\<lparr>api_log := api_log s @
       [Call ''glGenTextures'' [],
        Call ''glBindTexture'' [Enum GL_TEXTURE_2D, UInt (fresh_name env (name_count s))],
        Call ''glTexParameterf'' [Enum GL_TEXTURE_2D, Enum GL_TEXTURE_WRAP_S, Enum GL_CLAMP],
        Call ''glTexParameterf'' [Enum GL_TEXTURE_2D, Enum GL_TEXTURE_WRAP_T, Enum GL_CLAMP],
        Call ''glTexParameteri'' [Enum GL_TEXTURE_2D, Enum GL_TEXTURE_MAG_FILTER, Enum GL_LINEAR],
        Call ''glTexParameteri'' [Enum GL_TEXTURE_2D, Enum GL_TEXTURE_MIN_FILTER, Enum GL_LINEAR]],
      name_count := Suc (name_count s)\<rparr>)"
  by (simp add: new_texture_def bind_io_def then_io_def gl_def gl_gen_def return_io_def)

lemma build_quad_run:
  "build_quad env s =
    (Inr (fresh_name env (name_count s)),
     s\<lparr>api_log := api_log s @
       [Call ''glGenVertexArrays'' [],
        Call ''glGenBuffers'' [],
        Call ''glBindVertexArray'' [UInt (fresh_name env (name_count s))],
        Call ''glBindBuffer'' [Enum GL_ARRAY_BUFFER, UInt (fresh_name env (Suc (name_count s)))],
        Call ''glBufferData'' [Enum GL_ARRAY_BUFFER, SInt (int (8 * sizeof_float)),
          Data (Block (map (Some \<circ> Fl) [- 1, - 1, 1, - 1, 1, 1, - 1, 1])), Enum GL_STATIC_DRAW],
        Call ''glEnableVertexAttribArray'' [UInt 0],
        Call ''glVertexAttribPointer'' [UInt 0, SInt 2, Enum GL_FLOAT, SInt GL_FALSE, SInt 0, UInt 0],
        Call ''glBindVertexArray'' [UInt 0]],
      name_count := Suc (Suc (name_count s))\<rparr>)"
  by (simp add: build_quad_def Let_def bind_io_def then_io_def gl_def gl_gen_def return_io_def)

lemma render_voronoi_run:
  "render_voronoi program fbo vao n m s =
    (Inr (),
     s\<lparr>api_log := api_log s @
       [Call ''glBindFramebuffer'' [Enum GL_FRAMEBUFFER, UInt fbo],
        Call ''glEnable'' [Enum GL_DEPTH_TEST],
        Call ''glClearColor'' [Flt 1, Flt 1, Flt 0, Flt 1],
        Call ''glClearDepth'' [Flt 1],
        Call ''glClear'' [Bits {GL_DEPTH_BUFFER_BIT, GL_COLOR_BUFFER_BIT}],
        Call ''glUseProgram'' [UInt program],
        Call ''glBindVertexArray'' [UInt vao],
        Call ''glDrawArraysInstanced''
          [Enum GL_TRIANGLE_FAN, SInt 0, SInt (to_signed 32 (size_t (n + 2))),
           SInt (to_signed 32 m)],
        Call ''glBindVertexArray'' [UInt 0],
        Call ''glUseProgram'' [UInt 0],
        Call ''glBindFramebuffer'' [Enum GL_FRAMEBUFFER, UInt 0]]\<rparr>)"
  by (simp add: render_voronoi_def bind_io_def then_io_def gl_def return_io_def)

lemma present_pass_run:
  "present_pass win s =
    (Inr (),
     s\<lparr>api_log := api_log s @
       [Call ''glClear'' [Bits {GL_COLOR_BUFFER_BIT, GL_DEPTH_BUFFER_BIT}],
        Call ''glDrawArrays'' [Enum GL_TRIANGLE_FAN, SInt 0, SInt 4],
        Call ''glfwSwapBuffers'' [UInt win],
        Call ''glfwPollEvents'' []]\<rparr>)"
  by (simp add: present_pass_def bind_io_def then_io_def gl_def return_io_def)



lemmas run_simps = make_context_ok build_cone_ok build_instances_ok build_shader_ok build_program_ok
  new_texture_run build_quad_run render_voronoi_run

lemmas run_consts = process_start_def cone_res_def point_count_def width_def height_def
  sizeof_float_def to_signed_def size_t_def GL_FRAMEBUFFER_COMPLETE_def

lemma main_startup_ok:
  assumes "startup_ok env"
  shows "main_startup env process_start =
    (Inr (created_window env),
     \<lparr>stderr_text = [], api_log = calls_to_target_check env @ calls_after_target_check env,
      malloc_count = 2, name_count = 15, rand_seed = 1, rand_count = 200\<rparr>)"
  using assms unfolding startup_ok_def reaches_target_check_def
  by (simp add: main_startup_def main_voronoi_parts_def main_present_parts_def run_simps
      bind_io_def then_io_def gl_def gl_gen_def return_io_def
      run_consts numeral_2_eq_2 [symmetric] calls_to_target_check_def calls_after_target_check_def)

lemma main_startup_incomplete:
  assumes "reaches_target_check env" and "framebuffer_status env \<noteq> GL_FRAMEBUFFER_COMPLETE"
  shows "main_startup env process_start =
    (Inl (Exited (- 1)),
     \<lparr>stderr_text = ''Error: framebuffer is incomplete ('' @
        show_int (framebuffer_status env) @ '')\<newline>'',
      api_log = calls_to_target_check env,
      malloc_count = 2, name_count = 10, rand_seed = 1, rand_count = 200\<rparr>)"
  using assms unfolding reaches_target_check_def
  by (simp add: main_startup_def main_voronoi_parts_def run_simps
      bind_io_def then_io_def gl_def gl_gen_def return_io_def
      run_consts numeral_2_eq_2 [symmetric] calls_to_target_check_def
      fprintf_stderr_def exit_io_def halt_def)

lemma main_loop_closes:
  assumes "close_requested env (i + k)" and "\<forall>j<k. \<not> close_requested env (i + j)"
  shows "main_loop env win i s =
    Some (Inr (), s\<lparr>api_log := api_log s @ concat (replicate k (frame_calls win)) @
      [Call ''glfwWindowShouldClose'' [UInt win]]\<rparr>)"
  using assms
proof (induction k arbitrary: i s)
  case 0
  then show ?case
    by (subst main_loop.simps) (simp add: gl_def)
next
  case (Suc k)
  have open_now: "\<not> close_requested env i"
    using Suc.prems(2) [rule_format, of 0] by simp
  have later: "close_requested env (Suc i + k)" "\<forall>j<k. \<not> close_requested env (Suc i + j)"
    using Suc.prems(1) Suc.prems(2) [rule_format, of "Suc j" for j] by simp_all
  show ?case
    by (subst main_loop.simps)
      (simp add: gl_def open_now present_pass_run Suc.IH [OF later] frame_calls_def)
qed

lemma main_ok:
  assumes "startup_ok env" and "close_requested env k" and "\<forall>j<k. \<not> close_requested env j"
  shows "main env =
    Some (Exited 0,
     \<lparr>stderr_text = [],
      api_log = calls_to_target_check env @ calls_after_target_check env @
        concat (replicate k (frame_calls (created_window env))) @
        [Call ''glfwWindowShouldClose'' [UInt (created_window env)]],
      malloc_count = 2, name_count = 15, rand_seed = 1, rand_count = 200\<rparr>)"
  using main_loop_closes [of env 0 k] assms(2,3)
  by (simp add: main_def main_startup_ok [OF assms(1)])

lemma main_incomplete:
  assumes "reaches_target_check env" and "framebuffer_status env \<noteq> GL_FRAMEBUFFER_COMPLETE"
  shows "main env =
    Some (Exited (- 1),
     \<lparr>stderr_text = ''Error: framebuffer is incomplete ('' @
        show_int (framebuffer_status env) @ '')\<newline>'',
      api_log = calls_to_target_check env,
      malloc_count = 2, name_count = 10, rand_seed = 1, rand_count = 200\<rparr>)"
  by (simp add: main_def main_startup_incomplete [OF assms])


lemma extends_bind:
  assumes "extends_log m" and "\<And>x. extends_log (f x)"
  shows "extends_log (bind_io m f)"
  unfolding extends_log_def
proof
  fix s
  obtain r s1 where m: "m s = (r, s1)"
    by (cases "m s")
  obtain ys where ys: "api_log s1 = api_log s @ ys"
    using assms(1) m unfolding extends_log_def by (metis snd_conv)
  show "\<exists>zs. api_log (snd (bind_io m f s)) = api_log s @ zs"
  proof (cases r)
    case (Inl e)
    then show ?thesis
      using m ys by (simp add: bind_io_def)
  next
    case (Inr x)
    obtain zs where "api_log (snd (f x s1)) = api_log s1 @ zs"
      using assms(2) [of x] unfolding extends_log_def by blast
    then show ?thesis
      using m ys Inr by (simp add: bind_io_def)
  qed
qed

lemma extends_then:
  assumes "extends_log m" and "extends_log k"
  shows "extends_log (then_io m k)"
  unfolding then_io_def using assms by (intro extends_bind)

lemma extends_if:
  assumes "b \<Longrightarrow> extends_log m" and "\<not> b \<Longrightarrow> extends_log k"
  shows "extends_log (if b then m else k)"
  using assms by simp

lemma extends_basic:
  "extends_log (gl c)" "extends_log (gl_gen env c)" "extends_log (return_io x)"
  "extends_log (halt e)" "extends_log (lift_io r)" "extends_log (fprintf_stderr t)"
  "extends_log (exit_io i)" "extends_log (malloc env cell bytes)"
  by (simp_all add: extends_log_def gl_def gl_gen_def return_io_def halt_def lift_io_def
      fprintf_stderr_def exit_io_def malloc_def)

lemma extends_seq: "(\<And>m. m \<in> set ms \<Longrightarrow> extends_log m) \<Longrightarrow> extends_log (seq_io ms)"
  by (induction ms) (simp_all add: extends_basic extends_then)

lemmas extends_intros = extends_bind extends_then extends_if extends_basic

lemma extends_build_shader: "extends_log (build_shader env stage src)"
  unfolding build_shader_def Let_def by (intro extends_intros)

lemma extends_build_program: "extends_log (build_program env vert frag)"
  unfolding build_program_def Let_def by (intro extends_intros)

lemma extends_build_quad: "extends_log (build_quad env)"
  unfolding build_quad_def Let_def seq_io.simps by (intro extends_intros)

lemma extends_render_voronoi: "extends_log (render_voronoi program fbo vao n m)"
  unfolding render_voronoi_def seq_io.simps by (intro extends_intros)


lemma extends_main_present_parts:
  "extends_log (main_present_parts env win vao program fbo tex)"
  unfolding main_present_parts_def seq_io.simps
  by (intro extends_intros extends_build_shader extends_build_program extends_build_quad
      extends_render_voronoi)

lemma main_voronoi_parts_ok:
  assumes "reaches_target_check env" and "framebuffer_status env = GL_FRAMEBUFFER_COMPLETE"
  shows "main_voronoi_parts env process_start =
    (Inr (created_window env, fresh_name env 0, fresh_name env 5, fresh_name env 9,
          fresh_name env 7),
     \<lparr>stderr_text = [],
      api_log = calls_to_target_check env @
        [Call ''glBindFramebuffer'' [Enum GL_FRAMEBUFFER, UInt 0]],
      malloc_count = 2, name_count = 10, rand_seed = 1, rand_count = 200\<rparr>)"
  using assms unfolding reaches_target_check_def
  by (simp add: main_voronoi_parts_def run_simps
      bind_io_def then_io_def gl_def gl_gen_def return_io_def
      run_consts numeral_2_eq_2 [symmetric] calls_to_target_check_def)

lemma main_startup_proceeds:
  assumes "reaches_target_check env" and "framebuffer_status env = GL_FRAMEBUFFER_COMPLETE"
  shows "\<exists>ys. api_log (snd (main_startup env process_start)) =
    calls_to_target_check env @ Call ''glBindFramebuffer'' [Enum GL_FRAMEBUFFER, UInt 0] # ys"
proof -
  let ?s1 = "\<lparr>stderr_text = [],
      api_log = calls_to_target_check env @
        [Call ''glBindFramebuffer'' [Enum GL_FRAMEBUFFER, UInt 0]],
      malloc_count = 2, name_count = 10, rand_seed = 1, rand_count = 200\<rparr>"
  let ?rest = "main_present_parts env (created_window env) (fresh_name env 0) (fresh_name env 5)
      (fresh_name env 9) (fresh_name env 7)"
  have run: "main_startup env process_start = ?rest ?s1"
    by (simp add: main_startup_def bind_io_def main_voronoi_parts_ok [OF assms])
  obtain ys where "api_log (snd (?rest ?s1)) = api_log ?s1 @ ys"
    using extends_main_present_parts unfolding extends_log_def by blast
  then show ?thesis
    unfolding run by simp
qed


lemma filter_concat_replicate:
  "filter P (concat (replicate k xs)) = concat (replicate k (filter P xs))"
  by (induction k) simp_all

lemma pass_trace_append: "pass_trace (xs @ ys) = pass_trace xs @ pass_trace ys"
  by (simp add: pass_trace_def)

lemma pass_trace_frames:
  "pass_trace (concat (replicate k (frame_calls win))) =
     concat (replicate k
       [Call ''glClear'' [Bits {GL_COLOR_BUFFER_BIT, GL_DEPTH_BUFFER_BIT}],
        Call ''glDrawArrays'' [Enum GL_TRIANGLE_FAN, SInt 0, SInt 4],
        Call ''glfwSwapBuffers'' [UInt win]])"
  unfolding pass_trace_def filter_concat_replicate
  by (simp add: frame_calls_def call_name_def)

lemma pass_trace_to_check:
  "pass_trace (calls_to_target_check env) =
     [Call ''glBindFramebuffer'' [Enum GL_FRAMEBUFFER, UInt (fresh_name env 9)]]"
  by (simp add: pass_trace_def calls_to_target_check_def call_name_def)

lemma pass_trace_after_check:
  "pass_trace (calls_after_target_check env) =
     [Call ''glBindFramebuffer'' [Enum GL_FRAMEBUFFER, UInt 0],
      Call ''glBindFramebuffer'' [Enum GL_FRAMEBUFFER, UInt (fresh_name env 9)],
      Call ''glEnable'' [Enum GL_DEPTH_TEST],
      Call ''glClearColor'' [Flt 1, Flt 1, Flt 0, Flt 1],
      Call ''glClearDepth'' [Flt 1],
      Call ''glClear'' [Bits {GL_DEPTH_BUFFER_BIT, GL_COLOR_BUFFER_BIT}],
      Call ''glDrawArraysInstanced''
        [Enum GL_TRIANGLE_FAN, SInt 0, SInt (int (cone_res + 2)), SInt (int point_count)],
      Call ''glBindFramebuffer'' [Enum GL_FRAMEBUFFER, UInt 0],
      Call ''glClearColor'' [Flt 0, Flt 0, Flt 0, Flt 1],
      Call ''glClearDepth'' [Flt 1]]"
  by (simp add: pass_trace_def calls_after_target_check_def call_name_def)

lemma target_trace_to_check:
  "target_trace (calls_to_target_check env) =
     [Call ''glBindTexture'' [Enum GL_TEXTURE_2D, UInt (fresh_name env 7)],
      Call ''glBindTexture'' [Enum GL_TEXTURE_2D, UInt (fresh_name env 8)],
      Call ''glBindTexture'' [Enum GL_TEXTURE_2D, UInt (fresh_name env 7)],
      Call ''glTexImage2D'' [Enum GL_TEXTURE_2D, SInt 0, Enum GL_RGB, SInt (int width),
        SInt (int height), SInt 0, Enum GL_RGB, Enum GL_UNSIGNED_BYTE, Data NULL],
      Call ''glBindTexture'' [Enum GL_TEXTURE_2D, UInt (fresh_name env 8)],
      Call ''glTexImage2D'' [Enum GL_TEXTURE_2D, SInt 0, Enum GL_DEPTH_COMPONENT,
        SInt (int width), SInt (int height), SInt 0, Enum GL_DEPTH_COMPONENT,
        Enum GL_FLOAT, Data NULL],
      Call ''glBindTexture'' [Enum GL_TEXTURE_2D, UInt 0],
      Call ''glFramebufferTexture2D'' [Enum GL_FRAMEBUFFER, Enum GL_COLOR_ATTACHMENT0,
        Enum GL_TEXTURE_2D, UInt (fresh_name env 7), SInt 0],
      Call ''glFramebufferTexture2D'' [Enum GL_FRAMEBUFFER, Enum GL_DEPTH_ATTACHMENT,
        Enum GL_TEXTURE_2D, UInt (fresh_name env 8), SInt 0],
      Call ''glCheckFramebufferStatus'' [Enum GL_FRAMEBUFFER]]"
  by (simp add: target_trace_def calls_to_target_check_def call_name_def)

lemma uploads_append: "uploads (xs @ ys) = uploads xs @ uploads ys"
  by (simp add: uploads_def)

lemma uploads_frames: "uploads (concat (replicate k (frame_calls win))) = []"
  unfolding uploads_def filter_concat_replicate
  by (simp add: frame_calls_def call_name_def)

lemma uploads_to_check:
  "uploads (calls_to_target_check env) =
     [Call ''glBufferData'' [Enum GL_ARRAY_BUFFER, SInt 792,
        Data (Block (packed3 (cone_mesh env cone_res))), Enum GL_STATIC_DRAW],
      Call ''glBufferData'' [Enum GL_ARRAY_BUFFER, SInt 800,
        Data (Block (map Some (drawn_offsets env 1 0 (2 * point_count)))),
        Enum GL_STATIC_DRAW]]"
  by (simp add: uploads_def calls_to_target_check_def call_name_def)

lemma uploads_after_check:
  "uploads (calls_after_target_check env) =
     [Call ''glBufferData'' [Enum GL_ARRAY_BUFFER, SInt 32, Data (Block [Some (Fl (- 1)),
         Some (Fl (- 1)), Some (Fl 1), Some (Fl (- 1)), Some (Fl 1), Some (Fl 1),
         Some (Fl (- 1)), Some (Fl 1)]), Enum GL_STATIC_DRAW]]"
  by (simp add: uploads_def calls_after_target_check_def call_name_def)

lemma demo_reaches_target_check: "reaches_target_check demo_platform"
  by (simp add: reaches_target_check_def version_ok_def demo_platform_def c_string_def load_def
      digit_value_def size_t_def cone_res_def point_count_def sizeof_float_def)

lemma demo_startup_ok: "startup_ok demo_platform"
  using demo_reaches_target_check by (simp add: startup_ok_def demo_platform_def)

section \<open>The completeness check of the offscreen target\<close>

text \<open>
  C7. In a run that reaches the completeness check of the offscreen target: when the
  reported status is anything but \<^verbatim>\<open>GL_FRAMEBUFFER_COMPLETE\<close>, the program prints
  \<^verbatim>\<open>Error: framebuffer is incomplete (status)\<close> and exits with \<^verbatim>\<open>exit(-1)\<close>,
  having made no call after the check; when the status is complete, the first part of the
  startup returns, the framebuffer is unbound and the startup goes on. In both cases the
  colour and the depth texture were given \<open>width\<close> by \<open>height\<close> texels and were
  attached to the framebuffer.
\<close>

theorem target_completeness:
  assumes "reaches_target_check env"
  shows
   "(framebuffer_status env \<noteq> GL_FRAMEBUFFER_COMPLETE \<longrightarrow>
      (\<exists>s'. main env = Some (Exited (- 1), s') \<and>
         stderr_text s' = ''Error: framebuffer is incomplete ('' @
           show_int (framebuffer_status env) @ '')\<newline>'' \<and>
         api_log s' = calls_to_target_check env)) \<and>
    (framebuffer_status env = GL_FRAMEBUFFER_COMPLETE \<longrightarrow>
      (\<exists>s'. main_voronoi_parts env process_start =
           (Inr (created_window env, fresh_name env 0, fresh_name env 5, fresh_name env 9,
                 fresh_name env 7), s') \<and>
         stderr_text s' = [] \<and>
         api_log s' = calls_to_target_check env @
           [Call ''glBindFramebuffer'' [Enum GL_FRAMEBUFFER, UInt 0]]) \<and>
      (\<exists>ys. api_log (snd (main_startup env process_start)) =
         calls_to_target_check env @
           Call ''glBindFramebuffer'' [Enum GL_FRAMEBUFFER, UInt 0] # ys)) \<and>
    target_trace (calls_to_target_check env) =
     [Call ''glBindTexture'' [Enum GL_TEXTURE_2D, UInt (fresh_name env 7)],
      Call ''glBindTexture'' [Enum GL_TEXTURE_2D, UInt (fresh_name env 8)],
      Call ''glBindTexture'' [Enum GL_TEXTURE_2D, UInt (fresh_name env 7)],
      Call ''glTexImage2D'' [Enum GL_TEXTURE_2D, SInt 0, Enum GL_RGB, SInt (int width),
        SInt (int height), SInt 0, Enum GL_RGB, Enum GL_UNSIGNED_BYTE, Data NULL],
      Call ''glBindTexture'' [Enum GL_TEXTURE_2D, UInt (fresh_name env 8)],
      Call ''glTexImage2D'' [Enum GL_TEXTURE_2D, SInt 0, Enum GL_DEPTH_COMPONENT,
        SInt (int width), SInt (int height), SInt 0, Enum GL_DEPTH_COMPONENT,
        Enum GL_FLOAT, Data NULL],
      Call ''glBindTexture'' [Enum GL_TEXTURE_2D, UInt 0],
      Call ''glFramebufferTexture2D'' [Enum GL_FRAMEBUFFER, Enum GL_COLOR_ATTACHMENT0,
        Enum GL_TEXTURE_2D, UInt (fresh_name env 7), SInt 0],
      Call ''glFramebufferTexture2D'' [Enum GL_FRAMEBUFFER, Enum GL_DEPTH_ATTACHMENT,
        Enum GL_TEXTURE_2D, UInt (fresh_name env 8), SInt 0],
      Call ''glCheckFramebufferStatus'' [Enum GL_FRAMEBUFFER]]"
proof (intro conjI impI)
  assume "framebuffer_status env \<noteq> GL_FRAMEBUFFER_COMPLETE"
  then show "\<exists>s'. main env = Some (Exited (- 1), s') \<and>
         stderr_text s' = ''Error: framebuffer is incomplete ('' @
           show_int (framebuffer_status env) @ '')\<newline>'' \<and>
         api_log s' = calls_to_target_check env"
    by (simp add: main_incomplete [OF assms])
next
  assume "framebuffer_status env = GL_FRAMEBUFFER_COMPLETE"
  then show "\<exists>s'. main_voronoi_parts env process_start =
           (Inr (created_window env, fresh_name env 0, fresh_name env 5, fresh_name env 9,
                 fresh_name env 7), s') \<and>
         stderr_text s' = [] \<and>
         api_log s' = calls_to_target_check env @
           [Call ''glBindFramebuffer'' [Enum GL_FRAMEBUFFER, UInt 0]]"
    by (simp add: main_voronoi_parts_ok [OF assms])
next
  assume "framebuffer_status env = GL_FRAMEBUFFER_COMPLETE"
  then show "\<exists>ys. api_log (snd (main_startup env process_start)) =
         calls_to_target_check env @
           Call ''glBindFramebuffer'' [Enum GL_FRAMEBUFFER, UInt 0] # ys"
    by (rule main_startup_proceeds [OF assms])
next
  show "target_trace (calls_to_target_check env) =
     [Call ''glBindTexture'' [Enum GL_TEXTURE_2D, UInt (fresh_name env 7)],
      Call ''glBindTexture'' [Enum GL_TEXTURE_2D, UInt (fresh_name env 8)],
      Call ''glBindTexture'' [Enum GL_TEXTURE_2D, UInt (fresh_name env 7)],
      Call ''glTexImage2D'' [Enum GL_TEXTURE_2D, SInt 0, Enum GL_RGB, SInt (int width),
        SInt (int height), SInt 0, Enum GL_RGB, Enum GL_UNSIGNED_BYTE, Data NULL],
      Call ''glBindTexture'' [Enum GL_TEXTURE_2D, UInt (fresh_name env 8)],
      Call ''glTexImage2D'' [Enum GL_TEXTURE_2D, SInt 0, Enum GL_DEPTH_COMPONENT,
        SInt (int width), SInt (int height), SInt 0, Enum GL_DEPTH_COMPONENT,
        Enum GL_FLOAT, Data NULL],
      Call ''glBindTexture'' [Enum GL_TEXTURE_2D, UInt 0],
      Call ''glFramebufferTexture2D'' [Enum GL_FRAMEBUFFER, Enum GL_COLOR_ATTACHMENT0,
        Enum GL_TEXTURE_2D, UInt (fresh_name env 7), SInt 0],
      Call ''glFramebufferTexture2D'' [Enum GL_FRAMEBUFFER, Enum GL_DEPTH_ATTACHMENT,
        Enum GL_TEXTURE_2D, UInt (fresh_name env 8), SInt 0],
      Call ''glCheckFramebufferStatus'' [Enum GL_FRAMEBUFFER]]"
    by (rule target_trace_to_check)
qed

theorem target_completeness_witness:
  "(\<exists>s'. main (demo_platform\<lparr>framebuffer_status := 36054\<rparr>) = Some (Exited (- 1), s') \<and>
      stderr_text s' = ''Error: framebuffer is incomplete (36054)\<newline>'') \<and>
   (\<exists>ys. api_log (snd (main_startup demo_platform process_start)) =
      calls_to_target_check demo_platform @
        Call ''glBindFramebuffer'' [Enum GL_FRAMEBUFFER, UInt 0] # ys)"
proof -
  have r: "reaches_target_check (demo_platform\<lparr>framebuffer_status := 36054\<rparr>)"
    by (simp add: reaches_target_check_def version_ok_def demo_platform_def c_string_def load_def
        digit_value_def size_t_def cone_res_def point_count_def sizeof_float_def)
  have i: "framebuffer_status (demo_platform\<lparr>framebuffer_status := 36054\<rparr>) \<noteq>
      GL_FRAMEBUFFER_COMPLETE"
    by (simp add: GL_FRAMEBUFFER_COMPLETE_def)
  have c: "framebuffer_status demo_platform = GL_FRAMEBUFFER_COMPLETE"
    by (simp add: demo_platform_def)
  have t: "show_int 36054 = ''36054''"
    by (simp add: show_int_def show_nat.simps)
  have "\<exists>s'. main (demo_platform\<lparr>framebuffer_status := 36054\<rparr>) = Some (Exited (- 1), s') \<and>
      stderr_text s' = ''Error: framebuffer is incomplete (36054)\<newline>''"
    using target_completeness [OF r] i t by auto
  moreover have "\<exists>ys. api_log (snd (main_startup demo_platform process_start)) =
      calls_to_target_check demo_platform @
        Call ''glBindFramebuffer'' [Enum GL_FRAMEBUFFER, UInt 0] # ys"
    using target_completeness [OF demo_reaches_target_check] c by blast
  ultimately show ?thesis
    by blast
qed

section \<open>The two passes\<close>

text \<open>
  The loop ends only when the window asks to close: while it never does, the run has no
  end.
\<close>

lemma main_loop_returns_closed:
  assumes "main_loop env win i s = Some r"
  shows "\<exists>j. close_requested env j"
proof (rule main_loop.raw_induct
    [where P = "\<lambda>env win frame s r. \<exists>j. close_requested env j", OF _ assms])
  fix loop env win frame s r
  assume IH: "\<And>env win frame s r. loop env win frame s = Some r \<Longrightarrow> \<exists>j. close_requested env j"
    and body: "(case gl (Call ''glfwWindowShouldClose'' [UInt win]) s of
        (Inl e, s1) \<Rightarrow> Some (Inl e, s1)
      | (Inr _, s1) \<Rightarrow>
          if close_requested env frame then Some (Inr (), s1)
          else (case present_pass win s1 of
                  (Inl e, s2) \<Rightarrow> Some (Inl e, s2)
                | (Inr _, s2) \<Rightarrow> loop env win (Suc frame) s2)) = Some r"
  show "\<exists>j. close_requested env j"
  proof (cases "close_requested env frame")
    case True
    then show ?thesis ..
  next
    case False
    then obtain s2 where "loop env win (Suc frame) s2 = Some r"
      using body by (simp add: gl_def present_pass_run)
    then show ?thesis
      by (rule IH)
  qed
qed

lemma main_runs_while_open:
  assumes "startup_ok env" and "\<forall>j. \<not> close_requested env j"
  shows "main env = None"
proof -
  have "main_loop env win 0 s = None" for win s
    using main_loop_returns_closed [of env win 0 s] assms(2) by (cases "main_loop env win 0 s") auto
  then show ?thesis
    by (simp add: main_def main_startup_ok [OF assms(1)])
qed


text \<open>
  C8. In every run that starts up and whose window first asks to close at the \<open>k\<close>-th
  poll, \<^verbatim>\<open>main\<close> returns 0, and the calls that make up the passes are, in this
  order: the binding of the offscreen target for its attachments; the offscreen pass, once
  (bind the target, enable the depth test, clear colour \<open>(1, 1, 0, 1)\<close> and depth 1,
  clear, one instanced triangle-fan draw of \<open>cone_res + 2\<close> vertices and
  \<open>point_count\<close> instances, unbind); the clear colour \<open>(0, 0, 0, 1)\<close> and depth 1 for
  the loop; and then \<open>k\<close> times the present pass (clear, one triangle-fan draw of 4
  vertices, buffer swap), one for each poll at which the window stays open.
\<close>

theorem render_passes:
  assumes "startup_ok env" and "close_requested env k" and "\<forall>j<k. \<not> close_requested env j"
  shows "\<exists>s'. main env = Some (Exited 0, s') \<and>
    pass_trace (api_log s') =
      [Call ''glBindFramebuffer'' [Enum GL_FRAMEBUFFER, UInt (fresh_name env 9)],
       Call ''glBindFramebuffer'' [Enum GL_FRAMEBUFFER, UInt 0]] @
      [Call ''glBindFramebuffer'' [Enum GL_FRAMEBUFFER, UInt (fresh_name env 9)],
       Call ''glEnable'' [Enum GL_DEPTH_TEST],
       Call ''glClearColor'' [Flt 1, Flt 1, Flt 0, Flt 1],
       Call ''glClearDepth'' [Flt 1],
       Call ''glClear'' [Bits {GL_DEPTH_BUFFER_BIT, GL_COLOR_BUFFER_BIT}],
       Call ''glDrawArraysInstanced''
         [Enum GL_TRIANGLE_FAN, SInt 0, SInt (int (cone_res + 2)), SInt (int point_count)],
       Call ''glBindFramebuffer'' [Enum GL_FRAMEBUFFER, UInt 0]] @
      [Call ''glClearColor'' [Flt 0, Flt 0, Flt 0, Flt 1],
       Call ''glClearDepth'' [Flt 1]] @
      concat (replicate k
        [Call ''glClear'' [Bits {GL_COLOR_BUFFER_BIT, GL_DEPTH_BUFFER_BIT}],
         Call ''glDrawArrays'' [Enum GL_TRIANGLE_FAN, SInt 0, SInt 4],
         Call ''glfwSwapBuffers'' [UInt (created_window env)]])"
proof -
  let ?log = "calls_to_target_check env @ calls_after_target_check env @
      concat (replicate k (frame_calls (created_window env))) @
      [Call ''glfwWindowShouldClose'' [UInt (created_window env)]]"
  let ?s' = "\<lparr>stderr_text = [], api_log = ?log,
      malloc_count = 2, name_count = 15, rand_seed = 1, rand_count = 200\<rparr>"
  have run: "main env = Some (Exited 0, ?s')"
    by (rule main_ok [OF assms])
  have last: "pass_trace [Call ''glfwWindowShouldClose'' [UInt (created_window env)]] = []"
    by (simp add: pass_trace_def call_name_def)
  have log: "api_log ?s' = ?log"
    by simp
  have passes: "pass_trace (api_log ?s') =
      [Call ''glBindFramebuffer'' [Enum GL_FRAMEBUFFER, UInt (fresh_name env 9)],
       Call ''glBindFramebuffer'' [Enum GL_FRAMEBUFFER, UInt 0]] @
      [Call ''glBindFramebuffer'' [Enum GL_FRAMEBUFFER, UInt (fresh_name env 9)],
       Call ''glEnable'' [Enum GL_DEPTH_TEST],
       Call ''glClearColor'' [Flt 1, Flt 1, Flt 0, Flt 1],
       Call ''glClearDepth'' [Flt 1],
       Call ''glClear'' [Bits {GL_DEPTH_BUFFER_BIT, GL_COLOR_BUFFER_BIT}],
       Call ''glDrawArraysInstanced''
         [Enum GL_TRIANGLE_FAN, SInt 0, SInt (int (cone_res + 2)), SInt (int point_count)],
       Call ''glBindFramebuffer'' [Enum GL_FRAMEBUFFER, UInt 0]] @
      [Call ''glClearColor'' [Flt 0, Flt 0, Flt 0, Flt 1],
       Call ''glClearDepth'' [Flt 1]] @
      concat (replicate k
        [Call ''glClear'' [Bits {GL_COLOR_BUFFER_BIT, GL_DEPTH_BUFFER_BIT}],
         Call ''glDrawArrays'' [Enum GL_TRIANGLE_FAN, SInt 0, SInt 4],
         Call ''glfwSwapBuffers'' [UInt (created_window env)]])"
    unfolding log pass_trace_append pass_trace_to_check pass_trace_after_check pass_trace_frames
      last
    by simp
  show ?thesis
    by (intro exI [of _ ?s'] conjI run passes)
qed

theorem render_passes_witness:
  "\<exists>s'. main demo_platform = Some (Exited 0, s') \<and>
    pass_trace (api_log s') =
      [Call ''glBindFramebuffer'' [Enum GL_FRAMEBUFFER, UInt 10],
       Call ''glBindFramebuffer'' [Enum GL_FRAMEBUFFER, UInt 0],
       Call ''glBindFramebuffer'' [Enum GL_FRAMEBUFFER, UInt 10],
       Call ''glEnable'' [Enum GL_DEPTH_TEST],
       Call ''glClearColor'' [Flt 1, Flt 1, Flt 0, Flt 1],
       Call ''glClearDepth'' [Flt 1],
       Call ''glClear'' [Bits {GL_DEPTH_BUFFER_BIT, GL_COLOR_BUFFER_BIT}],
       Call ''glDrawArraysInstanced'' [Enum GL_TRIANGLE_FAN, SInt 0, SInt 66, SInt 100],
       Call ''glBindFramebuffer'' [Enum GL_FRAMEBUFFER, UInt 0],
       Call ''glClearColor'' [Flt 0, Flt 0, Flt 0, Flt 1],
       Call ''glClearDepth'' [Flt 1],
       Call ''glClear'' [Bits {GL_COLOR_BUFFER_BIT, GL_DEPTH_BUFFER_BIT}],
       Call ''glDrawArrays'' [Enum GL_TRIANGLE_FAN, SInt 0, SInt 4],
       Call ''glfwSwapBuffers'' [UInt 1],
       Call ''glClear'' [Bits {GL_COLOR_BUFFER_BIT, GL_DEPTH_BUFFER_BIT}],
       Call ''glDrawArrays'' [Enum GL_TRIANGLE_FAN, SInt 0, SInt 4],
       Call ''glfwSwapBuffers'' [UInt 1]]"
proof -
  have c: "close_requested demo_platform 2" "\<forall>j<2. \<not> close_requested demo_platform j"
    by (simp_all add: demo_platform_def)
  have d: "fresh_name demo_platform 9 = 10" "created_window demo_platform = 1"
    "int (cone_res + 2) = 66" "int point_count = 100"
    by (simp_all add: demo_platform_def cone_res_def point_count_def)
  have r: "concat (replicate 2 xs) = xs @ xs" for xs :: "api_call list"
    by (simp add: numeral_2_eq_2)
  show ?thesis
    using render_passes [OF demo_startup_ok c] unfolding d r by auto
qed


section \<open>The seed of the instance offsets\<close>

lemma cone_mesh_cong:
  assumes "libm_cos env1 = libm_cos env2" and "libm_sin env1 = libm_sin env2"
  shows "cone_mesh env1 n = cone_mesh env2 n"
proof -
  have "fcos env1 a = fcos env2 a" and "fsin env1 a = fsin env2 a" for a
    by (cases a; simp add: fcos_def fsin_def assms)+
  then have "cone_vertex env1 n = cone_vertex env2 n"
    by (intro ext) (simp add: cone_vertex_def)
  then show ?thesis
    by (simp only: cone_mesh_def)
qed

lemma drawn_offsets_cong:
  assumes "RAND_MAX env1 = RAND_MAX env2" and "rand_sequence env1 seed = rand_sequence env2 seed"
  shows "drawn_offsets env1 seed c m = drawn_offsets env2 seed c m"
  using assms by (simp add: drawn_offsets_def random_offset_def)

text \<open>
  C9, as the code has it. The program never seeds \<^verbatim>\<open>rand\<close>: the offsets are drawn
  with the seed a process starts with, 1, from the first \<open>2 * point_count\<close> values of
  the C library's sequence for that seed. Two runs on platforms that agree on
  \<^verbatim>\<open>RAND_MAX\<close> and on that sequence, whatever else differs between them (the system
  entropy, when the window closes), upload the same offsets.
\<close>

theorem offsets_reproducible:
  assumes "startup_ok env1" and "close_requested env1 k1" and "\<forall>j<k1. \<not> close_requested env1 j"
    and "startup_ok env2" and "close_requested env2 k2" and "\<forall>j<k2. \<not> close_requested env2 j"
    and "RAND_MAX env1 = RAND_MAX env2" and "rand_sequence env1 1 = rand_sequence env2 1"
  shows "\<exists>s1 s2. main env1 = Some (Exited 0, s1) \<and> main env2 = Some (Exited 0, s2) \<and>
    rand_seed s1 = 1 \<and> rand_seed s2 = 1 \<and>
    uploads (api_log s1) ! 1 =
      Call ''glBufferData'' [Enum GL_ARRAY_BUFFER, SInt 800,
        Data (Block (map Some (drawn_offsets env1 1 0 (2 * point_count)))), Enum GL_STATIC_DRAW] \<and>
    uploads (api_log s2) ! 1 = uploads (api_log s1) ! 1"
proof -
  let ?s = "\<lambda>env k. \<lparr>stderr_text = [],
      api_log = calls_to_target_check env @ calls_after_target_check env @
        concat (replicate k (frame_calls (created_window env))) @
        [Call ''glfwWindowShouldClose'' [UInt (created_window env)]],
      malloc_count = 2, name_count = 15, rand_seed = 1, rand_count = 200\<rparr>"
  have run1: "main env1 = Some (Exited 0, ?s env1 k1)"
    by (rule main_ok [OF assms(1,2,3)])
  have run2: "main env2 = Some (Exited 0, ?s env2 k2)"
    by (rule main_ok [OF assms(4,5,6)])
  have up: "uploads (api_log (?s env k)) ! 1 =
      Call ''glBufferData'' [Enum GL_ARRAY_BUFFER, SInt 800,
        Data (Block (map Some (drawn_offsets env 1 0 (2 * point_count)))), Enum GL_STATIC_DRAW]"
    for env k
  proof -
    have "uploads [Call ''glfwWindowShouldClose'' [UInt (created_window env)]] = []"
      by (simp add: uploads_def call_name_def)
    then show ?thesis
      by (simp add: uploads_append uploads_to_check uploads_after_check uploads_frames)
  qed
  have same: "drawn_offsets env2 1 0 (2 * point_count) = drawn_offsets env1 1 0 (2 * point_count)"
    by (rule drawn_offsets_cong [OF assms(7) [symmetric] assms(8) [symmetric]])
  have seed: "rand_seed (?s env1 k1) = 1" "rand_seed (?s env2 k2) = 1"
    by simp_all
  have eq: "uploads (api_log (?s env2 k2)) ! 1 = uploads (api_log (?s env1 k1)) ! 1"
    unfolding up same ..
  show ?thesis
    by (intro exI [of _ "?s env1 k1"] exI [of _ "?s env2 k2"] conjI run1 run2 seed up eq)
qed

theorem offsets_reproducible_witness:
  "\<exists>s1 s2. main demo_platform = Some (Exited 0, s1) \<and>
     main (demo_platform\<lparr>system_entropy := 12345, close_requested := \<lambda>i. 5 \<le> i\<rparr>) =
       Some (Exited 0, s2) \<and>
     rand_seed s1 = 1 \<and> rand_seed s2 = 1 \<and>
     uploads (api_log s2) ! 1 = uploads (api_log s1) ! 1"
proof -
  let ?P = "demo_platform\<lparr>system_entropy := 12345, close_requested := \<lambda>i. 5 \<le> i\<rparr>"
  have c1: "close_requested demo_platform 2" "\<forall>j<2. \<not> close_requested demo_platform j"
    by (simp_all add: demo_platform_def)
  have ok: "startup_ok ?P"
    by (simp add: startup_ok_def reaches_target_check_def version_ok_def demo_platform_def
        c_string_def load_def digit_value_def size_t_def cone_res_def point_count_def
        sizeof_float_def)
  have c2: "close_requested ?P 5" "\<forall>j<5. \<not> close_requested ?P j"
    by simp_all
  have same: "RAND_MAX demo_platform = RAND_MAX ?P"
    "rand_sequence demo_platform 1 = rand_sequence ?P 1"
    by simp_all
  show ?thesis
    using offsets_reproducible [OF demo_startup_ok c1 ok c2 same] by blast
qed

text \<open>
  Against the claim, a run with another system entropy is the same run: the entropy is
  not the seed, which is 1.
\<close>

theorem offsets_reproducible_counterexample:
  "main (demo_platform\<lparr>system_entropy := 12345\<rparr>) = main demo_platform \<and>
   main demo_platform \<noteq> None \<and>
   rand_seed (snd (the (main (demo_platform\<lparr>system_entropy := 12345\<rparr>)))) = 1"
proof -
  let ?P = "demo_platform\<lparr>system_entropy := 12345\<rparr>"
  have c1: "close_requested demo_platform 2" "\<forall>j<2. \<not> close_requested demo_platform j"
    by (simp_all add: demo_platform_def)
  have ok: "startup_ok ?P"
    by (simp add: startup_ok_def reaches_target_check_def version_ok_def demo_platform_def
        c_string_def load_def digit_value_def size_t_def cone_res_def point_count_def
        sizeof_float_def)
  have c2: "close_requested ?P 2" "\<forall>j<2. \<not> close_requested ?P j"
    using c1 by simp_all
  have mesh: "cone_mesh ?P cone_res = cone_mesh demo_platform cone_res"
    by (rule cone_mesh_cong) simp_all
  have same: "calls_to_target_check ?P = calls_to_target_check demo_platform"
    "calls_after_target_check ?P = calls_after_target_check demo_platform"
    "created_window ?P = created_window demo_platform"
    by (simp_all add: calls_to_target_check_def calls_after_target_check_def
        drawn_offsets_def random_offset_def mesh)
  show ?thesis
    unfolding main_ok [OF ok c2] main_ok [OF demo_startup_ok c1] same by simp
qed

end
